theory Spec2Isabelle
  imports Main "HOL-Library.Word"
begin

unbundle bit_operations_syntax

section \<open>Machine integers, memory and the outside world\<close>

text \<open>
  The C integers of \<^verbatim>\<open>dpiVar.c\<close> are words of their width, so that every sum and
  product wraps as it does in C. An address is a natural number; a NULL pointer is
  \<open>None\<close>.
\<close>

type_synonym uint8 = "8 word"
type_synonym uint16 = "16 word"
type_synonym int16 = "16 word"
type_synonym uint32 = "32 word"
type_synonym int32 = "32 word"
type_synonym addr = nat

text \<open>
  One byte of a heap block: not yet written (\<open>Undef\<close>, what \<^verbatim>\<open>malloc\<close> returns),
  a data byte, or the \<open>k\<close>-th byte of a stored pointer.
\<close>

datatype memval = Undef | Byte uint8 | PtrFrag "addr option" nat

text \<open>An element of a typed array that \<^verbatim>\<open>malloc\<close> returned and nobody wrote yet.\<close>

datatype 'a cell = Indeterminate | Init 'a

datatype dpiHandleTypeNum =
  DPI_HTYPE_CONN | DPI_HTYPE_STMT | DPI_HTYPE_VAR | DPI_HTYPE_LOB
  | DPI_HTYPE_OBJECT | DPI_HTYPE_OBJECT_TYPE | DPI_HTYPE_ROWID

text \<open>
  A reference-counted handle of the library (\<^verbatim>\<open>dpiLob\<close>, \<^verbatim>\<open>dpiStmt\<close>,
  \<^verbatim>\<open>dpiRowid\<close>, \<^verbatim>\<open>dpiObject\<close>): its kind, the native pointer it wraps (the
  locator of a LOB, the \<^verbatim>\<open>handle\<close> of a statement or rowid, the \<^verbatim>\<open>instance\<close> of
  an object) and, for an object, its \<^verbatim>\<open>indicator\<close>.
\<close>

record dpiHandle =
  typeNum :: dpiHandleTypeNum
  native :: "addr option"
  nativeInd :: "addr option"

text \<open>
  The world outside the variable: the heap of byte blocks, the next unused address, the
  scripted results of the calls that can fail (\<^verbatim>\<open>malloc\<close>, \<^verbatim>\<open>calloc\<close> and the calls
  into OCI: \<open>False\<close> makes the next such call fail, an empty script lets every call
  succeed), the trace of \<^verbatim>\<open>free\<close> calls, the trace of reference-count changes, and the
  table of live handles.
\<close>

record world =
  heap :: "addr \<Rightarrow> memval list option"
  next_addr :: addr
  outcomes :: "bool list"
  frees :: "addr list"
  refs :: "(addr \<times> int) list"
  handles :: "addr \<Rightarrow> dpiHandle option"

definition next_outcome :: "world \<Rightarrow> bool \<times> world" where
  "next_outcome w =
     (case outcomes w of [] \<Rightarrow> (True, w) | b # bs \<Rightarrow> (b, w\<lparr>outcomes := bs\<rparr>))"

text \<open>\<^verbatim>\<open>malloc(n)\<close>: NULL when the script says so, else a fresh block of \<open>n\<close> unwritten bytes.\<close>

definition malloc :: "nat \<Rightarrow> world \<Rightarrow> addr option \<times> world" where
  "malloc n w =
     (case next_outcome w of
        (False, w1) \<Rightarrow> (None, w1)
      | (True, w1) \<Rightarrow>
          (Some (next_addr w1),
           w1\<lparr>heap := (heap w1)(next_addr w1 := Some (replicate n Undef)),
              next_addr := Suc (next_addr w1)\<rparr>))"

text \<open>
  \<^verbatim>\<open>free(p)\<close>: the block is gone and the call is written to the trace, so that a
  pointer freed twice stands twice in \<open>frees\<close>.
\<close>

definition free :: "addr \<Rightarrow> world \<Rightarrow> world" where
  "free p w = w\<lparr>heap := (heap w)(p := None), frees := frees w @ [p]\<rparr>"

text \<open>
  Modelled from the spec: \<^verbatim>\<open>dpiGen__setRefCount\<close> is not in \<^verbatim>\<open>dpiVar.c\<close>. The spec
  says handles "use simple strong-reference counting": the call adds the increment to
  the handle's count. The model writes each call to the trace \<open>refs\<close>; the count of a
  handle is the sum of its increments.
\<close>

definition dpiGen__setRefCount :: "addr \<Rightarrow> int \<Rightarrow> world \<Rightarrow> world" where
  "dpiGen__setRefCount h increment w = w\<lparr>refs := refs w @ [(h, increment)]\<rparr>"

definition refCount :: "world \<Rightarrow> addr \<Rightarrow> int" where
  "refCount w h = sum_list (map snd (filter (\<lambda>e. fst e = h) (refs w)))"

section \<open>Errors\<close>

datatype dpiErrorNum =
  DPI_ERR_NO_MEMORY | DPI_ERR_INVALID_HANDLE | DPI_ERR_ARRAY_SIZE_ZERO
  | DPI_ERR_ARRAY_SIZE_TOO_BIG | DPI_ERR_ARRAY_SIZE_EXCEEDED | DPI_ERR_NOT_SUPPORTED
  | DPI_ERR_NO_OBJECT_TYPE | DPI_ERR_UNHANDLED_CONVERSION | DPI_ERR_BUFFER_SIZE_TOO_SMALL
  | DPI_ERR_INVALID_ORACLE_TYPE | DPI_ERR_EXTERNAL

text \<open>
  What a function returns: \<^verbatim>\<open>DPI_SUCCESS\<close>, \<^verbatim>\<open>DPI_FAILURE\<close> with the error that
  \<^verbatim>\<open>dpiError__set\<close> recorded (\<open>DPI_ERR_EXTERNAL\<close> stands for the error of a failed
  OCI call or of a failed call into another file of the library), or \<open>UNDEFINED\<close> where
  the C program reads or writes through a NULL pointer or outside an array.
\<close>

datatype dpiStatus = DPI_SUCCESS | DPI_FAILURE dpiErrorNum | UNDEFINED

text \<open>
  A \<^verbatim>\<open>for\<close> loop over the indices \<open>i, i + 1, ..\<close>, \<open>k\<close> of them, that leaves at the first
  step that does not succeed.
\<close>

fun for_loop :: "(nat \<Rightarrow> 's \<Rightarrow> dpiStatus \<times> 's) \<Rightarrow> nat \<Rightarrow> nat \<Rightarrow> 's \<Rightarrow> dpiStatus \<times> 's" where
  "for_loop body i 0 s = (DPI_SUCCESS, s)"
| "for_loop body i (Suc k) s =
     (case body i s of
        (DPI_SUCCESS, s') \<Rightarrow> for_loop body (Suc i) k s'
      | (st, s') \<Rightarrow> (st, s'))"

section \<open>Constants and types of the headers\<close>

text \<open>
  \<^verbatim>\<open>dpiImpl.h\<close> and the OCI headers are not part of the source at hand; what
  \<^verbatim>\<open>dpiVar.c\<close> takes from them is a parameter of the model.
\<close>

text \<open>\<^verbatim>\<open>INT_MAX\<close> of \<^verbatim>\<open>limits.h\<close>, for the 32-bit \<^verbatim>\<open>int\<close>.\<close>

definition INT_MAX :: nat where
  "INT_MAX = 2147483647"

datatype dpiOracleTypeNum =
  DPI_ORACLE_TYPE_VARCHAR | DPI_ORACLE_TYPE_NVARCHAR | DPI_ORACLE_TYPE_CHAR
  | DPI_ORACLE_TYPE_NCHAR | DPI_ORACLE_TYPE_ROWID | DPI_ORACLE_TYPE_RAW
  | DPI_ORACLE_TYPE_NATIVE_FLOAT | DPI_ORACLE_TYPE_NATIVE_DOUBLE
  | DPI_ORACLE_TYPE_NATIVE_INT | DPI_ORACLE_TYPE_NUMBER | DPI_ORACLE_TYPE_DATE
  | DPI_ORACLE_TYPE_TIMESTAMP | DPI_ORACLE_TYPE_TIMESTAMP_TZ
  | DPI_ORACLE_TYPE_TIMESTAMP_LTZ | DPI_ORACLE_TYPE_INTERVAL_DS
  | DPI_ORACLE_TYPE_INTERVAL_YM | DPI_ORACLE_TYPE_CLOB | DPI_ORACLE_TYPE_NCLOB
  | DPI_ORACLE_TYPE_BLOB | DPI_ORACLE_TYPE_BFILE | DPI_ORACLE_TYPE_STMT
  | DPI_ORACLE_TYPE_BOOLEAN | DPI_ORACLE_TYPE_OBJECT | DPI_ORACLE_TYPE_LONG_VARCHAR
  | DPI_ORACLE_TYPE_LONG_NVARCHAR | DPI_ORACLE_TYPE_LONG_RAW

datatype dpiNativeTypeNum =
  DPI_NATIVE_TYPE_INT64 | DPI_NATIVE_TYPE_UINT64 | DPI_NATIVE_TYPE_FLOAT
  | DPI_NATIVE_TYPE_DOUBLE | DPI_NATIVE_TYPE_BYTES | DPI_NATIVE_TYPE_TIMESTAMP
  | DPI_NATIVE_TYPE_INTERVAL_DS | DPI_NATIVE_TYPE_INTERVAL_YM | DPI_NATIVE_TYPE_LOB
  | DPI_NATIVE_TYPE_OBJECT | DPI_NATIVE_TYPE_STMT | DPI_NATIVE_TYPE_BOOLEAN
  | DPI_NATIVE_TYPE_ROWID

text \<open>
  An entry of the type table, with the fields \<^verbatim>\<open>dpiVar.c\<close> reads. The flags are C
  integers used as truth values.
\<close>

record dpiOracleType =
  oracleTypeNum :: dpiOracleTypeNum
  defaultNativeTypeNum :: dpiNativeTypeNum
  charsetForm :: uint8
  typeSizeInBytes :: uint32
  isCharacterData :: bool
  canBeInArray :: bool
  typeRequiresPreFetch :: bool

text \<open>
  What \<^verbatim>\<open>dpiVar.c\<close> takes from the headers and from \<^verbatim>\<open>dpiOracleType.c\<close>: the
  constants and the type table behind \<^verbatim>\<open>dpiOracleType__getFromNum\<close> (NULL for a number
  that is no type).
\<close>

record dpiImpl =
  DPI_MAX_BASIC_BUFFER_SIZE :: uint32
  DPI_DYNAMIC_BYTES_CHUNK_SIZE :: uint32
  DPI_NUMBER_AS_TEXT_CHARS :: uint32
  DPI_CHARSET_ID_UTF16 :: uint16
  SQLCS_IMPLICIT :: uint8
  OCI_IND_NULL :: int16
  SIZEOF_PTR :: nat
  dpiOracleType__getFromNum :: "dpiOracleTypeNum \<Rightarrow> dpiOracleType option"

record dpiEnv =
  charsetId :: uint16
  maxBytesPerCharacter :: int32
  nmaxBytesPerCharacter :: int32
  encoding :: string
  nencoding :: string

record dpiConn =
  connHandle :: addr
  connEnv :: dpiEnv

section \<open>The data of a variable\<close>

text \<open>
  \<^verbatim>\<open>dpiDynamicBytesChunk\<close> (\<open>c_ptr\<close>, \<open>c_length\<close> for its \<^verbatim>\<open>ptr\<close> and
  \<^verbatim>\<open>length\<close>) and \<^verbatim>\<open>dpiDynamicBytes\<close>. \<^verbatim>\<open>calloc\<close> returns them zeroed.
\<close>

record dpiDynamicBytesChunk =
  c_ptr :: "addr option"
  c_length :: uint32
  allocatedLength :: uint32

record dpiDynamicBytes =
  numChunks :: uint32
  allocatedChunks :: uint32
  chunks :: "dpiDynamicBytesChunk list option"

definition zero_chunk :: dpiDynamicBytesChunk where
  "zero_chunk = \<lparr>c_ptr = None, c_length = 0, allocatedLength = 0\<rparr>"

definition zero_dynBytes :: dpiDynamicBytes where
  "zero_dynBytes = \<lparr>numChunks = 0, allocatedChunks = 0, chunks = None\<rparr>"

text \<open>
  \<^verbatim>\<open>dpiBytes\<close>: \<open>b_ptr\<close> is a block and an offset into it. \<^verbatim>\<open>dpiData\<close>: the null flag
  and the union \<^verbatim>\<open>value\<close>, of which the model keeps the member \<^verbatim>\<open>asBytes\<close>; the
  members \<^verbatim>\<open>asLOB\<close>, \<^verbatim>\<open>asObject\<close>, \<^verbatim>\<open>asStmt\<close> and \<^verbatim>\<open>asRowid\<close> are pointers that
  share their storage with \<^verbatim>\<open>asBytes.ptr\<close>.
\<close>

record dpiBytes =
  b_ptr :: "(addr \<times> nat) option"
  b_length :: uint32
  b_encoding :: "string option"

record dpiData =
  isNull :: bool
  asBytes :: dpiBytes

definition zero_data :: dpiData where
  "zero_data = \<lparr>isNull = False, asBytes = \<lparr>b_ptr = None, b_length = 0, b_encoding = None\<rparr>\<rparr>"

definition asHandle :: "dpiData \<Rightarrow> addr option" where
  "asHandle d = map_option fst (b_ptr (asBytes d))"

definition set_asHandle :: "addr option \<Rightarrow> dpiData \<Rightarrow> dpiData" where
  "set_asHandle h d = d\<lparr>asBytes := (asBytes d)\<lparr>b_ptr := map_option (\<lambda>a. (a, 0)) h\<rparr>\<rparr>"

section \<open>The chunk allocator\<close>

text \<open>\<^verbatim>\<open>dpiVar__allocateChunks\<close>: eight more chunk entries, the first \<open>numChunks\<close> kept.\<close>

definition dpiVar__allocateChunks ::
  "dpiDynamicBytes \<Rightarrow> world \<Rightarrow> dpiStatus \<times> dpiDynamicBytes \<times> world" where
  "dpiVar__allocateChunks dynBytes w =
     (let allocatedChunks' = allocatedChunks dynBytes + 8 in
      case next_outcome w of
        (False, w1) \<Rightarrow> (DPI_FAILURE DPI_ERR_NO_MEMORY, dynBytes, w1)
      | (True, w1) \<Rightarrow>
          (case chunks dynBytes of
             None \<Rightarrow>
               (DPI_SUCCESS,
                dynBytes\<lparr>chunks := Some (replicate (unat allocatedChunks') zero_chunk),
                         allocatedChunks := allocatedChunks'\<rparr>, w1)
           | Some old \<Rightarrow>
               if unat (numChunks dynBytes) \<le> length old
                  \<and> unat (numChunks dynBytes) \<le> unat allocatedChunks'
               then
                 (DPI_SUCCESS,
                  dynBytes\<lparr>chunks := Some (take (unat (numChunks dynBytes)) old
                              @ replicate (unat allocatedChunks' - unat (numChunks dynBytes))
                                  zero_chunk),
                           allocatedChunks := allocatedChunks'\<rparr>, w1)
               else (UNDEFINED, dynBytes, w1)))"

text \<open>
  \<^verbatim>\<open>dpiVar__allocateDynamicBytes\<close>. \<^verbatim>\<open>dynBytes->chunks->allocatedLength\<close> reads the
  first entry of the chunk array.
\<close>

definition dpiVar__allocateDynamicBytes ::
  "dpiImpl \<Rightarrow> dpiDynamicBytes \<Rightarrow> uint32 \<Rightarrow> world \<Rightarrow> dpiStatus \<times> dpiDynamicBytes \<times> world" where
  "dpiVar__allocateDynamicBytes K dynBytes0 size' w0 =
     (let dynBytes = dynBytes0\<lparr>numChunks := 0\<rparr> in
      case (if allocatedChunks dynBytes = 0 then dpiVar__allocateChunks dynBytes w0
            else (DPI_SUCCESS, dynBytes, w0)) of
        (DPI_SUCCESS, d1, w1) \<Rightarrow>
          (case chunks d1 of
             Some (c # cs) \<Rightarrow>
               if size' > allocatedLength c then
                 (let w2 = (case c_ptr c of Some p \<Rightarrow> free p w1 | None \<Rightarrow> w1);
                      n = (size' + DPI_DYNAMIC_BYTES_CHUNK_SIZE K - 1)
                            AND NOT (DPI_DYNAMIC_BYTES_CHUNK_SIZE K - 1);
                      (p', w3) = malloc (unat n) w2;
                      d2 = d1\<lparr>chunks := Some (c\<lparr>allocatedLength := n, c_ptr := p'\<rparr> # cs)\<rparr>
                  in if p' = None then (DPI_FAILURE DPI_ERR_NO_MEMORY, d2, w3)
                     else (DPI_SUCCESS, d2, w3))
               else (DPI_SUCCESS, d1, w1)
           | _ \<Rightarrow> (UNDEFINED, d1, w1))
      | (st, d1, w1) \<Rightarrow> (st, d1, w1))"

section \<open>The variable\<close>

text \<open>
  \<^verbatim>\<open>dpiVar\<close>. \<open>self\<close> is the address of the structure. The arrays of structured
  elements are held by value, \<open>None\<close> for a NULL pointer (nothing else points into
  them); the byte regions \<^verbatim>\<open>data\<close>, \<^verbatim>\<open>tempBuffer\<close> and the chunk buffers are blocks
  of the heap. \<^verbatim>\<open>actualLength\<close> has the element type of Oracle Client 12.1 and later,
  \<^verbatim>\<open>uint32_t\<close>; the model follows the branches of that client version.
\<close>

record dpiVar =
  self :: addr
  env :: dpiEnv
  conn :: "dpiConn option"
  type :: dpiOracleType
  nativeTypeNum :: dpiNativeTypeNum
  maxArraySize :: uint32
  actualArraySize :: uint32
  requiresPreFetch :: bool
  isArray :: bool
  sizeInBytes :: uint32
  isDynamic :: bool
  objectType :: "addr option"
  data :: "addr option"
  indicator :: "int16 list option"
  returnCode :: "uint16 cell list option"
  actualLength :: "uint32 list option"
  objectIndicator :: "addr option cell list option"
  references :: "addr option list option"
  dynamicBytes :: "dpiDynamicBytes list option"
  tempBuffer :: "addr option"
  externalData :: "dpiData list option"

text \<open>Functions return early on the first step that does not succeed.\<close>

definition andThen ::
  "dpiStatus \<times> 'a \<times> 'b \<Rightarrow> ('a \<Rightarrow> 'b \<Rightarrow> dpiStatus \<times> 'a \<times> 'b) \<Rightarrow> dpiStatus \<times> 'a \<times> 'b" where
  "andThen r f = (case r of (DPI_SUCCESS, a, b) \<Rightarrow> f a b | _ \<Rightarrow> r)"

subsection \<open>Collaborators outside the file\<close>

text \<open>
  Modelled from the spec: \<^verbatim>\<open>dpiGen__allocate\<close> and \<^verbatim>\<open>dpiGen__checkHandle\<close> are not in
  \<^verbatim>\<open>dpiVar.c\<close>. A handle is created with one strong reference and its kind; a check
  fails (the spec's \<open>InvalidHandle\<close>) for NULL, for a handle that is not live and for
  one of another kind.
\<close>

definition dpiGen__allocate :: "dpiHandleTypeNum \<Rightarrow> addr option \<Rightarrow> world \<Rightarrow> addr option \<times> world" where
  "dpiGen__allocate t nat_ptr w =
     (case next_outcome w of
        (False, w1) \<Rightarrow> (None, w1)
      | (True, w1) \<Rightarrow>
          (Some (next_addr w1),
           w1\<lparr>handles := (handles w1)(next_addr w1 :=
                    Some \<lparr>typeNum = t, native = nat_ptr, nativeInd = None\<rparr>),
              next_addr := Suc (next_addr w1),
              refs := refs w1 @ [(next_addr w1, 1)]\<rparr>))"

definition dpiGen__checkHandle :: "addr option \<Rightarrow> dpiHandleTypeNum \<Rightarrow> world \<Rightarrow> bool" where
  "dpiGen__checkHandle p t w =
     (case p of
        None \<Rightarrow> False
      | Some a \<Rightarrow> (case handles w a of None \<Rightarrow> False | Some h \<Rightarrow> typeNum h = t))"

text \<open>
  Modelled from the spec: the allocators of the other handle kinds and the OCI calls are
  not in \<^verbatim>\<open>dpiVar.c\<close>. The spec's pre-fetch preparation "acquires a fresh underlying
  handle appropriate to the type" and "obtains a strong reference to it". Each call can
  fail; a native handle, locator or descriptor is a fresh address.
\<close>

definition fresh_native :: "world \<Rightarrow> addr option \<times> world" where
  "fresh_native w =
     (case next_outcome w of
        (False, w1) \<Rightarrow> (None, w1)
      | (True, w1) \<Rightarrow> (Some (next_addr w1), w1\<lparr>next_addr := Suc (next_addr w1)\<rparr>))"

definition dpiStmt__allocate :: "world \<Rightarrow> addr option \<times> world" where
  "dpiStmt__allocate w = dpiGen__allocate DPI_HTYPE_STMT None w"

definition OCIHandleAlloc :: "world \<Rightarrow> addr option \<times> world" where
  "OCIHandleAlloc w = fresh_native w"

definition set_native :: "addr \<Rightarrow> addr option \<Rightarrow> world \<Rightarrow> world" where
  "set_native h p w =
     w\<lparr>handles := (handles w)(h := map_option (\<lambda>r. r\<lparr>native := p\<rparr>) (handles w h))\<rparr>"

definition dpiLob__allocate :: "world \<Rightarrow> addr option \<times> world" where
  "dpiLob__allocate w =
     (case fresh_native w of
        (None, w1) \<Rightarrow> (None, w1)
      | (Some loc, w1) \<Rightarrow> dpiGen__allocate DPI_HTYPE_LOB (Some loc) w1)"

definition dpiRowid__allocate :: "world \<Rightarrow> addr option \<times> world" where
  "dpiRowid__allocate w =
     (case fresh_native w of
        (None, w1) \<Rightarrow> (None, w1)
      | (Some h, w1) \<Rightarrow> dpiGen__allocate DPI_HTYPE_ROWID (Some h) w1)"

text \<open>
  \<^verbatim>\<open>dpiLob__createTemporary\<close> and \<^verbatim>\<open>dpiLob__setFromBytes\<close> work on the LOB inside the
  database; of them the model keeps that they can fail.
\<close>

definition dpiLob__createTemporary :: "addr \<Rightarrow> world \<Rightarrow> bool \<times> world" where
  "dpiLob__createTemporary lob w = next_outcome w"

definition dpiLob__setFromBytes :: "addr option \<Rightarrow> memval list \<Rightarrow> world \<Rightarrow> dpiStatus \<times> world" where
  "dpiLob__setFromBytes lob val w =
     (case lob of
        None \<Rightarrow> (UNDEFINED, w)
      | Some l \<Rightarrow>
          (case next_outcome w of
             (False, w1) \<Rightarrow> (DPI_FAILURE DPI_ERR_EXTERNAL, w1)
           | (True, w1) \<Rightarrow> (DPI_SUCCESS, w1)))"

subsection \<open>Pointers stored in the value array\<close>

text \<open>
  \<^verbatim>\<open>var->data.asStmt[i] = p\<close> and its siblings write a pointer into the value array,
  \<^verbatim>\<open>var->data.asStmt[i]\<close> reads one. \<open>None\<close> is a write or read through NULL or outside
  the block.
\<close>

definition store_ptr :: "dpiImpl \<Rightarrow> addr option \<Rightarrow> nat \<Rightarrow> addr option \<Rightarrow> world \<Rightarrow> world option" where
  "store_ptr K base i p w =
     (case base of
        None \<Rightarrow> None
      | Some a \<Rightarrow>
          (case heap w a of
             None \<Rightarrow> None
           | Some blk \<Rightarrow>
               if (i + 1) * SIZEOF_PTR K \<le> length blk then
                 Some (w\<lparr>heap := (heap w)(a := Some (take (i * SIZEOF_PTR K) blk
                          @ map (PtrFrag p) [0..<SIZEOF_PTR K]
                          @ drop ((i + 1) * SIZEOF_PTR K) blk))\<rparr>)
               else None))"


text \<open>
  \<^verbatim>\<open>OCIArrayDescriptorAlloc\<close> writes \<open>n\<close> fresh descriptors into the value array, from
  its first element on. \<^verbatim>\<open>OCIArrayDescriptorFree\<close> gives them back to OCI, which the
  model does not follow.
\<close>

fun store_descriptors :: "dpiImpl \<Rightarrow> addr option \<Rightarrow> nat \<Rightarrow> nat \<Rightarrow> world \<Rightarrow> world option" where
  "store_descriptors K base i 0 w = Some w"
| "store_descriptors K base i (Suc n) w =
     (case store_ptr K base i (Some (next_addr w)) (w\<lparr>next_addr := Suc (next_addr w)\<rparr>) of
        None \<Rightarrow> None
      | Some w1 \<Rightarrow> store_descriptors K base (Suc i) n w1)"

definition OCIArrayDescriptorAlloc :: "dpiImpl \<Rightarrow> dpiVar \<Rightarrow> world \<Rightarrow> dpiStatus \<times> dpiVar \<times> world" where
  "OCIArrayDescriptorAlloc K var w =
     (case next_outcome w of
        (False, w1) \<Rightarrow> (DPI_FAILURE DPI_ERR_EXTERNAL, var, w1)
      | (True, w1) \<Rightarrow>
          (case store_descriptors K (data var) 0 (unat (maxArraySize var)) w1 of
             None \<Rightarrow> (UNDEFINED, var, w1)
           | Some w2 \<Rightarrow> (DPI_SUCCESS, var, w2)))"

section \<open>The buffer allocator\<close>

text \<open>
  \<^verbatim>\<open>dpiVar__allocateBuffers\<close>, one definition for each of its commented blocks, in the
  order of the source.
\<close>

definition allocateBuffers_data :: "dpiVar \<Rightarrow> world \<Rightarrow> dpiStatus \<times> dpiVar \<times> world" where
  "allocateBuffers_data var w =
     (if isDynamic var then
        (case next_outcome w of
           (False, w1) \<Rightarrow> (DPI_FAILURE DPI_ERR_NO_MEMORY, var\<lparr>dynamicBytes := None\<rparr>, w1)
         | (True, w1) \<Rightarrow>
             (DPI_SUCCESS,
              var\<lparr>dynamicBytes := Some (replicate (unat (maxArraySize var)) zero_dynBytes)\<rparr>,
              w1))
      else
        (let dataLength = unat (maxArraySize var) * unat (sizeInBytes var) in
         if dataLength > INT_MAX then (DPI_FAILURE DPI_ERR_ARRAY_SIZE_TOO_BIG, var, w)
         else
           (case malloc dataLength w of
              (None, w1) \<Rightarrow> (DPI_FAILURE DPI_ERR_NO_MEMORY, var\<lparr>data := None\<rparr>, w1)
            | (Some a, w1) \<Rightarrow> (DPI_SUCCESS, var\<lparr>data := Some a\<rparr>, w1))))"

definition allocateBuffers_indicator :: "dpiImpl \<Rightarrow> dpiVar \<Rightarrow> world \<Rightarrow> dpiStatus \<times> dpiVar \<times> world" where
  "allocateBuffers_indicator K var w =
     (if indicator var = None then
        (case next_outcome w of
           (False, w1) \<Rightarrow> (DPI_FAILURE DPI_ERR_NO_MEMORY, var, w1)
         | (True, w1) \<Rightarrow>
             (DPI_SUCCESS,
              var\<lparr>indicator := Some (replicate (unat (maxArraySize var)) (OCI_IND_NULL K))\<rparr>,
              w1))
      else (DPI_SUCCESS, var, w))"

definition allocateBuffers_actualLength :: "dpiVar \<Rightarrow> world \<Rightarrow> dpiStatus \<times> dpiVar \<times> world" where
  "allocateBuffers_actualLength var w =
     (if \<not> isDynamic var \<and> actualLength var = None then
        (case next_outcome w of
           (False, w1) \<Rightarrow> (DPI_FAILURE DPI_ERR_NO_MEMORY, var, w1)
         | (True, w1) \<Rightarrow>
             (DPI_SUCCESS,
              var\<lparr>actualLength := Some (replicate (unat (maxArraySize var)) (sizeInBytes var))\<rparr>,
              w1))
      else (DPI_SUCCESS, var, w))"

definition allocateBuffers_returnCode :: "dpiVar \<Rightarrow> world \<Rightarrow> dpiStatus \<times> dpiVar \<times> world" where
  "allocateBuffers_returnCode var w =
     (if defaultNativeTypeNum (type var) = DPI_NATIVE_TYPE_BYTES \<and> \<not> isDynamic var
         \<and> returnCode var = None then
        (case next_outcome w of
           (False, w1) \<Rightarrow> (DPI_FAILURE DPI_ERR_NO_MEMORY, var, w1)
         | (True, w1) \<Rightarrow>
             (DPI_SUCCESS,
              var\<lparr>returnCode := Some (replicate (unat (maxArraySize var)) Indeterminate)\<rparr>,
              w1))
      else (DPI_SUCCESS, var, w))"

text \<open>The local \<^verbatim>\<open>tempBufferSize\<close>: 0 unless the variable is a number passed as bytes.\<close>

definition tempBufferSize :: "dpiImpl \<Rightarrow> dpiVar \<Rightarrow> uint32" where
  "tempBufferSize K var =
     (if oracleTypeNum (type var) = DPI_ORACLE_TYPE_NUMBER
         \<and> nativeTypeNum var = DPI_NATIVE_TYPE_BYTES then
        (if charsetId (env var) = DPI_CHARSET_ID_UTF16 K then DPI_NUMBER_AS_TEXT_CHARS K * 2
         else DPI_NUMBER_AS_TEXT_CHARS K)
      else 0)"

definition allocateBuffers_tempBuffer :: "dpiImpl \<Rightarrow> dpiVar \<Rightarrow> world \<Rightarrow> dpiStatus \<times> dpiVar \<times> world" where
  "allocateBuffers_tempBuffer K var w =
     (if oracleTypeNum (type var) = DPI_ORACLE_TYPE_NUMBER
         \<and> nativeTypeNum var = DPI_NATIVE_TYPE_BYTES \<and> tempBuffer var = None then
        (case malloc (unat (tempBufferSize K var * maxArraySize var)) w of
           (None, w1) \<Rightarrow> (DPI_FAILURE DPI_ERR_NO_MEMORY, var, w1)
         | (Some a, w1) \<Rightarrow> (DPI_SUCCESS, var\<lparr>tempBuffer := Some a\<rparr>, w1))
      else (DPI_SUCCESS, var, w))"

definition allocateBuffers_externalData :: "dpiVar \<Rightarrow> world \<Rightarrow> dpiStatus \<times> dpiVar \<times> world" where
  "allocateBuffers_externalData var w =
     (if externalData var = None then
        (case next_outcome w of
           (False, w1) \<Rightarrow> (DPI_FAILURE DPI_ERR_NO_MEMORY, var, w1)
         | (True, w1) \<Rightarrow>
             (DPI_SUCCESS,
              var\<lparr>externalData :=
                    Some (replicate (unat (maxArraySize var)) (zero_data\<lparr>isNull := True\<rparr>))\<rparr>,
              w1))
      else (DPI_SUCCESS, var, w))"

text \<open>The body of the last loop, for the cell \<open>d\<close> of slot \<open>i\<close>.\<close>

definition set_bytes_view :: "dpiImpl \<Rightarrow> dpiVar \<Rightarrow> nat \<Rightarrow> dpiData \<Rightarrow> dpiData" where
  "set_bytes_view K var i d =
     (let bytes = asBytes d;
          bytes1 = bytes\<lparr>b_encoding :=
                     Some (if charsetForm (type var) = SQLCS_IMPLICIT K then encoding (env var)
                           else nencoding (env var))\<rparr>;
          bytes2 =
            (case tempBuffer var of
               Some t \<Rightarrow> bytes1\<lparr>b_ptr := Some (t, unat (word_of_nat i * tempBufferSize K var))\<rparr>
             | None \<Rightarrow>
                 if actualLength var \<noteq> None \<and> dynamicBytes var = None then
                   bytes1\<lparr>b_ptr := map_option
                              (\<lambda>a. (a, unat (word_of_nat i * sizeInBytes var))) (data var)\<rparr>
                 else bytes1)
      in d\<lparr>asBytes := bytes2\<rparr>)"

definition allocateBuffers_bytes :: "dpiImpl \<Rightarrow> dpiVar \<Rightarrow> world \<Rightarrow> dpiStatus \<times> dpiVar \<times> world" where
  "allocateBuffers_bytes K var w =
     (if nativeTypeNum var = DPI_NATIVE_TYPE_BYTES then
        (case externalData var of
           None \<Rightarrow> (if maxArraySize var = 0 then (DPI_SUCCESS, var, w) else (UNDEFINED, var, w))
         | Some ed \<Rightarrow>
             if unat (maxArraySize var) \<le> length ed then
               (DPI_SUCCESS,
                var\<lparr>externalData :=
                      Some (map (\<lambda>i. set_bytes_view K var i (ed ! i)) [0..<unat (maxArraySize var)]
                            @ drop (unat (maxArraySize var)) ed)\<rparr>,
                w)
             else (UNDEFINED, var, w))
      else (DPI_SUCCESS, var, w))"

definition dpiVar__allocateBuffers :: "dpiImpl \<Rightarrow> dpiVar \<Rightarrow> world \<Rightarrow> dpiStatus \<times> dpiVar \<times> world" where
  "dpiVar__allocateBuffers K var w =
     foldl andThen (DPI_SUCCESS, var, w)
       [allocateBuffers_data,
        allocateBuffers_indicator K,
        allocateBuffers_actualLength,
        allocateBuffers_returnCode,
        allocateBuffers_tempBuffer K,
        allocateBuffers_externalData,
        allocateBuffers_bytes K]"

section \<open>Pre-fetch preparation and extended initialization\<close>

text \<open>
  The loop bodies of \<^verbatim>\<open>dpiVar__extendedPreFetch\<close> for slot \<open>i\<close>. Each first releases
  the reference the slot holds and clears the slot.
\<close>

definition clear_slot :: "dpiImpl \<Rightarrow> nat \<Rightarrow> dpiVar \<Rightarrow> world \<Rightarrow> dpiStatus \<times> dpiVar \<times> world" where
  "clear_slot K i var w =
     (case (externalData var, references var) of
        (Some ed, Some rf) \<Rightarrow>
          if i < length ed \<and> i < length rf then
            (let w1 = (case rf ! i of Some h \<Rightarrow> dpiGen__setRefCount h (- 1) w | None \<Rightarrow> w);
                 var1 = var\<lparr>references := Some (rf[i := None])\<rparr>
             in case store_ptr K (data var) i None w1 of
                  None \<Rightarrow> (UNDEFINED, var1, w1)
                | Some w2 \<Rightarrow>
                    (DPI_SUCCESS,
                     var1\<lparr>externalData := Some (ed[i := set_asHandle None (ed ! i)])\<rparr>, w2))
          else (UNDEFINED, var, w)
      | _ \<Rightarrow> (UNDEFINED, var, w))"

text \<open>
  After the allocation of the handle \<open>h\<close> with the native pointer \<open>p\<close>: the reference,
  the value array and the external cell of slot \<open>i\<close> are set.
\<close>

definition publish_slot ::
  "dpiImpl \<Rightarrow> nat \<Rightarrow> addr \<Rightarrow> addr option \<Rightarrow> dpiVar \<Rightarrow> world \<Rightarrow> dpiStatus \<times> dpiVar \<times> world" where
  "publish_slot K i h p var w =
     (case (externalData var, references var) of
        (Some ed, Some rf) \<Rightarrow>
          if i < length ed \<and> i < length rf then
            (let var1 = var\<lparr>references := Some (rf[i := Some h])\<rparr> in
             case store_ptr K (data var) i p w of
               None \<Rightarrow> (UNDEFINED, var1, w)
             | Some w1 \<Rightarrow>
                 (DPI_SUCCESS,
                  var1\<lparr>externalData := Some (ed[i := set_asHandle (Some h) (ed ! i)])\<rparr>, w1))
          else (UNDEFINED, var, w)
      | _ \<Rightarrow> (UNDEFINED, var, w))"

definition set_reference :: "nat \<Rightarrow> addr \<Rightarrow> dpiVar \<Rightarrow> dpiVar" where
  "set_reference i h var = var\<lparr>references := map_option (\<lambda>rf. rf[i := Some h]) (references var)\<rparr>"

definition preFetch_stmt :: "dpiImpl \<Rightarrow> nat \<Rightarrow> dpiVar \<times> world \<Rightarrow> dpiStatus \<times> dpiVar \<times> world" where
  "preFetch_stmt K i = (\<lambda>(var, w).
     andThen (clear_slot K i var w) (\<lambda>var1 w1.
       case dpiStmt__allocate w1 of
         (None, w2) \<Rightarrow> (DPI_FAILURE DPI_ERR_EXTERNAL, var1, w2)
       | (Some stmt, w2) \<Rightarrow>
           (case OCIHandleAlloc w2 of
              (None, w3) \<Rightarrow> (DPI_FAILURE DPI_ERR_EXTERNAL, set_reference i stmt var1, w3)
            | (Some h, w3) \<Rightarrow> publish_slot K i stmt (Some h) var1 (set_native stmt (Some h) w3))))"

definition preFetch_lob :: "dpiImpl \<Rightarrow> nat \<Rightarrow> dpiVar \<times> world \<Rightarrow> dpiStatus \<times> dpiVar \<times> world" where
  "preFetch_lob K i = (\<lambda>(var, w).
     andThen (clear_slot K i var w) (\<lambda>var1 w1.
       case dpiLob__allocate w1 of
         (None, w2) \<Rightarrow> (DPI_FAILURE DPI_ERR_EXTERNAL, var1, w2)
       | (Some lob, w2) \<Rightarrow>
           andThen (publish_slot K i lob (Option.bind (handles w2 lob) native) var1 w2)
             (\<lambda>var2 w3.
                if dynamicBytes var2 \<noteq> None then
                  (case dpiLob__createTemporary lob w3 of
                     (False, w4) \<Rightarrow> (DPI_FAILURE DPI_ERR_EXTERNAL, var2, w4)
                   | (True, w4) \<Rightarrow> (DPI_SUCCESS, var2, w4))
                else (DPI_SUCCESS, var2, w3))))"

definition preFetch_rowid :: "dpiImpl \<Rightarrow> nat \<Rightarrow> dpiVar \<times> world \<Rightarrow> dpiStatus \<times> dpiVar \<times> world" where
  "preFetch_rowid K i = (\<lambda>(var, w).
     andThen (clear_slot K i var w) (\<lambda>var1 w1.
       case dpiRowid__allocate w1 of
         (None, w2) \<Rightarrow> (DPI_FAILURE DPI_ERR_EXTERNAL, var1, w2)
       | (Some rowid, w2) \<Rightarrow>
           publish_slot K i rowid (Option.bind (handles w2 rowid) native) var1 w2))"

definition preFetch_object :: "dpiImpl \<Rightarrow> nat \<Rightarrow> dpiVar \<times> world \<Rightarrow> dpiStatus \<times> dpiVar \<times> world" where
  "preFetch_object K i = (\<lambda>(var, w).
     (case (externalData var, references var, objectIndicator var) of
        (Some ed, Some rf, Some oi) \<Rightarrow>
          if i < length ed \<and> i < length rf \<and> i < length oi then
            (let w1 = (case rf ! i of Some h \<Rightarrow> dpiGen__setRefCount h (- 1) w | None \<Rightarrow> w);
                 var1 = var\<lparr>references := Some (rf[i := None])\<rparr>
             in case store_ptr K (data var) i None w1 of
                  None \<Rightarrow> (UNDEFINED, var1, w1)
                | Some w2 \<Rightarrow>
                    (DPI_SUCCESS,
                     var1\<lparr>objectIndicator := Some (oi[i := Init None]),
                          externalData := Some (ed[i := set_asHandle None (ed ! i)])\<rparr>, w2))
          else (UNDEFINED, var, w)
      | _ \<Rightarrow> (UNDEFINED, var, w)))"

definition reset_numChunks :: "nat \<Rightarrow> dpiVar \<times> world \<Rightarrow> dpiStatus \<times> dpiVar \<times> world" where
  "reset_numChunks i = (\<lambda>(var, w).
     (case dynamicBytes var of
        Some ds \<Rightarrow>
          if i < length ds then
            (DPI_SUCCESS, var\<lparr>dynamicBytes := Some (ds[i := (ds ! i)\<lparr>numChunks := 0\<rparr>])\<rparr>, w)
          else (UNDEFINED, var, w)
      | None \<Rightarrow> (UNDEFINED, var, w)))"

definition dpiVar__extendedPreFetch :: "dpiImpl \<Rightarrow> dpiVar \<Rightarrow> world \<Rightarrow> dpiStatus \<times> dpiVar \<times> world" where
  "dpiVar__extendedPreFetch K var w =
     (let n = unat (maxArraySize var) in
      if isDynamic var then for_loop reset_numChunks 0 n (var, w)
      else
        (case oracleTypeNum (type var) of
           DPI_ORACLE_TYPE_STMT \<Rightarrow> for_loop (preFetch_stmt K) 0 n (var, w)
         | DPI_ORACLE_TYPE_CLOB \<Rightarrow> for_loop (preFetch_lob K) 0 n (var, w)
         | DPI_ORACLE_TYPE_BLOB \<Rightarrow> for_loop (preFetch_lob K) 0 n (var, w)
         | DPI_ORACLE_TYPE_NCLOB \<Rightarrow> for_loop (preFetch_lob K) 0 n (var, w)
         | DPI_ORACLE_TYPE_BFILE \<Rightarrow> for_loop (preFetch_lob K) 0 n (var, w)
         | DPI_ORACLE_TYPE_ROWID \<Rightarrow> for_loop (preFetch_rowid K) 0 n (var, w)
         | DPI_ORACLE_TYPE_OBJECT \<Rightarrow> for_loop (preFetch_object K) 0 n (var, w)
         | _ \<Rightarrow> (DPI_SUCCESS, var, w)))"

text \<open>\<^verbatim>\<open>dpiVar__extendedInitialize\<close>: first the array of references, then the type's own part.\<close>

definition extendedInitialize_references :: "dpiVar \<Rightarrow> world \<Rightarrow> dpiStatus \<times> dpiVar \<times> world" where
  "extendedInitialize_references var w =
     (if typeRequiresPreFetch (type var) \<and> \<not> isDynamic var then
        (case next_outcome w of
           (False, w1) \<Rightarrow> (DPI_FAILURE DPI_ERR_NO_MEMORY, var\<lparr>references := None\<rparr>, w1)
         | (True, w1) \<Rightarrow>
             (DPI_SUCCESS,
              var\<lparr>references := Some (replicate (unat (maxArraySize var)) None)\<rparr>, w1))
      else (DPI_SUCCESS, var, w))"

definition extendedInitialize_type :: "dpiImpl \<Rightarrow> dpiVar \<Rightarrow> world \<Rightarrow> dpiStatus \<times> dpiVar \<times> world" where
  "extendedInitialize_type K var w =
     (case oracleTypeNum (type var) of
        DPI_ORACLE_TYPE_TIMESTAMP \<Rightarrow> OCIArrayDescriptorAlloc K var w
      | DPI_ORACLE_TYPE_TIMESTAMP_LTZ \<Rightarrow> OCIArrayDescriptorAlloc K var w
      | DPI_ORACLE_TYPE_TIMESTAMP_TZ \<Rightarrow> OCIArrayDescriptorAlloc K var w
      | DPI_ORACLE_TYPE_INTERVAL_DS \<Rightarrow> OCIArrayDescriptorAlloc K var w
      | DPI_ORACLE_TYPE_INTERVAL_YM \<Rightarrow> OCIArrayDescriptorAlloc K var w
      | DPI_ORACLE_TYPE_CLOB \<Rightarrow> dpiVar__extendedPreFetch K var w
      | DPI_ORACLE_TYPE_BLOB \<Rightarrow> dpiVar__extendedPreFetch K var w
      | DPI_ORACLE_TYPE_NCLOB \<Rightarrow> dpiVar__extendedPreFetch K var w
      | DPI_ORACLE_TYPE_BFILE \<Rightarrow> dpiVar__extendedPreFetch K var w
      | DPI_ORACLE_TYPE_STMT \<Rightarrow> dpiVar__extendedPreFetch K var w
      | DPI_ORACLE_TYPE_ROWID \<Rightarrow> dpiVar__extendedPreFetch K var w
      | DPI_ORACLE_TYPE_OBJECT \<Rightarrow>
          if objectType var = None then (DPI_FAILURE DPI_ERR_NO_OBJECT_TYPE, var, w)
          else
            (case next_outcome w of
               (False, w1) \<Rightarrow>
                 (DPI_FAILURE DPI_ERR_NO_MEMORY, var\<lparr>objectIndicator := None\<rparr>, w1)
             | (True, w1) \<Rightarrow>
                 dpiVar__extendedPreFetch K
                   (var\<lparr>objectIndicator :=
                          Some (replicate (unat (maxArraySize var)) Indeterminate)\<rparr>) w1)
      | _ \<Rightarrow> (DPI_SUCCESS, var, w))"

definition dpiVar__extendedInitialize :: "dpiImpl \<Rightarrow> dpiVar \<Rightarrow> world \<Rightarrow> dpiStatus \<times> dpiVar \<times> world" where
  "dpiVar__extendedInitialize K var w =
     andThen (extendedInitialize_references var w) (extendedInitialize_type K)"

definition dpiVar__initBuffers :: "dpiImpl \<Rightarrow> dpiVar \<Rightarrow> world \<Rightarrow> dpiStatus \<times> dpiVar \<times> world" where
  "dpiVar__initBuffers K var w =
     andThen (dpiVar__allocateBuffers K var w) (dpiVar__extendedInitialize K)"

section \<open>Teardown\<close>

text \<open>
  \<^verbatim>\<open>dpiVar__finalizeBuffers\<close>. The descriptors go back to OCI; then the loops over the
  references and over the dynamic buffers; then every array is freed and its pointer set
  to NULL.
\<close>

text \<open>
  Modelled from the spec: \<^verbatim>\<open>OCIArrayDescriptorFree\<close> is the "free-descriptor" primitive
  of the native interface, a black box. The source does not look at its status. The
  descriptors are not blocks of the heap; as for their allocation, the call reads the
  script of the outcomes and nothing else of the world changes.
\<close>

definition OCIArrayDescriptorFree :: "world \<Rightarrow> world" where
  "OCIArrayDescriptorFree w = snd (next_outcome w)"

definition finalizeBuffers_descriptors :: "dpiVar \<Rightarrow> world \<Rightarrow> dpiStatus \<times> dpiVar \<times> world" where
  "finalizeBuffers_descriptors var w =
     (case oracleTypeNum (type var) of
        DPI_ORACLE_TYPE_TIMESTAMP \<Rightarrow> (DPI_SUCCESS, var, OCIArrayDescriptorFree w)
      | DPI_ORACLE_TYPE_TIMESTAMP_TZ \<Rightarrow> (DPI_SUCCESS, var, OCIArrayDescriptorFree w)
      | DPI_ORACLE_TYPE_TIMESTAMP_LTZ \<Rightarrow> (DPI_SUCCESS, var, OCIArrayDescriptorFree w)
      | DPI_ORACLE_TYPE_INTERVAL_DS \<Rightarrow> (DPI_SUCCESS, var, OCIArrayDescriptorFree w)
      | DPI_ORACLE_TYPE_INTERVAL_YM \<Rightarrow> (DPI_SUCCESS, var, OCIArrayDescriptorFree w)
      | DPI_ORACLE_TYPE_ROWID \<Rightarrow> (DPI_SUCCESS, var, OCIArrayDescriptorFree w)
      | _ \<Rightarrow> (DPI_SUCCESS, var, w))"

definition release_reference :: "nat \<Rightarrow> dpiVar \<times> world \<Rightarrow> dpiStatus \<times> dpiVar \<times> world" where
  "release_reference i = (\<lambda>(var, w).
     (case references var of
        Some rf \<Rightarrow>
          if i < length rf then
            (case rf ! i of
               Some h \<Rightarrow>
                 (DPI_SUCCESS, var\<lparr>references := Some (rf[i := None])\<rparr>,
                  dpiGen__setRefCount h (- 1) w)
             | None \<Rightarrow> (DPI_SUCCESS, var, w))
          else (UNDEFINED, var, w)
      | None \<Rightarrow> (UNDEFINED, var, w)))"

definition free_chunk :: "world \<Rightarrow> dpiDynamicBytesChunk \<Rightarrow> world" where
  "free_chunk w c = (case c_ptr c of Some p \<Rightarrow> free p w | None \<Rightarrow> w)"

definition free_dynamicBytes :: "nat \<Rightarrow> dpiVar \<times> world \<Rightarrow> dpiStatus \<times> dpiVar \<times> world" where
  "free_dynamicBytes i = (\<lambda>(var, w).
     (case dynamicBytes var of
        Some ds \<Rightarrow>
          if i < length ds then
            (let dynBytes = ds ! i in
             if allocatedChunks dynBytes > 0 then
               (case chunks dynBytes of
                  Some cs \<Rightarrow>
                    if unat (allocatedChunks dynBytes) \<le> length cs then
                      (DPI_SUCCESS,
                       var\<lparr>dynamicBytes :=
                             Some (ds[i := dynBytes\<lparr>allocatedChunks := 0, chunks := None\<rparr>])\<rparr>,
                       foldl free_chunk w (take (unat (allocatedChunks dynBytes)) cs))
                    else (UNDEFINED, var, w)
                | None \<Rightarrow> (UNDEFINED, var, w))
             else (DPI_SUCCESS, var, w))
          else (UNDEFINED, var, w)
      | None \<Rightarrow> (UNDEFINED, var, w)))"

definition finalizeBuffers_references :: "dpiVar \<Rightarrow> world \<Rightarrow> dpiStatus \<times> dpiVar \<times> world" where
  "finalizeBuffers_references var w =
     (if references var \<noteq> None then
        andThen (for_loop release_reference 0 (unat (maxArraySize var)) (var, w))
          (\<lambda>var1 w1. (DPI_SUCCESS, var1\<lparr>references := None\<rparr>, w1))
      else (DPI_SUCCESS, var, w))"

definition finalizeBuffers_dynamicBytes :: "dpiVar \<Rightarrow> world \<Rightarrow> dpiStatus \<times> dpiVar \<times> world" where
  "finalizeBuffers_dynamicBytes var w =
     (if dynamicBytes var \<noteq> None then
        andThen (for_loop free_dynamicBytes 0 (unat (maxArraySize var)) (var, w))
          (\<lambda>var1 w1. (DPI_SUCCESS, var1\<lparr>dynamicBytes := None\<rparr>, w1))
      else (DPI_SUCCESS, var, w))"

definition finalizeBuffers_other :: "dpiVar \<Rightarrow> world \<Rightarrow> dpiStatus \<times> dpiVar \<times> world" where
  "finalizeBuffers_other var w =
     (let w1 = (case data var of Some a \<Rightarrow> free a w | None \<Rightarrow> w);
          w2 = (case tempBuffer var of Some a \<Rightarrow> free a w1 | None \<Rightarrow> w1)
      in (DPI_SUCCESS,
          var\<lparr>indicator := None, returnCode := None, actualLength := None,
               externalData := None, data := None, objectIndicator := None,
               tempBuffer := None\<rparr>,
          w2))"

definition dpiVar__finalizeBuffers :: "dpiVar \<Rightarrow> world \<Rightarrow> dpiStatus \<times> dpiVar \<times> world" where
  "dpiVar__finalizeBuffers var w =
     foldl andThen (DPI_SUCCESS, var, w)
       [finalizeBuffers_descriptors, finalizeBuffers_references, finalizeBuffers_dynamicBytes,
        finalizeBuffers_other]"

text \<open>\<^verbatim>\<open>dpiVar__free\<close>: the structure itself goes last.\<close>

definition dpiVar__free :: "dpiVar \<Rightarrow> world \<Rightarrow> dpiStatus \<times> dpiVar \<times> world" where
  "dpiVar__free var w =
     andThen (dpiVar__finalizeBuffers var w) (\<lambda>var1 w1.
       let w2 = (case objectType var1 of Some t \<Rightarrow> dpiGen__setRefCount t (- 1) w1 | None \<Rightarrow> w1);
           w3 = (case conn var1 of
                   Some c \<Rightarrow> dpiGen__setRefCount (connHandle c) (- 1) w2
                 | None \<Rightarrow> w2)
       in (DPI_SUCCESS, var1\<lparr>objectType := None, conn := None\<rparr>,
           w3\<lparr>handles := (handles w3)(self var1 := None)\<rparr>))"

section \<open>Allocation of a variable\<close>

definition dpiVar__validateTypes :: "dpiOracleType \<Rightarrow> dpiNativeTypeNum \<Rightarrow> dpiStatus" where
  "dpiVar__validateTypes oracleType nativeTypeNum' =
     (case oracleTypeNum oracleType of
        DPI_ORACLE_TYPE_TIMESTAMP \<Rightarrow>
          if nativeTypeNum' = DPI_NATIVE_TYPE_DOUBLE then DPI_SUCCESS
          else DPI_FAILURE DPI_ERR_UNHANDLED_CONVERSION
      | DPI_ORACLE_TYPE_TIMESTAMP_TZ \<Rightarrow>
          if nativeTypeNum' = DPI_NATIVE_TYPE_DOUBLE then DPI_SUCCESS
          else DPI_FAILURE DPI_ERR_UNHANDLED_CONVERSION
      | DPI_ORACLE_TYPE_TIMESTAMP_LTZ \<Rightarrow>
          if nativeTypeNum' = DPI_NATIVE_TYPE_DOUBLE then DPI_SUCCESS
          else DPI_FAILURE DPI_ERR_UNHANDLED_CONVERSION
      | DPI_ORACLE_TYPE_NATIVE_INT \<Rightarrow>
          if nativeTypeNum' = DPI_NATIVE_TYPE_UINT64 then DPI_SUCCESS
          else DPI_FAILURE DPI_ERR_UNHANDLED_CONVERSION
      | DPI_ORACLE_TYPE_NUMBER \<Rightarrow>
          if nativeTypeNum' = DPI_NATIVE_TYPE_INT64 \<or> nativeTypeNum' = DPI_NATIVE_TYPE_UINT64
             \<or> nativeTypeNum' = DPI_NATIVE_TYPE_BYTES then DPI_SUCCESS
          else DPI_FAILURE DPI_ERR_UNHANDLED_CONVERSION
      | _ \<Rightarrow> DPI_FAILURE DPI_ERR_UNHANDLED_CONVERSION)"

text \<open>The size in bytes that \<^verbatim>\<open>dpiVar__allocate\<close> computes from the requested size.\<close>

definition computed_sizeInBytes :: "dpiImpl \<Rightarrow> dpiConn \<Rightarrow> dpiOracleType \<Rightarrow> uint32 \<Rightarrow> bool \<Rightarrow> uint32" where
  "computed_sizeInBytes K conn' type' size0 sizeIsBytes =
     (let size' = (if size0 = 0 then 1 else size0) in
      if typeSizeInBytes type' \<noteq> 0 then typeSizeInBytes type'
      else if sizeIsBytes \<or> \<not> isCharacterData type' then size'
      else if charsetForm type' = SQLCS_IMPLICIT K
        then size' * maxBytesPerCharacter (connEnv conn')
      else size' * nmaxBytesPerCharacter (connEnv conn'))"

text \<open>
  The structure as \<^verbatim>\<open>dpiGen__allocate\<close> returns it (zeroed, with its environment) and
  after the basic initialization of \<^verbatim>\<open>dpiVar__allocate\<close>, before the connection and the
  object type are attached.
\<close>

definition basic_var ::
  "dpiImpl \<Rightarrow> addr \<Rightarrow> dpiConn \<Rightarrow> dpiOracleType \<Rightarrow> dpiNativeTypeNum \<Rightarrow> uint32 \<Rightarrow> uint32 \<Rightarrow> bool \<Rightarrow> dpiVar" where
  "basic_var K a conn' type' nativeTypeNum' maxArraySize' sizeInBytes' isArray' =
     \<lparr>self = a, env = connEnv conn', conn = None, type = type',
      nativeTypeNum = nativeTypeNum', maxArraySize = maxArraySize', actualArraySize = 0,
      requiresPreFetch = (sizeInBytes' > DPI_MAX_BASIC_BUFFER_SIZE K),
      isArray = isArray',
      sizeInBytes = (if sizeInBytes' > DPI_MAX_BASIC_BUFFER_SIZE K then 0 else sizeInBytes'),
      isDynamic = (sizeInBytes' > DPI_MAX_BASIC_BUFFER_SIZE K),
      objectType = None, data = None, indicator = None, returnCode = None,
      actualLength = None, objectIndicator = None, references = None, dynamicBytes = None,
      tempBuffer = None, externalData = None\<rparr>"

text \<open>
  \<^verbatim>\<open>dpiVar__allocate\<close>. The result holds the new variable on success and NULL
  otherwise; \<open>objType\<close> is NULL or the handle of an object type.
\<close>

definition allocate_fail :: "dpiStatus \<Rightarrow> dpiVar \<Rightarrow> world \<Rightarrow> dpiStatus \<times> dpiVar option \<times> world" where
  "allocate_fail st tempVar w =
     (case dpiVar__free tempVar w of
        (DPI_SUCCESS, _, w1) \<Rightarrow> (st, None, w1)
      | (st1, _, w1) \<Rightarrow> (st1, None, w1))"

definition dpiVar__allocate ::
  "dpiImpl \<Rightarrow> dpiConn \<Rightarrow> dpiOracleTypeNum \<Rightarrow> dpiNativeTypeNum \<Rightarrow> uint32 \<Rightarrow> uint32 \<Rightarrow> bool \<Rightarrow> bool
     \<Rightarrow> addr option \<Rightarrow> world \<Rightarrow> dpiStatus \<times> dpiVar option \<times> world" where
  "dpiVar__allocate K conn' oracleTypeNum' nativeTypeNum' maxArraySize' size0 sizeIsBytes
       isArray' objType w =
     (case dpiOracleType__getFromNum K oracleTypeNum' of
        None \<Rightarrow> (DPI_FAILURE DPI_ERR_INVALID_ORACLE_TYPE, None, w)
      | Some type' \<Rightarrow>
          if maxArraySize' = 0 then (DPI_FAILURE DPI_ERR_ARRAY_SIZE_ZERO, None, w)
          else if isArray' \<and> \<not> canBeInArray type' then
            (DPI_FAILURE DPI_ERR_NOT_SUPPORTED, None, w)
          else if nativeTypeNum' \<noteq> defaultNativeTypeNum type'
                  \<and> dpiVar__validateTypes type' nativeTypeNum' \<noteq> DPI_SUCCESS then
            (DPI_FAILURE DPI_ERR_UNHANDLED_CONVERSION, None, w)
          else
            (case dpiGen__allocate DPI_HTYPE_VAR None w of
               (None, w1) \<Rightarrow> (DPI_FAILURE DPI_ERR_NO_MEMORY, None, w1)
             | (Some a, w1) \<Rightarrow>
                 (let tempVar = basic_var K a conn' type' nativeTypeNum' maxArraySize'
                        (computed_sizeInBytes K conn' type' size0 sizeIsBytes) isArray';
                      w2 = dpiGen__setRefCount (connHandle conn') 1 w1;
                      tempVar1 = tempVar\<lparr>conn := Some conn'\<rparr>
                  in if objType \<noteq> None \<and> \<not> dpiGen__checkHandle objType DPI_HTYPE_OBJECT_TYPE w2
                     then allocate_fail (DPI_FAILURE DPI_ERR_INVALID_HANDLE) tempVar1 w2
                     else
                       (let w3 = (case objType of
                                    Some t \<Rightarrow> dpiGen__setRefCount t 1 w2
                                  | None \<Rightarrow> w2);
                            tempVar2 = tempVar1\<lparr>objectType := objType\<rparr>
                        in case dpiVar__initBuffers K tempVar2 w3 of
                             (DPI_SUCCESS, var, w4) \<Rightarrow> (DPI_SUCCESS, Some var, w4)
                           | (st, var, w4) \<Rightarrow> allocate_fail st var w4))))"

section \<open>Writing values\<close>

text \<open>
  \<^verbatim>\<open>memcpy\<close> into a block at an offset, and the read of \<open>n\<close> bytes from the start of a
  block; \<open>None\<close> is an access through NULL or outside the block. A copy of zero bytes
  changes nothing.
\<close>

definition memcpy :: "(addr \<times> nat) option \<Rightarrow> memval list \<Rightarrow> world \<Rightarrow> world option" where
  "memcpy dst src w =
     (if src = [] then Some w
      else
        (case dst of
           None \<Rightarrow> None
         | Some (a, off) \<Rightarrow>
             (case heap w a of
                None \<Rightarrow> None
              | Some blk \<Rightarrow>
                  if off + length src \<le> length blk then
                    Some (w\<lparr>heap := (heap w)(a := Some (take off blk @ src
                             @ drop (off + length src) blk))\<rparr>)
                  else None)))"

definition read_mem :: "(addr \<times> nat) option \<Rightarrow> nat \<Rightarrow> world \<Rightarrow> memval list option" where
  "read_mem src n w =
     (if n = 0 then Some []
      else
        (case src of
           None \<Rightarrow> None
         | Some (a, off) \<Rightarrow>
             (case heap w a of
                None \<Rightarrow> None
              | Some blk \<Rightarrow>
                  if off + n \<le> length blk then Some (take n (drop off blk)) else None)))"

definition at_start :: "addr option \<Rightarrow> (addr \<times> nat) option" where
  "at_start p = map_option (\<lambda>a. (a, 0)) p"

definition dpiGen__startPublicFn :: "dpiVar \<Rightarrow> world \<Rightarrow> bool" where
  "dpiGen__startPublicFn var w = dpiGen__checkHandle (Some (self var)) DPI_HTYPE_VAR w"

definition dpiVar__checkArraySize :: "dpiVar \<Rightarrow> uint32 \<Rightarrow> world \<Rightarrow> dpiStatus" where
  "dpiVar__checkArraySize var pos w =
     (if \<not> dpiGen__startPublicFn var w then DPI_FAILURE DPI_ERR_INVALID_HANDLE
      else if pos \<ge> maxArraySize var then DPI_FAILURE DPI_ERR_ARRAY_SIZE_EXCEEDED
      else DPI_SUCCESS)"

text \<open>
  \<^verbatim>\<open>dpiVar__setFromBytes\<close>. \<open>val\<close> holds the bytes behind the pointer \<^verbatim>\<open>value\<close>; reading
  more of them than there are is undefined.
\<close>

definition setFromBytes_dynamic ::
  "dpiImpl \<Rightarrow> dpiVar \<Rightarrow> nat \<Rightarrow> memval list \<Rightarrow> uint32 \<Rightarrow> dpiDynamicBytes list \<Rightarrow> dpiData list
     \<Rightarrow> world \<Rightarrow> dpiStatus \<times> dpiVar \<times> world" where
  "setFromBytes_dynamic K var pos val valueLength ds ed w =
     (if pos < length ds then
        (case dpiVar__allocateDynamicBytes K (ds ! pos) valueLength w of
           (DPI_SUCCESS, d1, w1) \<Rightarrow>
             (case chunks d1 of
                Some (c # cs) \<Rightarrow>
                  (case memcpy (at_start (c_ptr c)) (take (unat valueLength) val) w1 of
                     None \<Rightarrow> (UNDEFINED, var\<lparr>dynamicBytes := Some (ds[pos := d1])\<rparr>, w1)
                   | Some w2 \<Rightarrow>
                       (DPI_SUCCESS,
                        var\<lparr>dynamicBytes :=
                              Some (ds[pos := d1\<lparr>numChunks := 1,
                                 chunks := Some (c\<lparr>c_length := valueLength\<rparr> # cs)\<rparr>]),
                            externalData :=
                              Some (ed[pos := (ed ! pos)\<lparr>asBytes := (asBytes (ed ! pos))
                                 \<lparr>b_ptr := at_start (c_ptr c), b_length := valueLength\<rparr>\<rparr>])\<rparr>,
                        w2))
              | _ \<Rightarrow> (UNDEFINED, var\<lparr>dynamicBytes := Some (ds[pos := d1])\<rparr>, w1))
         | (st, d1, w1) \<Rightarrow> (st, var\<lparr>dynamicBytes := Some (ds[pos := d1])\<rparr>, w1))
      else (UNDEFINED, var, w))"

definition setFromBytes_fixed ::
  "dpiVar \<Rightarrow> nat \<Rightarrow> memval list \<Rightarrow> uint32 \<Rightarrow> dpiData list \<Rightarrow> world \<Rightarrow> dpiStatus \<times> dpiVar \<times> world" where
  "setFromBytes_fixed var pos val valueLength ed w =
     (let bytes = (asBytes (ed ! pos))\<lparr>b_length := valueLength\<rparr>;
          var1 = var\<lparr>externalData := Some (ed[pos := (ed ! pos)\<lparr>asBytes := bytes\<rparr>])\<rparr>
      in case memcpy (b_ptr bytes) (take (unat valueLength) val) w of
           None \<Rightarrow> (UNDEFINED, var1, w)
         | Some w1 \<Rightarrow>
             if (case actualLength var1 of Some al \<Rightarrow> length al \<le> pos | None \<Rightarrow> False)
                \<or> (case returnCode var1 of Some rc \<Rightarrow> length rc \<le> pos | None \<Rightarrow> False)
             then (UNDEFINED, var1, w1)
             else
               (DPI_SUCCESS,
                var1\<lparr>actualLength := map_option (\<lambda>al. al[pos := valueLength]) (actualLength var1),
                     returnCode := map_option (\<lambda>rc. rc[pos := Init 0]) (returnCode var1)\<rparr>,
                w1))"

definition dpiVar__setFromBytes ::
  "dpiImpl \<Rightarrow> dpiVar \<Rightarrow> uint32 \<Rightarrow> memval list \<Rightarrow> uint32 \<Rightarrow> world \<Rightarrow> dpiStatus \<times> dpiVar \<times> world" where
  "dpiVar__setFromBytes K var pos val valueLength w =
     (if (tempBuffer var \<noteq> None \<and> charsetId (env var) = DPI_CHARSET_ID_UTF16 K
            \<and> unat valueLength > unat (DPI_NUMBER_AS_TEXT_CHARS K) * 2)
         \<or> (tempBuffer var \<noteq> None \<and> charsetId (env var) \<noteq> DPI_CHARSET_ID_UTF16 K
            \<and> valueLength > DPI_NUMBER_AS_TEXT_CHARS K)
         \<or> (dynamicBytes var = None \<and> tempBuffer var = None \<and> valueLength > sizeInBytes var)
      then (DPI_FAILURE DPI_ERR_BUFFER_SIZE_TOO_SMALL, var, w)
      else
        (case externalData var of
           None \<Rightarrow> (UNDEFINED, var, w)
         | Some ed0 \<Rightarrow>
             if length ed0 \<le> unat pos \<or> length val < unat valueLength then (UNDEFINED, var, w)
             else
               (let ed = ed0[unat pos := (ed0 ! unat pos)\<lparr>isNull := False\<rparr>];
                    var1 = var\<lparr>externalData := Some ed\<rparr>
                in case references var1 of
                     Some rf \<Rightarrow>
                       if unat pos < length rf then
                         (case dpiLob__setFromBytes (rf ! unat pos) (take (unat valueLength) val) w of
                            (st, w1) \<Rightarrow> (st, var1, w1))
                       else (UNDEFINED, var1, w)
                   | None \<Rightarrow>
                       (case dynamicBytes var1 of
                          Some ds \<Rightarrow>
                            setFromBytes_dynamic K var1 (unat pos) val valueLength ds ed w
                        | None \<Rightarrow> setFromBytes_fixed var1 (unat pos) val valueLength ed w))))"

definition dpiVar_setFromBytes ::
  "dpiImpl \<Rightarrow> dpiVar \<Rightarrow> uint32 \<Rightarrow> memval list \<Rightarrow> uint32 \<Rightarrow> world \<Rightarrow> dpiStatus \<times> dpiVar \<times> world" where
  "dpiVar_setFromBytes K var pos val valueLength w =
     (if dpiVar__checkArraySize var pos w \<noteq> DPI_SUCCESS then
        (dpiVar__checkArraySize var pos w, var, w)
      else if nativeTypeNum var \<noteq> DPI_NATIVE_TYPE_BYTES then
        (DPI_FAILURE DPI_ERR_NOT_SUPPORTED, var, w)
      else dpiVar__setFromBytes K var pos val valueLength w)"

text \<open>
  \<^verbatim>\<open>dpiVar__setFromLob\<close>, \<^verbatim>\<open>dpiVar__setFromObject\<close>, \<^verbatim>\<open>dpiVar__setFromRowid\<close> and
  \<^verbatim>\<open>dpiVar__setFromStmt\<close> are the same text up to the kind of the handle; the object
  also stores its indicator. \<open>setFromHandle\<close> is that text.
\<close>

definition setFromHandle ::
  "dpiImpl \<Rightarrow> dpiHandleTypeNum \<Rightarrow> dpiVar \<Rightarrow> uint32 \<Rightarrow> addr option \<Rightarrow> world
     \<Rightarrow> dpiStatus \<times> dpiVar \<times> world" where
  "setFromHandle K t var pos h w =
     (if \<not> dpiGen__checkHandle h t w then (DPI_FAILURE DPI_ERR_INVALID_HANDLE, var, w)
      else
        (case externalData var of
           None \<Rightarrow> (UNDEFINED, var, w)
         | Some ed0 \<Rightarrow>
             if length ed0 \<le> unat pos then (UNDEFINED, var, w)
             else
               (let ed = ed0[unat pos := (ed0 ! unat pos)\<lparr>isNull := False\<rparr>];
                    var1 = var\<lparr>externalData := Some ed\<rparr>
                in case references var1 of
                     None \<Rightarrow> (UNDEFINED, var1, w)
                   | Some rf \<Rightarrow>
                       if length rf \<le> unat pos then (UNDEFINED, var1, w)
                       else if rf ! unat pos = h then (DPI_SUCCESS, var1, w)
                       else
                         (let w1 = (case rf ! unat pos of
                                      Some old \<Rightarrow> dpiGen__setRefCount old (- 1) w
                                    | None \<Rightarrow> w);
                              w2 = dpiGen__setRefCount (the h) 1 w1;
                              var2 = var1\<lparr>references := Some (rf[unat pos := h])\<rparr>
                          in case store_ptr K (data var2) (unat pos)
                                    (Option.bind (handles w2 (the h)) native) w2 of
                               None \<Rightarrow> (UNDEFINED, var2, w2)
                             | Some w3 \<Rightarrow>
                                 if t = DPI_HTYPE_OBJECT
                                    \<and> (case objectIndicator var2 of
                                          None \<Rightarrow> True
                                        | Some oi \<Rightarrow> length oi \<le> unat pos)
                                 then (UNDEFINED, var2, w3)
                                 else
                                   (DPI_SUCCESS,
                                    var2\<lparr>objectIndicator :=
                                           (if t = DPI_HTYPE_OBJECT then
                                              map_option (\<lambda>oi. oi[unat pos :=
                                                Init (Option.bind (handles w2 (the h)) nativeInd)])
                                                (objectIndicator var2)
                                            else objectIndicator var2),
                                         externalData :=
                                           Some (ed[unat pos := set_asHandle h (ed ! unat pos)])\<rparr>,
                                    w3)))))"

definition dpiVar__setFromLob ::
  "dpiImpl \<Rightarrow> dpiVar \<Rightarrow> uint32 \<Rightarrow> addr option \<Rightarrow> world \<Rightarrow> dpiStatus \<times> dpiVar \<times> world" where
  "dpiVar__setFromLob K var pos lob w = setFromHandle K DPI_HTYPE_LOB var pos lob w"

definition dpiVar__setFromObject ::
  "dpiImpl \<Rightarrow> dpiVar \<Rightarrow> uint32 \<Rightarrow> addr option \<Rightarrow> world \<Rightarrow> dpiStatus \<times> dpiVar \<times> world" where
  "dpiVar__setFromObject K var pos obj w = setFromHandle K DPI_HTYPE_OBJECT var pos obj w"

definition dpiVar__setFromRowid ::
  "dpiImpl \<Rightarrow> dpiVar \<Rightarrow> uint32 \<Rightarrow> addr option \<Rightarrow> world \<Rightarrow> dpiStatus \<times> dpiVar \<times> world" where
  "dpiVar__setFromRowid K var pos rowid w = setFromHandle K DPI_HTYPE_ROWID var pos rowid w"

definition dpiVar__setFromStmt ::
  "dpiImpl \<Rightarrow> dpiVar \<Rightarrow> uint32 \<Rightarrow> addr option \<Rightarrow> world \<Rightarrow> dpiStatus \<times> dpiVar \<times> world" where
  "dpiVar__setFromStmt K var pos stmt w = setFromHandle K DPI_HTYPE_STMT var pos stmt w"

text \<open>
  \<^verbatim>\<open>dpiVar__copyData\<close>. The bytes of a source cell are read from the heap; the
  \<^verbatim>\<open>default\<close> branch copies the whole cell.
\<close>

definition dpiVar__copyData ::
  "dpiImpl \<Rightarrow> dpiVar \<Rightarrow> uint32 \<Rightarrow> dpiData \<Rightarrow> world \<Rightarrow> dpiStatus \<times> dpiVar \<times> world" where
  "dpiVar__copyData K var pos sourceData w =
     (case externalData var of
        None \<Rightarrow> (UNDEFINED, var, w)
      | Some ed \<Rightarrow>
          if length ed \<le> unat pos then (UNDEFINED, var, w)
          else
            (let var1 = var\<lparr>externalData :=
                          Some (ed[unat pos := (ed ! unat pos)\<lparr>isNull := isNull sourceData\<rparr>])\<rparr>
             in if isNull sourceData then (DPI_SUCCESS, var1, w)
                else
                  (case nativeTypeNum var1 of
                     DPI_NATIVE_TYPE_BYTES \<Rightarrow>
                       (case read_mem (b_ptr (asBytes sourceData))
                               (unat (b_length (asBytes sourceData))) w of
                          None \<Rightarrow> (UNDEFINED, var1, w)
                        | Some val \<Rightarrow>
                            dpiVar__setFromBytes K var1 pos val (b_length (asBytes sourceData)) w)
                   | DPI_NATIVE_TYPE_LOB \<Rightarrow> dpiVar__setFromLob K var1 pos (asHandle sourceData) w
                   | DPI_NATIVE_TYPE_OBJECT \<Rightarrow>
                       dpiVar__setFromObject K var1 pos (asHandle sourceData) w
                   | DPI_NATIVE_TYPE_STMT \<Rightarrow> dpiVar__setFromStmt K var1 pos (asHandle sourceData) w
                   | DPI_NATIVE_TYPE_ROWID \<Rightarrow>
                       dpiVar__setFromRowid K var1 pos (asHandle sourceData) w
                   | _ \<Rightarrow>
                       (DPI_SUCCESS,
                        var1\<lparr>externalData := Some (ed[unat pos := sourceData])\<rparr>, w))))"

section \<open>Resize\<close>


section \<open>Chunk consolidation\<close>

text \<open>
  \<^verbatim>\<open>dpiVar__setBytesFromDynamicBytes\<close>. The first loop sums the reserved lengths in a
  \<^verbatim>\<open>uint32_t\<close>; the second copies each chunk behind the bytes copied so far, frees the
  chunk and zeroes its entry. \<open>copy_chunks\<close> runs over the first \<open>numChunks\<close> entries and
  returns the length copied.
\<close>

fun copy_chunks ::
  "addr \<Rightarrow> uint32 \<Rightarrow> dpiDynamicBytesChunk list \<Rightarrow> world \<Rightarrow> (uint32 \<times> world) option" where
  "copy_chunks dst len [] w = Some (len, w)"
| "copy_chunks dst len (c # cs) w =
     (case read_mem (at_start (c_ptr c)) (unat (c_length c)) w of
        None \<Rightarrow> None
      | Some src \<Rightarrow>
          (case memcpy (Some (dst, unat len)) src w of
             None \<Rightarrow> None
           | Some w1 \<Rightarrow> copy_chunks dst (len + c_length c) cs (free_chunk w1 c)))"

definition dpiVar__setBytesFromDynamicBytes ::
  "dpiBytes \<Rightarrow> dpiDynamicBytes \<Rightarrow> world \<Rightarrow> dpiStatus \<times> (dpiBytes \<times> dpiDynamicBytes) \<times> world" where
  "dpiVar__setBytesFromDynamicBytes bytes dynBytes w =
     (if numChunks dynBytes = 1 then
        (case chunks dynBytes of
           Some (c # cs) \<Rightarrow>
             (DPI_SUCCESS, (bytes\<lparr>b_ptr := at_start (c_ptr c), b_length := c_length c\<rparr>, dynBytes), w)
         | _ \<Rightarrow> (UNDEFINED, (bytes, dynBytes), w))
      else
        (case chunks dynBytes of
           Some (c0 # cs0) \<Rightarrow>
             if length (c0 # cs0) < unat (numChunks dynBytes) then (UNDEFINED, (bytes, dynBytes), w)
             else
               (let used = take (unat (numChunks dynBytes)) (c0 # cs0);
                    totalAllocatedLength = foldl (\<lambda>t c. t + allocatedLength c) 0 used
                in case malloc (unat totalAllocatedLength) w of
                     (None, w1) \<Rightarrow>
                       (DPI_FAILURE DPI_ERR_NO_MEMORY, (bytes\<lparr>b_ptr := None\<rparr>, dynBytes), w1)
                   | (Some dst, w1) \<Rightarrow>
                       (case copy_chunks dst 0 used w1 of
                          None \<Rightarrow> (UNDEFINED, (bytes\<lparr>b_ptr := Some (dst, 0)\<rparr>, dynBytes), w1)
                        | Some (len, w2) \<Rightarrow>
                            (DPI_SUCCESS,
                             (bytes\<lparr>b_ptr := Some (dst, 0), b_length := len\<rparr>,
                              dynBytes\<lparr>numChunks := 1,
                                chunks := Some ((replicate (unat (numChunks dynBytes)) zero_chunk
                                    @ drop (unat (numChunks dynBytes)) (c0 # cs0))
                                  [0 := \<lparr>c_ptr = Some dst, c_length = len,
                                         allocatedLength = totalAllocatedLength\<rparr>])\<rparr>),
                             w2)))
         | _ \<Rightarrow> (UNDEFINED, (bytes, dynBytes), w)))"

section \<open>Reading a LOB into a dynamic buffer\<close>

text \<open>
  Modelled from the spec: \<^verbatim>\<open>dpiLob__readBytes\<close> is not in \<^verbatim>\<open>dpiVar.c\<close> and
  \<^verbatim>\<open>OCILobGetLength2\<close> is a call of OCI. A LOB is read by "stream[ing] the object's
  full current content into a fresh single chunk". Of the \<^verbatim>\<open>dpiLob\<close> the model keeps
  its type, its environment, the length OCI reports for it and its content in bytes.
  Each of the two calls can fail; the read writes as much of the content as the given
  length admits behind the pointer and reports the number of bytes written.
\<close>

record dpiLob =
  lobType :: dpiOracleTypeNum
  lobEnv :: dpiEnv
  lobLength :: "64 word"
  lobContent :: "memval list"

definition OCILobGetLength2 :: "dpiLob \<Rightarrow> world \<Rightarrow> 64 word option \<times> world" where
  "OCILobGetLength2 lob w =
     (case next_outcome w of
        (False, w1) \<Rightarrow> (None, w1)
      | (True, w1) \<Rightarrow> (Some (lobLength lob), w1))"

definition dpiLob__readBytes ::
  "dpiLob \<Rightarrow> addr option \<Rightarrow> 64 word \<Rightarrow> world \<Rightarrow> dpiStatus \<times> 64 word \<times> world" where
  "dpiLob__readBytes lob dst lengthInBytes w =
     (case next_outcome w of
        (False, w1) \<Rightarrow> (DPI_FAILURE DPI_ERR_EXTERNAL, lengthInBytes, w1)
      | (True, w1) \<Rightarrow>
          (let val = take (unat lengthInBytes) (lobContent lob) in
           case memcpy (at_start dst) val w1 of
             None \<Rightarrow> (UNDEFINED, lengthInBytes, w1)
           | Some w2 \<Rightarrow> (DPI_SUCCESS, word_of_nat (length val), w2)))"

text \<open>\<^verbatim>\<open>UB4MAXVAL\<close> of the OCI headers, the largest \<^verbatim>\<open>ub4\<close>.\<close>

definition UB4MAXVAL :: "64 word" where
  "UB4MAXVAL = 4294967295"

text \<open>
  \<^verbatim>\<open>dpiVar__setBytesFromLob\<close>. The lengths are \<^verbatim>\<open>uint64_t\<close>; the widths of a character,
  \<^verbatim>\<open>int32_t\<close> in the environment, are converted to it.
\<close>

definition dpiVar__setBytesFromLob ::
  "dpiImpl \<Rightarrow> dpiBytes \<Rightarrow> dpiDynamicBytes \<Rightarrow> dpiLob \<Rightarrow> world
     \<Rightarrow> dpiStatus \<times> (dpiBytes \<times> dpiDynamicBytes) \<times> world" where
  "dpiVar__setBytesFromLob K bytes dynBytes lob w =
     (case OCILobGetLength2 lob w of
        (None, w1) \<Rightarrow> (DPI_FAILURE DPI_ERR_EXTERNAL, (bytes, dynBytes), w1)
      | (Some length', w1) \<Rightarrow>
          (let lengthInBytes =
                 (if lobType lob = DPI_ORACLE_TYPE_CLOB
                    then length' * scast (maxBytesPerCharacter (lobEnv lob))
                  else if lobType lob = DPI_ORACLE_TYPE_NCLOB
                    then length' * scast (nmaxBytesPerCharacter (lobEnv lob))
                  else length')
           in if lengthInBytes > UB4MAXVAL then
                (DPI_FAILURE DPI_ERR_NOT_SUPPORTED, (bytes, dynBytes), w1)
              else
                (case dpiVar__allocateDynamicBytes K dynBytes (ucast lengthInBytes) w1 of
                   (DPI_SUCCESS, d1, w2) \<Rightarrow>
                     (case chunks d1 of
                        Some (c # cs) \<Rightarrow>
                          (case (if length' > 0
                                 then dpiLob__readBytes lob (c_ptr c) lengthInBytes w2
                                 else (DPI_SUCCESS, lengthInBytes, w2)) of
                             (DPI_SUCCESS, lengthReadInBytes, w3) \<Rightarrow>
                               (DPI_SUCCESS,
                                (bytes\<lparr>b_ptr := at_start (c_ptr c),
                                       b_length := ucast lengthReadInBytes\<rparr>,
                                 d1\<lparr>chunks :=
                                      Some (c\<lparr>c_length := ucast lengthReadInBytes\<rparr> # cs)\<rparr>),
                                w3)
                           | (st, lengthReadInBytes, w3) \<Rightarrow> (st, (bytes, d1), w3))
                      | _ \<Rightarrow> (UNDEFINED, (bytes, d1), w2))
                 | (st, d1, w2) \<Rightarrow> (st, (bytes, d1), w2))))"

section \<open>The callback of a returning-style execute\<close>







section \<open>Concrete values\<close>

text \<open>
  The constants as the headers of the library and of OCI give them, for a 64-bit build,
  and three entries of the type table.
\<close>

definition type_VARCHAR :: dpiOracleType where
  "type_VARCHAR =
     \<lparr>oracleTypeNum = DPI_ORACLE_TYPE_VARCHAR, defaultNativeTypeNum = DPI_NATIVE_TYPE_BYTES,
      charsetForm = 1, typeSizeInBytes = 0, isCharacterData = True, canBeInArray = True,
      typeRequiresPreFetch = False\<rparr>"

definition type_RAW :: dpiOracleType where
  "type_RAW =
     \<lparr>oracleTypeNum = DPI_ORACLE_TYPE_RAW, defaultNativeTypeNum = DPI_NATIVE_TYPE_BYTES,
      charsetForm = 0, typeSizeInBytes = 0, isCharacterData = False, canBeInArray = True,
      typeRequiresPreFetch = False\<rparr>"

definition type_CLOB :: dpiOracleType where
  "type_CLOB =
     \<lparr>oracleTypeNum = DPI_ORACLE_TYPE_CLOB, defaultNativeTypeNum = DPI_NATIVE_TYPE_LOB,
      charsetForm = 1, typeSizeInBytes = 8, isCharacterData = True, canBeInArray = False,
      typeRequiresPreFetch = True\<rparr>"

definition K0 :: dpiImpl where
  "K0 =
     \<lparr>DPI_MAX_BASIC_BUFFER_SIZE = 32767, DPI_DYNAMIC_BYTES_CHUNK_SIZE = 65536,
      DPI_NUMBER_AS_TEXT_CHARS = 172, DPI_CHARSET_ID_UTF16 = 1000, SQLCS_IMPLICIT = 1,
      OCI_IND_NULL = - 1, SIZEOF_PTR = 8,
      dpiOracleType__getFromNum =
        (\<lambda>t. if t = DPI_ORACLE_TYPE_VARCHAR then Some type_VARCHAR
             else if t = DPI_ORACLE_TYPE_RAW then Some type_RAW
             else if t = DPI_ORACLE_TYPE_CLOB then Some type_CLOB
             else None)\<rparr>"

definition env0 :: dpiEnv where
  "env0 =
     \<lparr>charsetId = 873, maxBytesPerCharacter = 4, nmaxBytesPerCharacter = 2,
      encoding = ''UTF-8'', nencoding = ''UTF-16''\<rparr>"

definition conn0 :: dpiConn where
  "conn0 = \<lparr>connHandle = 1, connEnv = env0\<rparr>"

text \<open>A world with the connection as its only handle, in which every call succeeds.\<close>

definition w0 :: world where
  "w0 =
     \<lparr>heap = (\<lambda>a. None), next_addr = 2, outcomes = [], frees = [], refs = [(1, 1)],
      handles = (\<lambda>a. if a = 1 then Some \<lparr>typeNum = DPI_HTYPE_CONN, native = None,
                                         nativeInd = None\<rparr> else None)\<rparr>"

text \<open>
  The variable that \<^verbatim>\<open>dpiVar__allocate\<close> returns in \<open>w0\<close> for the type RAW with two
  slots of ten bytes, and the world it leaves.
\<close>

definition raw_cell :: "nat \<Rightarrow> dpiData" where
  "raw_cell off =
     \<lparr>isNull = True,
      asBytes = \<lparr>b_ptr = Some (3, off), b_length = 0, b_encoding = Some ''UTF-16''\<rparr>\<rparr>"

definition var_raw :: dpiVar where
  "var_raw =
     \<lparr>self = 2, env = env0, conn = Some conn0, type = type_RAW,
      nativeTypeNum = DPI_NATIVE_TYPE_BYTES, maxArraySize = 2, actualArraySize = 0,
      requiresPreFetch = False, isArray = False, sizeInBytes = 10, isDynamic = False,
      objectType = None, data = Some 3, indicator = Some [- 1, - 1],
      returnCode = Some [Indeterminate, Indeterminate], actualLength = Some [10, 10],
      objectIndicator = None, references = None, dynamicBytes = None, tempBuffer = None,
      externalData = Some [raw_cell 0, raw_cell 10]\<rparr>"

definition w_raw :: world where
  "w_raw =
     \<lparr>heap = (\<lambda>a. if a = 3 then Some (replicate 20 Undef) else None), next_addr = 4,
      outcomes = [], frees = [], refs = [(1, 1), (2, 1), (1, 1)],
      handles = (\<lambda>a. if a = 1 then Some \<lparr>typeNum = DPI_HTYPE_CONN, native = None,
                                         nativeInd = None\<rparr>
                     else if a = 2 then Some \<lparr>typeNum = DPI_HTYPE_VAR, native = None,
                                              nativeInd = None\<rparr>
                     else None)\<rparr>"

text \<open>
  The first chunk entry as \<^verbatim>\<open>dpiVar__allocateDynamicBytes\<close> finds it once it has made
  sure that chunk entries exist: a zeroed entry when none were reserved.
\<close>

definition first_chunk :: "dpiDynamicBytes \<Rightarrow> dpiDynamicBytesChunk" where
  "first_chunk d =
     (if allocatedChunks d = 0 then zero_chunk
      else (case chunks d of Some (c # cs) \<Rightarrow> c | _ \<Rightarrow> zero_chunk))"

text \<open>
  What \<^verbatim>\<open>dpiVar__allocateDynamicBytes\<close> makes of a zeroed \<^verbatim>\<open>dpiDynamicBytes\<close> and a
  required size of 10 in \<open>w0\<close>.
\<close>

definition dyn_10 :: dpiDynamicBytes where
  "dyn_10 =
     \<lparr>numChunks = 0, allocatedChunks = 8,
      chunks = Some (\<lparr>c_ptr = Some 2, c_length = 0, allocatedLength = 65536\<rparr>
                     # replicate 7 zero_chunk)\<rparr>"

definition w_dyn_10 :: world where
  "w_dyn_10 = w0\<lparr>heap := (heap w0)(2 := Some (replicate 65536 Undef)), next_addr := 3\<rparr>"

text \<open>The four functions that store a handle in a slot, each with the kind it accepts.\<close>

definition handle_setters ::
  "((dpiImpl \<Rightarrow> dpiVar \<Rightarrow> uint32 \<Rightarrow> addr option \<Rightarrow> world \<Rightarrow> dpiStatus \<times> dpiVar \<times> world)
     \<times> dpiHandleTypeNum) list" where
  "handle_setters =
     [(dpiVar__setFromLob, DPI_HTYPE_LOB), (dpiVar__setFromStmt, DPI_HTYPE_STMT),
      (dpiVar__setFromRowid, DPI_HTYPE_ROWID), (dpiVar__setFromObject, DPI_HTYPE_OBJECT)]"

text \<open>
  A CLOB variable of two slots whose first slot holds the LOB 5, in a world with the LOBs
  5 and 6.
\<close>

definition lob_cell :: "addr option \<Rightarrow> dpiData" where
  "lob_cell h =
     \<lparr>isNull = (h = None),
      asBytes = \<lparr>b_ptr = map_option (\<lambda>a. (a, 0)) h, b_length = 0, b_encoding = None\<rparr>\<rparr>"

definition var_lob :: dpiVar where
  "var_lob =
     \<lparr>self = 2, env = env0, conn = Some conn0, type = type_CLOB,
      nativeTypeNum = DPI_NATIVE_TYPE_LOB, maxArraySize = 2, actualArraySize = 0,
      requiresPreFetch = False, isArray = False, sizeInBytes = 8, isDynamic = False,
      objectType = None, data = Some 3, indicator = Some [- 1, - 1],
      returnCode = None, actualLength = Some [8, 8],
      objectIndicator = None, references = Some [Some 5, None], dynamicBytes = None,
      tempBuffer = None, externalData = Some [lob_cell (Some 5), lob_cell None]\<rparr>"

definition w_lob :: world where
  "w_lob =
     \<lparr>heap = (\<lambda>a. if a = 3 then Some (map (PtrFrag (Some 7)) [0..<8] @ replicate 8 Undef)
                  else None),
      next_addr = 9, outcomes = [], frees = [],
      refs = [(1, 1), (2, 1), (1, 1), (5, 1), (6, 1)],
      handles = (\<lambda>a. if a = 1 then Some \<lparr>typeNum = DPI_HTYPE_CONN, native = None,
                                         nativeInd = None\<rparr>
                     else if a = 2 then Some \<lparr>typeNum = DPI_HTYPE_VAR, native = None,
                                              nativeInd = None\<rparr>
                     else if a = 5 then Some \<lparr>typeNum = DPI_HTYPE_LOB, native = Some 7,
                                              nativeInd = None\<rparr>
                     else if a = 6 then Some \<lparr>typeNum = DPI_HTYPE_LOB, native = Some 8,
                                              nativeInd = None\<rparr>
                     else None)\<rparr>"

text \<open>
  The last loop of \<^verbatim>\<open>dpiVar__allocateBuffers\<close> over the cells \<open>ed\<close> that exist already.
\<close>

definition repoint :: "dpiImpl \<Rightarrow> dpiVar \<Rightarrow> dpiData list \<Rightarrow> dpiData list" where
  "repoint K var ed =
     map (\<lambda>i. set_bytes_view K var i (ed ! i)) [0..<unat (maxArraySize var)]
       @ drop (unat (maxArraySize var)) ed"



text \<open>
  Relations between a state before and a state after, for the steps that build the
  buffers. \<open>heap_le\<close>: addresses are only added, nothing is freed, the trace of the
  reference counts is only extended and every block that existed keeps its size.
  \<open>keeps\<close>: a step changes neither the kind and sizes of the variable nor its value
  array, indicators, lengths and null flags, nor the dynamic byte sets (absent, or all
  zeroed). \<open>no_buffers\<close>: every buffer pointer of the variable is NULL.
\<close>

definition heap_le :: "world \<Rightarrow> world \<Rightarrow> bool" where
  "heap_le w w' \<longleftrightarrow>
     next_addr w \<le> next_addr w' \<and> frees w' = frees w
     \<and> (\<exists>more. refs w' = refs w @ more)
     \<and> (\<forall>a < next_addr w. map_option length (heap w' a) = map_option length (heap w a))"

definition keeps :: "dpiVar \<times> world \<Rightarrow> dpiVar \<times> world \<Rightarrow> bool" where
  "keeps s s' \<longleftrightarrow>
     (case (s, s') of ((v, w), (v', w')) \<Rightarrow>
        isDynamic v' = isDynamic v \<and> maxArraySize v' = maxArraySize v
        \<and> sizeInBytes v' = sizeInBytes v \<and> type v' = type v
        \<and> nativeTypeNum v' = nativeTypeNum v
        \<and> data v' = data v \<and> indicator v' = indicator v \<and> actualLength v' = actualLength v
        \<and> returnCode v' = returnCode v \<and> tempBuffer v' = tempBuffer v
        \<and> map_option (map isNull) (externalData v') = map_option (map isNull) (externalData v)
        \<and> (dynamicBytes v = None \<longrightarrow> dynamicBytes v' = None)
        \<and> (\<forall>n. dynamicBytes v = Some (replicate n zero_dynBytes)
               \<longrightarrow> dynamicBytes v' = Some (replicate n zero_dynBytes))
        \<and> heap_le w w')"

definition no_buffers :: "dpiVar \<Rightarrow> bool" where
  "no_buffers v \<longleftrightarrow>
     data v = None \<and> indicator v = None \<and> returnCode v = None \<and> actualLength v = None
     \<and> objectIndicator v = None \<and> references v = None \<and> dynamicBytes v = None
     \<and> tempBuffer v = None \<and> externalData v = None"

text \<open>
  The variable that \<^verbatim>\<open>dpiVar__allocate\<close> returns in \<open>w0\<close> for the type VARCHAR with two
  slots of 40000 bytes, and the world it leaves.
\<close>

definition long_cell :: dpiData where
  "long_cell =
     \<lparr>isNull = True, asBytes = \<lparr>b_ptr = None, b_length = 0, b_encoding = Some ''UTF-8''\<rparr>\<rparr>"

definition var_long :: dpiVar where
  "var_long =
     \<lparr>self = 2, env = env0, conn = Some conn0, type = type_VARCHAR,
      nativeTypeNum = DPI_NATIVE_TYPE_BYTES, maxArraySize = 2, actualArraySize = 0,
      requiresPreFetch = True, isArray = False, sizeInBytes = 0, isDynamic = True,
      objectType = None, data = None, indicator = Some [- 1, - 1],
      returnCode = None, actualLength = None,
      objectIndicator = None, references = None,
      dynamicBytes = Some [zero_dynBytes, zero_dynBytes], tempBuffer = None,
      externalData = Some [long_cell, long_cell]\<rparr>"

definition w_long :: world where
  "w_long = w_raw\<lparr>heap := (\<lambda>a. None), next_addr := 3\<rparr>"



text \<open>
  Vocabulary for the consolidation. \<open>valid_bytes\<close>: the first \<^verbatim>\<open>length\<close> bytes behind the
  pointer of a chunk. \<open>used_chunks\<close>: the first \<^verbatim>\<open>numChunks\<close> entries of the chunk array.
  \<open>chunk_ok\<close>: the chunk points at a live block of \<^verbatim>\<open>allocatedLength\<close> bytes, as
  \<^verbatim>\<open>dpiVar__allocateDynamicBytes\<close> leaves it, and its length is within it.
  \<open>chunks_ok\<close>: the used chunks are such blocks, no two the same, and the sum of their
  reserved lengths fits a \<^verbatim>\<open>uint32_t\<close>.
\<close>

definition valid_bytes :: "world \<Rightarrow> dpiDynamicBytesChunk \<Rightarrow> memval list" where
  "valid_bytes w c =
     (case read_mem (at_start (c_ptr c)) (unat (c_length c)) w of Some bs \<Rightarrow> bs | None \<Rightarrow> [])"

definition used_chunks :: "dpiDynamicBytes \<Rightarrow> dpiDynamicBytesChunk list" where
  "used_chunks d = (case chunks d of Some cs \<Rightarrow> take (unat (numChunks d)) cs | None \<Rightarrow> [])"

definition chunk_ok :: "world \<Rightarrow> dpiDynamicBytesChunk \<Rightarrow> bool" where
  "chunk_ok w c \<longleftrightarrow>
     (case c_ptr c of
        None \<Rightarrow> False
      | Some p \<Rightarrow>
          p < next_addr w \<and> c_length c \<le> allocatedLength c
          \<and> map_option length (heap w p) = Some (unat (allocatedLength c)))"

definition chunks_ok :: "world \<Rightarrow> dpiDynamicBytes \<Rightarrow> bool" where
  "chunks_ok w d \<longleftrightarrow>
     (case chunks d of
        None \<Rightarrow> False
      | Some cs \<Rightarrow>
          unat (numChunks d) \<le> length cs
          \<and> list_all (chunk_ok w) (used_chunks d)
          \<and> distinct (map c_ptr (used_chunks d))
          \<and> sum_list (map (\<lambda>c. unat (allocatedLength c)) (used_chunks d)) < 2 ^ 32)"

text \<open>
  Three chunks of 100, 4096 and 37 bytes, each in a block of 4096 bytes, in a chunk array
  of eight entries; and a dynamic buffer with one chunk.
\<close>

definition chunks_3 :: "dpiDynamicBytesChunk list" where
  "chunks_3 =
     [\<lparr>c_ptr = Some 5, c_length = 100, allocatedLength = 4096\<rparr>,
      \<lparr>c_ptr = Some 6, c_length = 4096, allocatedLength = 4096\<rparr>,
      \<lparr>c_ptr = Some 7, c_length = 37, allocatedLength = 4096\<rparr>]"

definition dyn_3 :: dpiDynamicBytes where
  "dyn_3 = \<lparr>numChunks = 3, allocatedChunks = 8,
            chunks = Some (chunks_3 @ replicate 5 zero_chunk)\<rparr>"

definition w_3 :: world where
  "w_3 =
     \<lparr>heap = (\<lambda>a. if a = 5 then Some (replicate 100 (Byte 1) @ replicate 3996 Undef)
                   else if a = 6 then Some (replicate 4096 (Byte 2))
                   else if a = 7 then Some (replicate 37 (Byte 3) @ replicate 4059 Undef)
                   else None),
      next_addr = 8, outcomes = [], frees = [], refs = [], handles = (\<lambda>a. None)\<rparr>"

definition dyn_1 :: dpiDynamicBytes where
  "dyn_1 = \<lparr>numChunks = 1, allocatedChunks = 8,
            chunks = Some (\<lparr>c_ptr = Some 5, c_length = 100, allocatedLength = 4096\<rparr>
                           # replicate 7 zero_chunk)\<rparr>"

text \<open>
  The variable that \<^verbatim>\<open>dpiVar__allocate\<close> returns in \<open>w0\<close> for the type RAW with two
  slots and a requested size of 1, and the world it leaves.
\<close>

definition var_one :: dpiVar where
  "var_one =
     var_raw\<lparr>sizeInBytes := 1, actualLength := Some [1, 1],
             externalData := Some [raw_cell 0, raw_cell 1]\<rparr>"

definition w_one :: world where
  "w_one = w_raw\<lparr>heap := (\<lambda>a. if a = 3 then Some (replicate 2 Undef) else None)\<rparr>"

text \<open>A BLOB of three bytes.\<close>

definition lob_abc :: dpiLob where
  "lob_abc = \<lparr>lobType = DPI_ORACLE_TYPE_BLOB, lobEnv = env0, lobLength = 3,
              lobContent = [Byte 97, Byte 98, Byte 99]\<rparr>"






section \<open>Properties of the allocation\<close>

lemmas ex_defs = K0_def type_RAW_def type_VARCHAR_def type_CLOB_def conn0_def env0_def w0_def

lemmas allocate_defs =
  dpiVar__allocate_def dpiVar__validateTypes_def dpiGen__allocate_def basic_var_def
  computed_sizeInBytes_def dpiGen__setRefCount_def dpiGen__checkHandle_def
  dpiVar__initBuffers_def dpiVar__extendedInitialize_def extendedInitialize_references_def
  extendedInitialize_type_def

lemma malloc_Some:
  "malloc n w = (Some p, w1) \<Longrightarrow> heap w1 p = Some (replicate n Undef) \<and> frees w1 = frees w"
  by (auto simp add: malloc_def next_outcome_def split: list.splits bool.splits)

lemma andThen_simps:
  "andThen (DPI_SUCCESS, a, b) f = f a b"
  "andThen (DPI_FAILURE e, a, b) f = (DPI_FAILURE e, a, b)"
  "andThen (UNDEFINED, a, b) f = (UNDEFINED, a, b)"
  by (simp_all add: andThen_def)

lemma andThen_success:
  "andThen r f = (DPI_SUCCESS, a', b') \<Longrightarrow> \<exists>a b. r = (DPI_SUCCESS, a, b) \<and> f a b = (DPI_SUCCESS, a', b')"
  by (cases r; cases "fst r") (auto simp add: andThen_def)

lemma allocateBuffers_unfold:
  "dpiVar__allocateBuffers K var w =
     andThen (andThen (andThen (andThen (andThen (andThen (allocateBuffers_data var w)
       (allocateBuffers_indicator K)) allocateBuffers_actualLength) allocateBuffers_returnCode)
       (allocateBuffers_tempBuffer K)) allocateBuffers_externalData) (allocateBuffers_bytes K)"
  by (simp add: dpiVar__allocateBuffers_def andThen_simps)

lemma replicate_2: "replicate 2 x = [x, x]"
  by (simp add: numeral_2_eq_2)

lemma upt_0_2: "[0..<2] = [0, 1]"
  by (simp add: numeral_2_eq_2)

lemma allocate_raw:
  "dpiVar__allocate K0 conn0 DPI_ORACLE_TYPE_RAW DPI_NATIVE_TYPE_BYTES 2 10 True False None w0
     = (DPI_SUCCESS, Some var_raw, w_raw)"
  by (simp add: ex_defs allocate_defs allocateBuffers_unfold andThen_simps
      allocateBuffers_data_def allocateBuffers_indicator_def allocateBuffers_actualLength_def
      allocateBuffers_returnCode_def allocateBuffers_tempBuffer_def
      allocateBuffers_externalData_def allocateBuffers_bytes_def set_bytes_view_def
      tempBufferSize_def malloc_def next_outcome_def INT_MAX_def zero_data_def
      var_raw_def w_raw_def raw_cell_def fun_eq_iff replicate_2 upt_0_2)

text \<open>
  C8: for every type of the table and every native kind, \<^verbatim>\<open>dpiVar__allocate\<close> with a
  capacity of 0 fails with \<open>DPI_ERR_ARRAY_SIZE_ZERO\<close>, returns no variable and leaves the
  world as it was: nothing was allocated, no call that can fail was made.
\<close>

theorem allocate_capacity_zero:
  assumes "dpiOracleType__getFromNum K oracleTypeNum' = Some type'"
  shows "dpiVar__allocate K conn' oracleTypeNum' nativeTypeNum' 0 size0 sizeIsBytes isArray'
           objType w = (DPI_FAILURE DPI_ERR_ARRAY_SIZE_ZERO, None, w)"
  using assms by (simp add: dpiVar__allocate_def)

theorem allocate_capacity_zero_witness:
  "dpiVar__allocate K0 conn0 DPI_ORACLE_TYPE_VARCHAR DPI_NATIVE_TYPE_INT64 0 10 False True
     None w0 = (DPI_FAILURE DPI_ERR_ARRAY_SIZE_ZERO, None, w0)"
  using allocate_capacity_zero [of K0 DPI_ORACLE_TYPE_VARCHAR type_VARCHAR]
  by (simp add: K0_def)

lemma computed_sizeInBytes_zero:
  "computed_sizeInBytes K conn' type' 0 sizeIsBytes
     = computed_sizeInBytes K conn' type' 1 sizeIsBytes"
  by (simp add: computed_sizeInBytes_def)

section \<open>Properties of the writes\<close>

text \<open>
  C10: \<^verbatim>\<open>dpiVar__copyData\<close> with a source cell whose null flag is set succeeds and
  changes nothing but the null flag of the target's external cell: the value of that
  cell, every other field of the variable (value array, indicator, references) and the
  world (heap, reference counts) are as before.
\<close>

theorem copyData_null_source:
  assumes "isNull sourceData" and "externalData var = Some ed" and "unat pos < length ed"
  shows "dpiVar__copyData K var pos sourceData w =
           (DPI_SUCCESS,
            var\<lparr>externalData := Some (ed[unat pos := (ed ! unat pos)\<lparr>isNull := True\<rparr>])\<rparr>, w)"
  using assms by (simp add: dpiVar__copyData_def)

theorem copyData_null_source_witness:
  "dpiVar__copyData K0 (var_raw\<lparr>externalData := Some [raw_cell 0, (raw_cell 10)\<lparr>isNull := False\<rparr>]\<rparr>)
     1 (raw_cell 7) w_raw = (DPI_SUCCESS, var_raw, w_raw)"
  using copyData_null_source [of "raw_cell 7"
      "var_raw\<lparr>externalData := Some [raw_cell 0, (raw_cell 10)\<lparr>isNull := False\<rparr>]\<rparr>"
      "[raw_cell 0, (raw_cell 10)\<lparr>isNull := False\<rparr>]" 1 K0 w_raw]
  by (simp add: raw_cell_def var_raw_def)

text \<open>
  C2: for a fixed byte variable (no dynamic bytes, no scratch buffer) a value longer than
  the element size makes \<^verbatim>\<open>dpiVar__setFromBytes\<close>, and \<^verbatim>\<open>dpiVar_setFromBytes\<close> for a
  valid slot, fail with \<open>DPI_ERR_BUFFER_SIZE_TOO_SMALL\<close>; the variable (stored value,
  null flag, actual length, return code) and the world are unchanged.
\<close>

theorem setFromBytes_too_long:
  assumes "dynamicBytes var = None" and "tempBuffer var = None"
    and "nativeTypeNum var = DPI_NATIVE_TYPE_BYTES"
    and "dpiGen__startPublicFn var w" and "pos < maxArraySize var"
    and "sizeInBytes var < valueLength"
  shows "dpiVar__setFromBytes K var pos val valueLength w =
           (DPI_FAILURE DPI_ERR_BUFFER_SIZE_TOO_SMALL, var, w)
         \<and> dpiVar_setFromBytes K var pos val valueLength w =
             (DPI_FAILURE DPI_ERR_BUFFER_SIZE_TOO_SMALL, var, w)"
  using assms
  by (auto simp add: dpiVar__setFromBytes_def dpiVar_setFromBytes_def dpiVar__checkArraySize_def)

theorem setFromBytes_too_long_witness:
  "dpiVar_setFromBytes K0 var_raw 1 (replicate 11 (Byte 65)) 11 w_raw =
     (DPI_FAILURE DPI_ERR_BUFFER_SIZE_TOO_SMALL, var_raw, w_raw)"
proof -
  have "dpiGen__startPublicFn var_raw w_raw"
    by (simp add: dpiGen__startPublicFn_def dpiGen__checkHandle_def var_raw_def w_raw_def)
  then show ?thesis
    using setFromBytes_too_long [of var_raw w_raw 1 11 K0 "replicate 11 (Byte 65)"]
    by (simp add: var_raw_def)
qed

section \<open>Properties of the chunk allocator\<close>

lemma and_not_mask_eq: "(x :: 'a::len word) AND NOT (mask k) = push_bit k (drop_bit k x)"
  by (rule bit_word_eqI) (auto simp: bit_simps)

lemma round_down: "unat ((x :: 32 word) AND NOT (mask k)) = (unat x div 2 ^ k) * 2 ^ k"
proof -
  have "(unat x div 2 ^ k) * 2 ^ k \<le> unat x" by simp
  moreover have "unat x < 2 ^ 32" using unsigned_less [of x] by simp
  ultimately have lt: "(unat x div 2 ^ k) * 2 ^ k < 2 ^ 32" by linarith
  have "unat (push_bit k (drop_bit k x)) = take_bit LENGTH(32) (push_bit k (unat (drop_bit k x)))"
    by (rule unsigned_push_bit_eq)
  also have "\<dots> = take_bit 32 ((unat x div 2 ^ k) * 2 ^ k)"
    by (simp only: unat_drop_bit_eq) (simp add: push_bit_eq_mult drop_bit_eq_div)
  also have "\<dots> = (unat x div 2 ^ k) * 2 ^ k"
    using lt by (simp only: take_bit_nat_eq_self)
  finally show ?thesis by (simp only: and_not_mask_eq)
qed

text \<open>The rounding of the source, for a quantum that is a power of two, without overflow.\<close>

lemma round_up:
  assumes c: "unat (C :: 32 word) = 2 ^ k" and le: "unat (s :: 32 word) + 2 ^ k \<le> 2 ^ 32"
  shows "unat ((s + C - 1) AND NOT (C - 1)) = ((unat s + 2 ^ k - 1) div 2 ^ k) * 2 ^ k"
proof -
  have "C \<noteq> 0" using c by (metis power_not_zero unat_0 zero_neq_numeral)
  then have c1: "unat (C - 1) = 2 ^ k - 1" using c by (simp add: unat_minus_one)
  have "C = 2 ^ k"
    using c by (metis le_unat_uoi of_nat_numeral of_nat_power unsigned_word_eqI verit_comp_simplify1(2))
  then have m: "C - 1 = mask k" by (simp add: mask_eq_decr_exp)
  have "unat s + unat (C - 1) < 2 ^ LENGTH(32)" using c1 le by simp
  then have "unat (s + (C - 1)) = unat s + unat (C - 1)" by (simp only: unat_add_lem)
  then have "unat (s + C - 1) = unat s + 2 ^ k - 1" using c1 by (simp add: add_diff_eq)
  then show ?thesis by (simp add: round_down m)
qed

lemma round_up_ge: "0 < q \<Longrightarrow> (n::nat) \<le> ((n + q - 1) div q) * q"
proof -
  assume q: "0 < q"
  have "((n + q - 1) div q) * q = (n + q - 1) - (n + q - 1) mod q"
    by (simp add: minus_mod_eq_div_mult)
  moreover have "(n + q - 1) mod q < q" using q by (rule mod_less_divisor)
  ultimately show ?thesis using q by linarith
qed

lemma replicate_8: "replicate (8::nat) x = x # replicate 7 x"
  by (simp add: eval_nat_numeral)

lemma allocateChunks_first:
  assumes "allocatedChunks d = 0" and "numChunks d = 0"
    and "dpiVar__allocateChunks d w = (DPI_SUCCESS, d1, w1)"
  shows "\<exists>cs. chunks d1 = Some (zero_chunk # cs) \<and> numChunks d1 = 0
           \<and> frees w1 = frees w \<and> heap w1 = heap w"
  using assms
  by (auto simp add: dpiVar__allocateChunks_def next_outcome_def replicate_8
      split: list.splits bool.splits option.splits)

lemma free_opt_frees:
  "frees (case c_ptr c of Some p \<Rightarrow> free p w | None \<Rightarrow> w)
     = frees w @ (case c_ptr c of Some p \<Rightarrow> [p] | None \<Rightarrow> [])"
  by (simp add: free_def split: option.splits)

lemma allocateDynamicBytes_10:
  "dpiVar__allocateDynamicBytes K0 zero_dynBytes 10 w0 = (DPI_SUCCESS, dyn_10, w_dyn_10)"
  by (simp add: dpiVar__allocateDynamicBytes_def dpiVar__allocateChunks_def zero_dynBytes_def
      next_outcome_def malloc_def w0_def K0_def replicate_8 zero_chunk_def dyn_10_def
      w_dyn_10_def)

lemma allocateChunks_numChunks:
  "dpiVar__allocateChunks d w = (st, d1, w1) \<Longrightarrow> numChunks d1 = numChunks d"
  by (auto simp add: dpiVar__allocateChunks_def Let_def
      split: prod.splits bool.splits option.splits if_splits)

lemma allocateDynamicBytes_numChunks:
  assumes "dpiVar__allocateDynamicBytes K d size' w = (st, d', w')"
  shows "numChunks d' = 0"
proof -
  define d0 where "d0 = d\<lparr>numChunks := 0\<rparr>"
  obtain st1 d1 w1 where s1: "(if allocatedChunks d0 = 0 then dpiVar__allocateChunks d0 w
            else (DPI_SUCCESS, d0, w)) = (st1, d1, w1)"
    by (metis prod_cases3)
  have n1: "numChunks d1 = 0"
    using s1 allocateChunks_numChunks [of d0 w st1 d1 w1]
    by (auto simp add: d0_def split: if_splits)
  show ?thesis
  proof (cases "st1 = DPI_SUCCESS")
    case False
    then have "d' = d1"
      using assms s1 unfolding dpiVar__allocateDynamicBytes_def Let_def d0_def [symmetric]
      by (cases st1) auto
    then show ?thesis using n1 by simp
  next
    case True
    show ?thesis
      using assms s1 True n1 unfolding dpiVar__allocateDynamicBytes_def Let_def d0_def [symmetric]
      by (auto split: option.splits list.splits if_splits prod.splits)
  qed
qed


lemma allocateDynamicBytes_reserve:
  assumes c: "unat (DPI_DYNAMIC_BYTES_CHUNK_SIZE K) = 2 ^ k"
    and le: "unat size' + 2 ^ k \<le> 2 ^ 32"
    and run: "dpiVar__allocateDynamicBytes K d size' w = (DPI_SUCCESS, d', w')"
  shows "(\<exists>c cs. chunks d' = Some (c # cs) \<and> size' \<le> allocatedLength c \<and>
            (if size' \<le> allocatedLength (first_chunk d)
             then c = first_chunk d \<and> frees w' = frees w \<and> heap w' = heap w
             else unat (allocatedLength c) = ((unat size' + 2 ^ k - 1) div 2 ^ k) * 2 ^ k
                  \<and> frees w' = frees w @ (case c_ptr (first_chunk d) of
                                            Some p \<Rightarrow> [p] | None \<Rightarrow> [])
                  \<and> (\<exists>p. c_ptr c = Some p
                         \<and> heap w' p = Some (replicate (unat (allocatedLength c)) Undef))))"
proof -
  define d0 where "d0 = d\<lparr>numChunks := 0\<rparr>"
  obtain st1 d1 w1 where s1: "(if allocatedChunks d0 = 0 then dpiVar__allocateChunks d0 w
            else (DPI_SUCCESS, d0, w)) = (st1, d1, w1)"
    by (metis prod_cases3)
  have st1: "st1 = DPI_SUCCESS"
    using run s1 unfolding dpiVar__allocateDynamicBytes_def Let_def d0_def [symmetric]
    by (cases st1) auto
  have first: "\<exists>cs. chunks d1 = Some (first_chunk d # cs) \<and> numChunks d1 = 0
                 \<and> frees w1 = frees w \<and> heap w1 = heap w"
  proof (cases "allocatedChunks d = 0")
    case True
    then show ?thesis
      using allocateChunks_first [of d0 w d1 w1] s1 st1
      by (simp add: d0_def first_chunk_def)
  next
    case False
    then have e: "d1 = d0" "w1 = w" using s1 by (simp_all add: d0_def)
    have "\<exists>c cs. chunks d0 = Some (c # cs)"
      using run s1 st1 e unfolding dpiVar__allocateDynamicBytes_def Let_def d0_def [symmetric]
      by (auto split: option.splits list.splits)
    then show ?thesis using False e by (auto simp add: d0_def first_chunk_def)
  qed
  then obtain cs where cs: "chunks d1 = Some (first_chunk d # cs)" and n1: "numChunks d1 = 0"
    and f1: "frees w1 = frees w" and h1: "heap w1 = heap w" by blast
  let ?c = "first_chunk d"
  let ?n = "(size' + DPI_DYNAMIC_BYTES_CHUNK_SIZE K - 1)
              AND NOT (DPI_DYNAMIC_BYTES_CHUNK_SIZE K - 1)"
  have un: "unat ?n = ((unat size' + 2 ^ k - 1) div 2 ^ k) * 2 ^ k"
    using round_up [OF c le] .
  have ge: "size' \<le> ?n"
    using round_up_ge [of "2 ^ k" "unat size'"] un by (simp add: word_le_nat_alt)
  show ?thesis
  proof (cases "size' \<le> allocatedLength ?c")
    case True
    then have "d' = d1" "w' = w1"
      using run s1 st1 cs unfolding dpiVar__allocateDynamicBytes_def Let_def d0_def [symmetric]
      by (auto simp add: not_less [symmetric])
    then show ?thesis using True cs n1 f1 h1 by simp
  next
    case False
    then have gt: "allocatedLength ?c < size'" by simp
    obtain p' w3 where m:
      "malloc (unat ?n) (case c_ptr ?c of Some p \<Rightarrow> free p w1 | None \<Rightarrow> w1) = (p', w3)"
      by (metis surj_pair)
    have res: "p' \<noteq> None \<and> w' = w3
        \<and> d' = d1\<lparr>chunks := Some (?c\<lparr>allocatedLength := ?n, c_ptr := p'\<rparr> # cs)\<rparr>"
      using run s1 st1 cs gt m unfolding dpiVar__allocateDynamicBytes_def Let_def d0_def [symmetric]
      by (auto split: if_splits)
    then obtain p where p: "p' = Some p" by auto
    have "heap w3 p = Some (replicate (unat ?n) Undef)"
      and "frees w3 = frees (case c_ptr ?c of Some p \<Rightarrow> free p w1 | None \<Rightarrow> w1)"
      using malloc_Some [OF m [unfolded p]] by simp_all
    then show ?thesis
      using False res p n1 ge un f1 by (simp add: free_opt_frees)
  qed
qed

lemma setFromBytes_numChunks:
  assumes "dynamicBytes var = Some ds" and "references var = None"
    and "dpiVar__setFromBytes K var pos val valueLength w = (DPI_SUCCESS, var2, w2)"
  shows "\<exists>ds2 c cs. dynamicBytes var2 = Some ds2 \<and> unat pos < length ds2
           \<and> numChunks (ds2 ! unat pos) = 1
           \<and> chunks (ds2 ! unat pos) = Some (c # cs) \<and> c_length c = valueLength"
  using assms
  by (auto simp add: dpiVar__setFromBytes_def setFromBytes_dynamic_def Let_def
      split: if_splits option.splits prod.splits dpiStatus.splits list.splits)

lemma setBytesFromLob_numChunks:
  assumes "dpiVar__setBytesFromLob K bytes d lob w = (DPI_SUCCESS, (bytes', d'), w')"
  shows "numChunks d' = 0"
  using assms
  by (auto simp add: dpiVar__setBytesFromLob_def Let_def
      split: if_splits option.splits prod.splits dpiStatus.splits list.splits
      dest: allocateDynamicBytes_numChunks)


text \<open>
  C3, as the code has it: \<^verbatim>\<open>dpiVar__allocateDynamicBytes\<close> sets \<open>numChunks\<close> to 0 and
  leaves it at 0, however it returns. When it succeeds, for a quantum that is a power of
  two and a required size that the rounding does not carry over \<open>2^32\<close>, the first chunk
  reserves at least the required size: the chunk it found, untouched, when that reserve
  is enough, and otherwise a freshly allocated chunk of the required size rounded up to
  the next multiple of the quantum, the old buffer (if there was one) freed once. Of its
  two callers, \<^verbatim>\<open>dpiVar__setFromBytes\<close> sets \<open>numChunks\<close> of the slot to 1, with the
  length of the value in the first chunk, and \<^verbatim>\<open>dpiVar__setBytesFromLob\<close> leaves it
  at 0.
\<close>

theorem allocateDynamicBytes_amended:
  "(dpiVar__allocateDynamicBytes K d size' w = (st, d', w') \<longrightarrow>
      numChunks d' = 0
    \<and> (st = DPI_SUCCESS \<and> unat (DPI_DYNAMIC_BYTES_CHUNK_SIZE K) = 2 ^ k
          \<and> unat size' + 2 ^ k \<le> 2 ^ 32 \<longrightarrow>
        (\<exists>c cs. chunks d' = Some (c # cs) \<and> size' \<le> allocatedLength c \<and>
            (if size' \<le> allocatedLength (first_chunk d)
             then c = first_chunk d \<and> frees w' = frees w \<and> heap w' = heap w
             else unat (allocatedLength c) = ((unat size' + 2 ^ k - 1) div 2 ^ k) * 2 ^ k
                  \<and> frees w' = frees w @ (case c_ptr (first_chunk d) of
                                            Some p \<Rightarrow> [p] | None \<Rightarrow> [])
                  \<and> (\<exists>p. c_ptr c = Some p
                         \<and> heap w' p = Some (replicate (unat (allocatedLength c)) Undef))))))
   \<and> (dynamicBytes var = Some ds \<and> references var = None
        \<and> dpiVar__setFromBytes K var pos val valueLength w1 = (DPI_SUCCESS, var2, w2) \<longrightarrow>
        (\<exists>ds2 c cs. dynamicBytes var2 = Some ds2 \<and> unat pos < length ds2
           \<and> numChunks (ds2 ! unat pos) = 1
           \<and> chunks (ds2 ! unat pos) = Some (c # cs) \<and> c_length c = valueLength))
   \<and> (dpiVar__setBytesFromLob K bytes d3 lob w3 = (DPI_SUCCESS, (bytes4, d4), w4) \<longrightarrow>
        numChunks d4 = 0)"
proof (intro conjI impI)
  assume "dpiVar__allocateDynamicBytes K d size' w = (st, d', w')"
  then show "numChunks d' = 0" by (rule allocateDynamicBytes_numChunks)
next
  assume r: "dpiVar__allocateDynamicBytes K d size' w = (st, d', w')"
    and h: "st = DPI_SUCCESS \<and> unat (DPI_DYNAMIC_BYTES_CHUNK_SIZE K) = 2 ^ k
          \<and> unat size' + 2 ^ k \<le> 2 ^ 32"
  have c: "unat (DPI_DYNAMIC_BYTES_CHUNK_SIZE K) = 2 ^ k" and le: "unat size' + 2 ^ k \<le> 2 ^ 32"
    and run: "dpiVar__allocateDynamicBytes K d size' w = (DPI_SUCCESS, d', w')"
    using r h by simp_all
  show "\<exists>c cs. chunks d' = Some (c # cs) \<and> size' \<le> allocatedLength c \<and>
            (if size' \<le> allocatedLength (first_chunk d)
             then c = first_chunk d \<and> frees w' = frees w \<and> heap w' = heap w
             else unat (allocatedLength c) = ((unat size' + 2 ^ k - 1) div 2 ^ k) * 2 ^ k
                  \<and> frees w' = frees w @ (case c_ptr (first_chunk d) of
                                            Some p \<Rightarrow> [p] | None \<Rightarrow> [])
                  \<and> (\<exists>p. c_ptr c = Some p
                         \<and> heap w' p = Some (replicate (unat (allocatedLength c)) Undef)))"
    using allocateDynamicBytes_reserve [OF c le run] .
next
  assume "dynamicBytes var = Some ds \<and> references var = None
        \<and> dpiVar__setFromBytes K var pos val valueLength w1 = (DPI_SUCCESS, var2, w2)"
  then show "\<exists>ds2 c cs. dynamicBytes var2 = Some ds2 \<and> unat pos < length ds2
           \<and> numChunks (ds2 ! unat pos) = 1
           \<and> chunks (ds2 ! unat pos) = Some (c # cs) \<and> c_length c = valueLength"
    using setFromBytes_numChunks by blast
next
  assume "dpiVar__setBytesFromLob K bytes d3 lob w3 = (DPI_SUCCESS, (bytes4, d4), w4)"
  then show "numChunks d4 = 0" by (rule setBytesFromLob_numChunks)
qed

lemma allocateDynamicBytes_keep:
  "dpiVar__allocateDynamicBytes K0 (dyn_10\<lparr>numChunks := 1\<rparr>) 20 w_dyn_10
     = (DPI_SUCCESS, dyn_10, w_dyn_10)"
  by (simp add: dpiVar__allocateDynamicBytes_def dyn_10_def)

lemma allocateDynamicBytes_grow:
  "fst (dpiVar__allocateDynamicBytes K0 (dyn_10\<lparr>numChunks := 1\<rparr>) 70000 w_dyn_10) = DPI_SUCCESS"
  by (simp add: dpiVar__allocateDynamicBytes_def dyn_10_def malloc_def next_outcome_def
      free_def w_dyn_10_def w0_def K0_def Let_def)

lemma allocateDynamicBytes_refused:
  "fst (dpiVar__allocateDynamicBytes K0 (dyn_10\<lparr>numChunks := 1\<rparr>) 70000
          (w_dyn_10\<lparr>outcomes := [False]\<rparr>)) = DPI_FAILURE DPI_ERR_NO_MEMORY"
  by (simp add: dpiVar__allocateDynamicBytes_def dyn_10_def malloc_def next_outcome_def
      free_def w_dyn_10_def w0_def K0_def Let_def)

lemma setFromBytes_long:
  "fst (dpiVar__setFromBytes K0 var_long 0 [Byte 97, Byte 98, Byte 99] 3 w_long) = DPI_SUCCESS"
  by (simp add: dpiVar__setFromBytes_def setFromBytes_dynamic_def
      dpiVar__allocateDynamicBytes_def dpiVar__allocateChunks_def zero_dynBytes_def
      zero_chunk_def replicate_8 malloc_def next_outcome_def memcpy_def at_start_def
      var_long_def w_long_def w_raw_def K0_def env0_def Let_def)

lemma setBytesFromLob_abc:
  "fst (dpiVar__setBytesFromLob K0 (asBytes zero_data) zero_dynBytes lob_abc w0) = DPI_SUCCESS"
  by (simp add: dpiVar__setBytesFromLob_def OCILobGetLength2_def dpiLob__readBytes_def
      UB4MAXVAL_def lob_abc_def dpiVar__allocateDynamicBytes_def dpiVar__allocateChunks_def
      zero_dynBytes_def zero_chunk_def replicate_8 malloc_def next_outcome_def memcpy_def
      at_start_def w0_def K0_def Let_def)


theorem allocateDynamicBytes_amended_witness:
  "dpiVar__allocateDynamicBytes K0 zero_dynBytes 10 w0 = (DPI_SUCCESS, dyn_10, w_dyn_10)
   \<and> numChunks dyn_10 = 0
   \<and> (\<exists>c cs. chunks dyn_10 = Some (c # cs) \<and> unat (allocatedLength c) = 65536
          \<and> frees w_dyn_10 = []
          \<and> (\<exists>p. c_ptr c = Some p \<and> heap w_dyn_10 p = Some (replicate 65536 Undef)))
   \<and> dpiVar__allocateDynamicBytes K0 (dyn_10\<lparr>numChunks := 1\<rparr>) 20 w_dyn_10
       = (DPI_SUCCESS, dyn_10, w_dyn_10)
   \<and> fst (dpiVar__allocateDynamicBytes K0 (dyn_10\<lparr>numChunks := 1\<rparr>) 70000 w_dyn_10)
       = DPI_SUCCESS
   \<and> numChunks (fst (snd (dpiVar__allocateDynamicBytes K0 (dyn_10\<lparr>numChunks := 1\<rparr>) 70000
        w_dyn_10))) = 0
   \<and> frees (snd (snd (dpiVar__allocateDynamicBytes K0 (dyn_10\<lparr>numChunks := 1\<rparr>) 70000
        w_dyn_10))) = [2]
   \<and> (\<exists>c cs p. chunks (fst (snd (dpiVar__allocateDynamicBytes K0 (dyn_10\<lparr>numChunks := 1\<rparr>)
            70000 w_dyn_10))) = Some (c # cs)
          \<and> unat (allocatedLength c) = 131072 \<and> c_ptr c = Some p
          \<and> heap (snd (snd (dpiVar__allocateDynamicBytes K0 (dyn_10\<lparr>numChunks := 1\<rparr>) 70000
               w_dyn_10))) p = Some (replicate 131072 Undef))
   \<and> fst (dpiVar__allocateDynamicBytes K0 (dyn_10\<lparr>numChunks := 1\<rparr>) 70000
            (w_dyn_10\<lparr>outcomes := [False]\<rparr>)) = DPI_FAILURE DPI_ERR_NO_MEMORY
   \<and> numChunks (fst (snd (dpiVar__allocateDynamicBytes K0 (dyn_10\<lparr>numChunks := 1\<rparr>) 70000
        (w_dyn_10\<lparr>outcomes := [False]\<rparr>)))) = 0
   \<and> fst (dpiVar__setFromBytes K0 var_long 0 [Byte 97, Byte 98, Byte 99] 3 w_long) = DPI_SUCCESS
   \<and> (\<exists>ds2 c cs.
         dynamicBytes (fst (snd (dpiVar__setFromBytes K0 var_long 0 [Byte 97, Byte 98, Byte 99] 3
           w_long))) = Some ds2
       \<and> numChunks (ds2 ! 0) = 1 \<and> chunks (ds2 ! 0) = Some (c # cs) \<and> c_length c = 3)
   \<and> fst (dpiVar__setBytesFromLob K0 (asBytes zero_data) zero_dynBytes lob_abc w0) = DPI_SUCCESS
   \<and> numChunks (snd (fst (snd (dpiVar__setBytesFromLob K0 (asBytes zero_data) zero_dynBytes
        lob_abc w0)))) = 0"
proof -
  let ?d1 = "dyn_10\<lparr>numChunks := 1\<rparr>"
  let ?g = "dpiVar__allocateDynamicBytes K0 ?d1 70000 w_dyn_10"
  let ?f = "dpiVar__allocateDynamicBytes K0 ?d1 70000 (w_dyn_10\<lparr>outcomes := [False]\<rparr>)"
  let ?s = "dpiVar__setFromBytes K0 var_long 0 [Byte 97, Byte 98, Byte 99] 3 w_long"
  let ?l = "dpiVar__setBytesFromLob K0 (asBytes zero_data) zero_dynBytes lob_abc w0"
  have q: "unat (DPI_DYNAMIC_BYTES_CHUNK_SIZE K0) = 2 ^ 16" by (simp add: K0_def)
  have b: "unat (10 :: 32 word) + 2 ^ 16 \<le> (2 :: nat) ^ 32"
    "unat (70000 :: 32 word) + 2 ^ 16 \<le> (2 :: nat) ^ 32"
    by simp_all
  have rg: "?g = (DPI_SUCCESS, fst (snd ?g), snd (snd ?g))"
    using allocateDynamicBytes_grow by (metis prod.collapse)
  have rf: "?f = (fst ?f, fst (snd ?f), snd (snd ?f))" by simp
  have rs: "?s = (DPI_SUCCESS, fst (snd ?s), snd (snd ?s))"
    using setFromBytes_long by (metis prod.collapse)
  have rl: "?l = (DPI_SUCCESS, (fst (fst (snd ?l)), snd (fst (snd ?l))), snd (snd ?l))"
    using setBytesFromLob_abc by (metis prod.collapse)
  have v: "dynamicBytes var_long = Some [zero_dynBytes, zero_dynBytes]" "references var_long = None"
    by (simp_all add: var_long_def)
  have fc: "first_chunk zero_dynBytes = zero_chunk"
    "first_chunk ?d1 = \<lparr>c_ptr = Some 2, c_length = 0, allocatedLength = 65536\<rparr>"
    "frees w_dyn_10 = []" "frees w0 = []"
    by (simp_all add: first_chunk_def zero_dynBytes_def dyn_10_def w_dyn_10_def w0_def)
  note a1 = allocateDynamicBytes_amended [THEN conjunct1, rule_format,
      OF allocateDynamicBytes_10]
  note a1n = a1 [THEN conjunct1]
  note a1r = a1 [THEN conjunct2, rule_format, OF conjI [OF refl conjI [OF q b(1)]], unfolded fc]
  note a2 = allocateDynamicBytes_amended [THEN conjunct1, rule_format, OF rg]
  note a2n = a2 [THEN conjunct1]
  note a2r = a2 [THEN conjunct2, rule_format, OF conjI [OF refl conjI [OF q b(2)]], unfolded fc]
  note a3n = allocateDynamicBytes_amended [THEN conjunct1, rule_format, OF rf, THEN conjunct1]
  note a4 = allocateDynamicBytes_amended [THEN conjunct2, THEN conjunct1, rule_format,
      OF conjI [OF v(1) conjI [OF v(2) rs]]]
  note a5 = allocateDynamicBytes_amended [THEN conjunct2, THEN conjunct2, rule_format, OF rl]
  have k: "allocatedLength zero_chunk = 0" "c_ptr zero_chunk = None"
    by (simp_all add: zero_chunk_def)
  show ?thesis
    using allocateDynamicBytes_10 allocateDynamicBytes_keep allocateDynamicBytes_grow
      allocateDynamicBytes_refused setFromBytes_long setBytesFromLob_abc
      a1n a1r a2n a2r a3n a4 a5 k fc(3)
    by (auto simp add: word_le_nat_alt)
qed

text \<open>
  The claim as stated, with \<open>numChunks\<close> set to 1 once the chunk is large enough, fails:
  the call succeeds and \<open>numChunks\<close> is 0. (It is \<^verbatim>\<open>dpiVar__setFromBytes\<close> that sets it
  to 1, after the copy.)
\<close>

theorem allocateDynamicBytes_counterexample:
  "fst (dpiVar__allocateDynamicBytes K0 zero_dynBytes 10 w0) = DPI_SUCCESS
   \<and> numChunks (fst (snd (dpiVar__allocateDynamicBytes K0 zero_dynBytes 10 w0))) = 0
   \<and> numChunks (fst (snd (dpiVar__allocateDynamicBytes K0 zero_dynBytes 10 w0))) \<noteq> 1"
  by (simp add: allocateDynamicBytes_10 dyn_10_def)

section \<open>Properties of the references\<close>

lemma refCount_append:
  "refCount (w\<lparr>refs := refs w @ es\<rparr>) x
     = refCount w x + sum_list (map snd (filter (\<lambda>e. fst e = x) es))"
  by (simp add: refCount_def)

lemma refCount_cong: "refs w' = refs w \<Longrightarrow> refCount w' x = refCount w x"
  by (simp add: refCount_def)

lemma setFromHandle_same:
  assumes "externalData var = Some ed" and "unat pos < length ed"
    and "references var = Some rf" and "unat pos < length rf" and "rf ! unat pos = Some h"
    and "dpiGen__checkHandle (Some h) t w"
  shows "setFromHandle K t var pos (Some h) w =
           (DPI_SUCCESS,
            var\<lparr>externalData := Some (ed[unat pos := (ed ! unat pos)\<lparr>isNull := False\<rparr>])\<rparr>, w)"
  using assms by (simp add: setFromHandle_def)

lemma setFromHandle_other:
  assumes "externalData var = Some ed" and "unat pos < length ed"
    and "references var = Some rf" and "unat pos < length rf" and "rf ! unat pos = Some old"
    and "dpiGen__checkHandle (Some h) t w" and "h \<noteq> old"
  shows "\<exists>st var' w'. setFromHandle K t var pos (Some h) w = (st, var', w')
           \<and> refs w' = refs w @ [(old, - 1), (h, 1)]
           \<and> references var' = Some (rf[unat pos := Some h])"
  using assms
  by (auto simp add: setFromHandle_def Let_def dpiGen__setRefCount_def store_ptr_def
      split: option.splits)

lemma handle_setters_setFromHandle:
  "(f, t) \<in> set handle_setters \<Longrightarrow> f K var pos h w = setFromHandle K t var pos h w"
  by (auto simp add: handle_setters_def dpiVar__setFromLob_def dpiVar__setFromStmt_def
      dpiVar__setFromRowid_def dpiVar__setFromObject_def)

text \<open>
  C6: let a slot of a variable hold the handle \<open>old\<close>, and let \<open>f\<close> be one of
  \<^verbatim>\<open>dpiVar__setFromLob\<close>, \<^verbatim>\<open>dpiVar__setFromStmt\<close>, \<^verbatim>\<open>dpiVar__setFromRowid\<close> and
  \<^verbatim>\<open>dpiVar__setFromObject\<close>, called with a valid handle \<open>h\<close> of its kind. If \<open>h\<close> is
  another handle, the reference counts change by exactly two calls, one release of
  \<open>old\<close> followed by one acquisition of \<open>h\<close>: the count of \<open>old\<close> falls by one, the
  count of \<open>h\<close> rises by one, no other count changes, and the slot holds \<open>h\<close>. If \<open>h\<close>
  is \<open>old\<close>, the call succeeds, no reference count changes and the slot still holds it.
\<close>

theorem reassign_handle_slot:
  assumes "(f, t) \<in> set handle_setters"
    and "externalData var = Some ed" and "unat pos < length ed"
    and "references var = Some rf" and "unat pos < length rf" and "rf ! unat pos = Some old"
    and "dpiGen__checkHandle (Some h) t w"
  shows "(h \<noteq> old \<longrightarrow>
            refs (snd (snd (f K var pos (Some h) w))) = refs w @ [(old, - 1), (h, 1)]
          \<and> refCount (snd (snd (f K var pos (Some h) w))) old = refCount w old - 1
          \<and> refCount (snd (snd (f K var pos (Some h) w))) h = refCount w h + 1
          \<and> (\<forall>x. x \<noteq> old \<and> x \<noteq> h \<longrightarrow>
                refCount (snd (snd (f K var pos (Some h) w))) x = refCount w x)
          \<and> references (fst (snd (f K var pos (Some h) w))) = Some (rf[unat pos := Some h]))
       \<and> (h = old \<longrightarrow>
            fst (f K var pos (Some h) w) = DPI_SUCCESS
          \<and> snd (snd (f K var pos (Some h) w)) = w
          \<and> references (fst (snd (f K var pos (Some h) w))) = Some rf)"
proof (cases "h = old")
  case True
  then show ?thesis
    using assms setFromHandle_same [of var ed pos rf h t w K]
    by (simp add: handle_setters_setFromHandle [OF assms(1)])
next
  case False
  obtain st var' w' where r: "setFromHandle K t var pos (Some h) w = (st, var', w')"
    and rs: "refs w' = refs w @ [(old, - 1), (h, 1)]"
    and rf': "references var' = Some (rf[unat pos := Some h])"
    using setFromHandle_other [OF assms(2-7) False, of K] by blast
  have "refCount w' x = refCount w x + sum_list (map snd (filter (\<lambda>e. fst e = x)
          [(old, - 1), (h, 1)]))" for x
    using refCount_append [of w "[(old, - 1), (h, 1)]" x] rs
    by (simp add: refCount_def)
  then show ?thesis
    using False r rs rf' by (simp add: handle_setters_setFromHandle [OF assms(1)])
qed

theorem reassign_handle_slot_witness:
  "fst (dpiVar__setFromLob K0 var_lob 0 (Some 6) w_lob) = DPI_SUCCESS
   \<and> refs (snd (snd (dpiVar__setFromLob K0 var_lob 0 (Some 6) w_lob)))
       = refs w_lob @ [(5, - 1), (6, 1)]
   \<and> refCount (snd (snd (dpiVar__setFromLob K0 var_lob 0 (Some 6) w_lob))) 5 = 0
   \<and> refCount (snd (snd (dpiVar__setFromLob K0 var_lob 0 (Some 6) w_lob))) 6 = 2
   \<and> references (fst (snd (dpiVar__setFromLob K0 var_lob 0 (Some 6) w_lob)))
       = Some [Some 6, None]
   \<and> dpiVar__setFromLob K0 var_lob 0 (Some 5) w_lob = (DPI_SUCCESS, var_lob, w_lob)"
proof -
  have m: "(dpiVar__setFromLob, DPI_HTYPE_LOB) \<in> set handle_setters"
    by (simp add: handle_setters_def)
  have c5: "dpiGen__checkHandle (Some 5) DPI_HTYPE_LOB w_lob"
    and c6: "dpiGen__checkHandle (Some 6) DPI_HTYPE_LOB w_lob"
    by (simp_all add: dpiGen__checkHandle_def w_lob_def)
  have v: "externalData var_lob = Some [lob_cell (Some 5), lob_cell None]"
    "references var_lob = Some [Some 5, None]"
    by (simp_all add: var_lob_def)
  have rc: "refCount w_lob 5 = 1" "refCount w_lob 6 = 1"
    by (simp_all add: refCount_def w_lob_def)
  have ok: "fst (dpiVar__setFromLob K0 var_lob 0 (Some 6) w_lob) = DPI_SUCCESS"
    by (simp add: dpiVar__setFromLob_def setFromHandle_def dpiGen__checkHandle_def
        dpiGen__setRefCount_def store_ptr_def var_lob_def w_lob_def K0_def Let_def)
  have same: "dpiVar__setFromLob K0 var_lob 0 (Some 5) w_lob = (DPI_SUCCESS, var_lob, w_lob)"
    by (simp add: dpiVar__setFromLob_def setFromHandle_def dpiGen__checkHandle_def
        var_lob_def w_lob_def lob_cell_def)
  show ?thesis
    using reassign_handle_slot [OF m v(1) _ v(2) _ _ c6, of 0 5 K0] rc ok same
    by simp
qed

section \<open>Properties of the resize\<close>

lemma set_bytes_view_keeps:
  "isNull (set_bytes_view K var i d) = isNull d"
  "b_length (asBytes (set_bytes_view K var i d)) = b_length (asBytes d)"
  by (simp_all add: set_bytes_view_def Let_def split: option.splits)

lemma map_take_nth: "n \<le> length xs \<Longrightarrow> map f (take n xs) = map (\<lambda>i. f (xs ! i)) [0..<n]"
  by (rule nth_equalityI) simp_all

lemma repoint_keeps:
  assumes "unat (maxArraySize var) \<le> length ed"
  shows "length (repoint K var ed) = length ed"
    and "map isNull (repoint K var ed) = map isNull ed"
    and "map (\<lambda>d. b_length (asBytes d)) (repoint K var ed) = map (\<lambda>d. b_length (asBytes d)) ed"
proof -
  let ?n = "unat (maxArraySize var)"
  show "length (repoint K var ed) = length ed" using assms by (simp add: repoint_def)
  have "map isNull (repoint K var ed) = map isNull (take ?n ed) @ map isNull (drop ?n ed)"
    by (simp add: repoint_def set_bytes_view_keeps map_take_nth [OF assms] o_def)
  then show "map isNull (repoint K var ed) = map isNull ed"
    by (simp add: map_append [symmetric] del: map_append)
  have "map (\<lambda>d. b_length (asBytes d)) (repoint K var ed)
      = map (\<lambda>d. b_length (asBytes d)) (take ?n ed) @ map (\<lambda>d. b_length (asBytes d)) (drop ?n ed)"
    by (simp add: repoint_def set_bytes_view_keeps map_take_nth [OF assms] o_def)
  then show "map (\<lambda>d. b_length (asBytes d)) (repoint K var ed) = map (\<lambda>d. b_length (asBytes d)) ed"
    by (simp add: map_append [symmetric] del: map_append)
qed













section \<open>Properties of the initialization of the buffers\<close>

lemma heap_le_refl: "heap_le w w"
  by (simp add: heap_le_def)

lemma heap_le_trans: "heap_le w1 w2 \<Longrightarrow> heap_le w2 w3 \<Longrightarrow> heap_le w1 w3"
  by (auto simp add: heap_le_def)

lemma next_outcome_heap:
  "next_outcome w = (b, w1) \<Longrightarrow> heap w1 = heap w \<and> next_addr w1 = next_addr w \<and> frees w1 = frees w \<and> refs w1 = refs w \<and> handles w1 = handles w"
  by (auto simp add: next_outcome_def split: list.splits)

lemma next_outcome_heap_le: "next_outcome w = (b, w1) \<Longrightarrow> heap_le w w1"
  using next_outcome_heap [of w b w1] by (simp add: heap_le_def)

lemma malloc_heap_le: "malloc n w = (r, w1) \<Longrightarrow> heap_le w w1"
  by (cases "next_outcome w") (auto simp add: malloc_def heap_le_def dest!: next_outcome_heap split: bool.splits)

lemma malloc_fresh:
  "malloc n w = (Some a, w1) \<Longrightarrow> a < next_addr w1 \<and> heap w1 a = Some (replicate n Undef)"
  by (cases "next_outcome w") (auto simp add: malloc_def dest!: next_outcome_heap split: bool.splits)

lemma setRefCount_heap_le: "heap_le w (dpiGen__setRefCount h i w)"
  by (simp add: heap_le_def dpiGen__setRefCount_def)

lemma store_ptr_heap_le: "store_ptr K b i p w = Some w1 \<Longrightarrow> heap_le w w1"
  by (auto simp add: store_ptr_def heap_le_def split: option.splits if_splits)

lemma fresh_native_heap_le: "fresh_native w = (r, w1) \<Longrightarrow> heap_le w w1"
  by (cases "next_outcome w") (auto simp add: fresh_native_def heap_le_def dest!: next_outcome_heap split: bool.splits)

lemma dpiGen__allocate_heap_le: "dpiGen__allocate t n w = (r, w1) \<Longrightarrow> heap_le w w1"
  by (cases "next_outcome w") (auto simp add: dpiGen__allocate_def heap_le_def dest!: next_outcome_heap split: bool.splits)

lemma set_native_heap_le: "heap_le w (set_native h p w)"
  by (simp add: heap_le_def set_native_def)

lemma keeps_refl: "keeps s s"
  by (cases s) (simp add: keeps_def heap_le_refl)

lemma keeps_trans: "keeps s1 s2 \<Longrightarrow> keeps s2 s3 \<Longrightarrow> keeps s1 s3"
  by (cases s1; cases s2; cases s3) (auto simp add: keeps_def intro: heap_le_trans)

lemma for_loop_keeps:
  assumes "\<And>i s st s'. body i s = (st, s') \<Longrightarrow> keeps s s'"
  shows "for_loop body i k s = (st, s') \<Longrightarrow> keeps s s'"
proof (induction k arbitrary: i s)
  case 0
  then show ?case by (simp add: keeps_refl)
next
  case (Suc k)
  obtain st1 s1 where b: "body i s = (st1, s1)" by (metis surj_pair)
  have k1: "keeps s s1" using assms b by blast
  show ?case
  proof (cases "st1 = DPI_SUCCESS")
    case True
    then have "for_loop body (Suc i) k s1 = (st, s')" using Suc.prems b by simp
    then show ?thesis using Suc.IH k1 keeps_trans by blast
  next
    case False
    then have "s' = s1" using Suc.prems b by (cases st1) auto
    then show ?thesis using k1 by simp
  qed
qed

lemma isNull_set_asHandle: "isNull (set_asHandle h d) = isNull d"
  by (simp add: set_asHandle_def)

lemma map_isNull_update:
  "isNull x = isNull (ed ! i) \<Longrightarrow> map isNull (ed[i := x]) = map isNull ed"
proof (cases "i < length ed")
  case True
  assume "isNull x = isNull (ed ! i)"
  then have "(map isNull ed)[i := isNull x] = (map isNull ed)[i := map isNull ed ! i]"
    using True by simp
  then show ?thesis by (simp add: map_update)
next
  case False
  then show ?thesis by (simp add: list_update_beyond)
qed

lemma andThen_keeps:
  assumes "keeps s (a, b)" and "\<And>st' s'. f a b = (st', s') \<Longrightarrow> keeps (a, b) s'"
    and "andThen (st, a, b) f = (st2, s2)"
  shows "keeps s s2"
  using assms by (cases st) (auto simp add: andThen_def intro: keeps_trans)

lemma clear_slot_keeps: "clear_slot K i v w = (st, s') \<Longrightarrow> keeps (v, w) s'"
  by (auto simp add: clear_slot_def keeps_def Let_def isNull_set_asHandle map_isNull_update
      split: option.splits if_splits
      intro: heap_le_refl setRefCount_heap_le heap_le_trans [OF setRefCount_heap_le store_ptr_heap_le]
        store_ptr_heap_le)

lemma publish_slot_keeps: "publish_slot K i h p v w = (st, s') \<Longrightarrow> keeps (v, w) s'"
  by (auto simp add: publish_slot_def keeps_def Let_def isNull_set_asHandle map_isNull_update
      split: option.splits if_splits
      intro: heap_le_refl store_ptr_heap_le)

lemma keeps_world: "heap_le w w' \<Longrightarrow> keeps (v, w) (v, w')"
  by (simp add: keeps_def)

lemma keeps_set_reference: "heap_le w w' \<Longrightarrow> keeps (v, w) (set_reference i h v, w')"
  by (simp add: keeps_def set_reference_def)

lemma dpiStmt__allocate_heap_le: "dpiStmt__allocate w = (r, w1) \<Longrightarrow> heap_le w w1"
  by (simp add: dpiStmt__allocate_def dpiGen__allocate_heap_le)

lemma OCIHandleAlloc_heap_le: "OCIHandleAlloc w = (r, w1) \<Longrightarrow> heap_le w w1"
  by (simp add: OCIHandleAlloc_def fresh_native_heap_le)

lemma dpiLob__allocate_heap_le: "dpiLob__allocate w = (r, w1) \<Longrightarrow> heap_le w w1"
  by (cases "fresh_native w")
    (auto simp add: dpiLob__allocate_def split: option.splits
      intro: fresh_native_heap_le heap_le_trans [OF fresh_native_heap_le dpiGen__allocate_heap_le])

lemma dpiRowid__allocate_heap_le: "dpiRowid__allocate w = (r, w1) \<Longrightarrow> heap_le w w1"
  by (cases "fresh_native w")
    (auto simp add: dpiRowid__allocate_def split: option.splits
      intro: fresh_native_heap_le heap_le_trans [OF fresh_native_heap_le dpiGen__allocate_heap_le])

lemma dpiLob__createTemporary_heap_le: "dpiLob__createTemporary l w = (r, w1) \<Longrightarrow> heap_le w w1"
  by (simp add: dpiLob__createTemporary_def next_outcome_heap_le)

lemma preFetch_stmt_keeps:
  assumes "preFetch_stmt K i s = (st, s')"
  shows "keeps s s'"
proof -
  obtain v w where s: "s = (v, w)" by (cases s)
  obtain st1 v1 w1 where c: "clear_slot K i v w = (st1, v1, w1)" by (metis prod_cases3)
  have k1: "keeps (v, w) (v1, w1)" using clear_slot_keeps [OF c] .
  show ?thesis
  proof (cases "st1 = DPI_SUCCESS")
    case False
    then have "s' = (v1, w1)" using assms s c by (cases st1) (auto simp add: preFetch_stmt_def andThen_def)
    then show ?thesis using k1 s by simp
  next
    case True
    obtain r w2 where a: "dpiStmt__allocate w1 = (r, w2)" by (metis surj_pair)
    have h2: "heap_le w1 w2" using dpiStmt__allocate_heap_le [OF a] .
    show ?thesis
    proof (cases r)
      case None
      then have "s' = (v1, w2)" using assms s c True a by (simp add: preFetch_stmt_def andThen_def)
      then show ?thesis using k1 s keeps_world [OF h2] keeps_trans by blast
    next
      case (Some stmt)
      obtain r3 w3 where o: "OCIHandleAlloc w2 = (r3, w3)" by (metis surj_pair)
      have h3: "heap_le w1 w3" using h2 OCIHandleAlloc_heap_le [OF o] heap_le_trans by blast
      show ?thesis
      proof (cases r3)
        case None
        then have "s' = (set_reference i stmt v1, w3)"
          using assms s c True a Some o by (simp add: preFetch_stmt_def andThen_def)
        then show ?thesis using k1 s keeps_set_reference [OF h3] keeps_trans by blast
      next
        case (Some h)
        then have "publish_slot K i stmt (Some h) v1 (set_native stmt (Some h) w3) = (st, s')"
          using assms s c True a \<open>r = Some stmt\<close> o by (simp add: preFetch_stmt_def andThen_def)
        then have "keeps (v1, set_native stmt (Some h) w3) s'" by (cases s') (simp add: publish_slot_keeps)
        moreover have "keeps (v1, w1) (v1, set_native stmt (Some h) w3)"
          using h3 set_native_heap_le heap_le_trans keeps_world by blast
        ultimately show ?thesis using k1 s keeps_trans by blast
      qed
    qed
  qed
qed

lemma preFetch_rowid_keeps:
  assumes "preFetch_rowid K i s = (st, s')"
  shows "keeps s s'"
proof -
  obtain v w where s: "s = (v, w)" by (cases s)
  obtain st1 v1 w1 where c: "clear_slot K i v w = (st1, v1, w1)" by (metis prod_cases3)
  have k1: "keeps (v, w) (v1, w1)" using clear_slot_keeps [OF c] .
  show ?thesis
  proof (cases "st1 = DPI_SUCCESS")
    case False
    then have "s' = (v1, w1)"
      using assms s c by (cases st1) (auto simp add: preFetch_rowid_def andThen_def)
    then show ?thesis using k1 s by simp
  next
    case True
    obtain r w2 where a: "dpiRowid__allocate w1 = (r, w2)" by (metis surj_pair)
    have h2: "heap_le w1 w2" using dpiRowid__allocate_heap_le [OF a] .
    show ?thesis
    proof (cases r)
      case None
      then have "s' = (v1, w2)"
        using assms s c True a by (simp add: preFetch_rowid_def andThen_def)
      then show ?thesis using k1 s keeps_world [OF h2] keeps_trans by blast
    next
      case (Some rowid)
      then have "publish_slot K i rowid (Option.bind (handles w2 rowid) native) v1 w2 = (st, s')"
        using assms s c True a by (simp add: preFetch_rowid_def andThen_def)
      then have "keeps (v1, w2) s'" by (cases s') (simp add: publish_slot_keeps)
      then show ?thesis using k1 s keeps_world [OF h2] keeps_trans by blast
    qed
  qed
qed

lemma preFetch_lob_keeps:
  assumes "preFetch_lob K i s = (st, s')"
  shows "keeps s s'"
proof -
  obtain v w where s: "s = (v, w)" by (cases s)
  obtain st1 v1 w1 where c: "clear_slot K i v w = (st1, v1, w1)" by (metis prod_cases3)
  have k1: "keeps (v, w) (v1, w1)" using clear_slot_keeps [OF c] .
  show ?thesis
  proof (cases "st1 = DPI_SUCCESS")
    case False
    then have "s' = (v1, w1)"
      using assms s c by (cases st1) (auto simp add: preFetch_lob_def andThen_def)
    then show ?thesis using k1 s by simp
  next
    case True
    obtain r w2 where a: "dpiLob__allocate w1 = (r, w2)" by (metis surj_pair)
    have h2: "heap_le w1 w2" using dpiLob__allocate_heap_le [OF a] .
    show ?thesis
    proof (cases r)
      case None
      then have "s' = (v1, w2)"
        using assms s c True a by (simp add: preFetch_lob_def andThen_def)
      then show ?thesis using k1 s keeps_world [OF h2] keeps_trans by blast
    next
      case (Some lob)
      obtain st3 v3 w3 where p:
        "publish_slot K i lob (Option.bind (handles w2 lob) native) v1 w2 = (st3, v3, w3)"
        by (metis prod_cases3)
      have k3: "keeps (v, w) (v3, w3)"
        using publish_slot_keeps [OF p] k1 keeps_world [OF h2] keeps_trans by blast
      show ?thesis
      proof (cases "st3 = DPI_SUCCESS \<and> dynamicBytes v3 \<noteq> None")
        case False
        then have "s' = (v3, w3)"
          using assms s c True a Some p
          by (cases st3) (auto simp add: preFetch_lob_def andThen_def)
        then show ?thesis using k3 s by simp
      next
        case t: True
        obtain b w4 where ct: "dpiLob__createTemporary lob w3 = (b, w4)" by (metis surj_pair)
        have "s' = (v3, w4)"
          using assms s c True a Some p t ct
          by (cases b) (auto simp add: preFetch_lob_def andThen_def)
        then show ?thesis
          using k3 s keeps_world [OF dpiLob__createTemporary_heap_le [OF ct]] keeps_trans by blast
      qed
    qed
  qed
qed

lemma preFetch_object_keeps: "preFetch_object K i s = (st, s') \<Longrightarrow> keeps s s'"
  by (cases s)
    (auto simp add: preFetch_object_def keeps_def Let_def isNull_set_asHandle map_isNull_update
      split: option.splits if_splits
      intro: heap_le_refl setRefCount_heap_le
        heap_le_trans [OF setRefCount_heap_le store_ptr_heap_le] store_ptr_heap_le)

lemma replicate_update_same: "(replicate n x)[i := x] = replicate n x"
proof (cases "i < n")
  case True
  then show ?thesis by (intro nth_equalityI) (simp_all add: nth_list_update)
next
  case False
  then show ?thesis by (simp add: list_update_beyond)
qed

lemma reset_numChunks_keeps: "reset_numChunks i s = (st, s') \<Longrightarrow> keeps s s'"
  by (cases s)
    (auto simp add: reset_numChunks_def keeps_def heap_le_refl zero_dynBytes_def
      replicate_update_same split: option.splits if_splits)

lemma extendedPreFetch_keeps:
  "dpiVar__extendedPreFetch K v w = (st, s') \<Longrightarrow> keeps (v, w) s'"
  by (cases "oracleTypeNum (type v)")
    (auto simp add: dpiVar__extendedPreFetch_def Let_def keeps_refl split: if_splits
      intro: for_loop_keeps [OF reset_numChunks_keeps] for_loop_keeps [OF preFetch_stmt_keeps]
        for_loop_keeps [OF preFetch_lob_keeps] for_loop_keeps [OF preFetch_rowid_keeps]
        for_loop_keeps [OF preFetch_object_keeps])

lemma extendedInitialize_references_keeps:
  "extendedInitialize_references v w = (st, s') \<Longrightarrow> keeps (v, w) s'"
  by (cases "next_outcome w")
    (auto simp add: extendedInitialize_references_def keeps_def heap_le_refl
      split: if_splits bool.splits dest: next_outcome_heap_le)

lemma store_descriptors_heap_le:
  "store_descriptors K b i n w = Some w1 \<Longrightarrow> heap_le w w1"
proof (induction n arbitrary: i w)
  case 0
  then show ?case by (simp add: heap_le_refl)
next
  case (Suc n)
  obtain w2 where s: "store_ptr K b i (Some (next_addr w)) (w\<lparr>next_addr := Suc (next_addr w)\<rparr>) = Some w2"
    and r: "store_descriptors K b (Suc i) n w2 = Some w1"
    using Suc.prems by (auto split: option.splits)
  have "heap_le w (w\<lparr>next_addr := Suc (next_addr w)\<rparr>)" by (simp add: heap_le_def)
  then show ?case
    using store_ptr_heap_le [OF s] Suc.IH [OF r] heap_le_trans by blast
qed

lemma OCIArrayDescriptorAlloc_keeps:
  "OCIArrayDescriptorAlloc K v w = (st, s') \<Longrightarrow> keeps (v, w) s'"
  by (cases "next_outcome w")
    (auto simp add: OCIArrayDescriptorAlloc_def split: bool.splits option.splits
      intro!: keeps_world dest: next_outcome_heap_le store_descriptors_heap_le heap_le_trans)

lemma keeps_objectIndicator:
  "heap_le w w' \<Longrightarrow> keeps (v, w) (v\<lparr>objectIndicator := x\<rparr>, w')"
  by (simp add: keeps_def)

lemma extendedInitialize_type_keeps:
  assumes "extendedInitialize_type K v w = (st, s')"
  shows "keeps (v, w) s'"
proof (cases "oracleTypeNum (type v) = DPI_ORACLE_TYPE_OBJECT")
  case False
  then show ?thesis
    using assms
    by (cases "oracleTypeNum (type v)")
      (auto simp add: extendedInitialize_type_def keeps_refl
        intro: OCIArrayDescriptorAlloc_keeps extendedPreFetch_keeps)
next
  case True
  show ?thesis
  proof (cases "objectType v = None")
    case n: True
    then show ?thesis using assms True by (simp add: extendedInitialize_type_def keeps_refl)
  next
    case n: False
    obtain b w1 where o: "next_outcome w = (b, w1)" by (metis surj_pair)
    have h: "heap_le w w1" using next_outcome_heap_le [OF o] .
    show ?thesis
    proof (cases b)
      case False
      then have "s' = (v\<lparr>objectIndicator := None\<rparr>, w1)"
        using assms True n o by (auto simp add: extendedInitialize_type_def)
      then show ?thesis using keeps_objectIndicator [OF h] by simp
    next
      case b: True
      then have "dpiVar__extendedPreFetch K
          (v\<lparr>objectIndicator := Some (replicate (unat (maxArraySize v)) Indeterminate)\<rparr>) w1
            = (st, s')"
        using assms True n o by (auto simp add: extendedInitialize_type_def)
      then show ?thesis
        using extendedPreFetch_keeps keeps_objectIndicator [OF h] keeps_trans by blast
    qed
  qed
qed

lemma extendedInitialize_keeps:
  assumes "dpiVar__extendedInitialize K v w = (st, s')"
  shows "keeps (v, w) s'"
proof -
  obtain st1 v1 w1 where r: "extendedInitialize_references v w = (st1, v1, w1)"
    by (metis prod_cases3)
  have k1: "keeps (v, w) (v1, w1)" using extendedInitialize_references_keeps [OF r] .
  show ?thesis
  proof (cases "st1 = DPI_SUCCESS")
    case True
    then have "extendedInitialize_type K v1 w1 = (st, s')"
      using assms r by (simp add: dpiVar__extendedInitialize_def andThen_simps)
    then show ?thesis using extendedInitialize_type_keeps k1 keeps_trans by blast
  next
    case False
    then have "s' = (v1, w1)"
      using assms r by (cases st1) (auto simp add: dpiVar__extendedInitialize_def andThen_simps)
    then show ?thesis using k1 by simp
  qed
qed

lemma data_step:
  assumes "allocateBuffers_data v w = (DPI_SUCCESS, v1, w1)"
  shows "heap_le w w1 \<and>
         (if isDynamic v
          then v1 = v\<lparr>dynamicBytes := Some (replicate (unat (maxArraySize v)) zero_dynBytes)\<rparr>
          else \<exists>a. v1 = v\<lparr>data := Some a\<rparr> \<and> a < next_addr w1
                 \<and> heap w1 a = Some (replicate (unat (maxArraySize v) * unat (sizeInBytes v)) Undef))"
proof (cases "isDynamic v")
  case True
  then show ?thesis
    using assms
    by (cases "next_outcome w")
      (auto simp add: allocateBuffers_data_def split: bool.splits dest: next_outcome_heap_le)
next
  case False
  obtain r w2 where m: "malloc (unat (maxArraySize v) * unat (sizeInBytes v)) w = (r, w2)"
    by (metis surj_pair)
  then show ?thesis
    using assms False malloc_heap_le [OF m] malloc_fresh [of _ w _ w2]
    by (cases r) (auto simp add: allocateBuffers_data_def Let_def split: if_splits)
qed

lemma indicator_step:
  assumes "indicator v = None" and "allocateBuffers_indicator K v w = (DPI_SUCCESS, v1, w1)"
  shows "heap_le w w1
         \<and> v1 = v\<lparr>indicator := Some (replicate (unat (maxArraySize v)) (OCI_IND_NULL K))\<rparr>"
  using assms
  by (cases "next_outcome w")
    (auto simp add: allocateBuffers_indicator_def split: bool.splits dest: next_outcome_heap_le)

lemma actualLength_step:
  assumes "actualLength v = None" and "allocateBuffers_actualLength v w = (DPI_SUCCESS, v1, w1)"
  shows "heap_le w w1
         \<and> v1 = v\<lparr>actualLength :=
                    (if isDynamic v then None
                     else Some (replicate (unat (maxArraySize v)) (sizeInBytes v)))\<rparr>"
proof (cases "isDynamic v")
  case False
  then show ?thesis
    using assms
    by (cases "next_outcome w")
      (auto simp add: allocateBuffers_actualLength_def split: bool.splits
        dest: next_outcome_heap_le)
next
  case True
  then have "v1 = v" "w1 = w" using assms by (auto simp add: allocateBuffers_actualLength_def)
  moreover have "v = v\<lparr>actualLength := None\<rparr>" using assms(1) by simp
  ultimately show ?thesis using True heap_le_refl by auto
qed

lemma returnCode_step:
  assumes "returnCode v = None" and "allocateBuffers_returnCode v w = (DPI_SUCCESS, v1, w1)"
  shows "heap_le w w1
         \<and> v1 = v\<lparr>returnCode :=
                    (if defaultNativeTypeNum (type v) = DPI_NATIVE_TYPE_BYTES \<and> \<not> isDynamic v
                     then Some (replicate (unat (maxArraySize v)) Indeterminate)
                     else None)\<rparr>"
proof (cases "defaultNativeTypeNum (type v) = DPI_NATIVE_TYPE_BYTES \<and> \<not> isDynamic v")
  case True
  then show ?thesis
    using assms
    by (cases "next_outcome w")
      (auto simp add: allocateBuffers_returnCode_def split: bool.splits
        dest: next_outcome_heap_le)
next
  case False
  then have "v1 = v" "w1 = w" using assms by (auto simp add: allocateBuffers_returnCode_def)
  moreover have "v = v\<lparr>returnCode := None\<rparr>" using assms(1) by simp
  ultimately show ?thesis using False heap_le_refl by auto
qed

lemma tempBuffer_step:
  assumes "allocateBuffers_tempBuffer K v w = (DPI_SUCCESS, v1, w1)"
  shows "heap_le w w1 \<and> (\<exists>x. v1 = v\<lparr>tempBuffer := x\<rparr>)"
proof (cases "oracleTypeNum (type v) = DPI_ORACLE_TYPE_NUMBER
         \<and> nativeTypeNum v = DPI_NATIVE_TYPE_BYTES \<and> tempBuffer v = None")
  case True
  obtain r w2 where m: "malloc (unat (tempBufferSize K v * maxArraySize v)) w = (r, w2)"
    by (metis surj_pair)
  then show ?thesis
    using assms True malloc_heap_le [OF m]
    by (cases r) (auto simp add: allocateBuffers_tempBuffer_def)
next
  case False
  then have "v1 = v" "w1 = w" using assms by (auto simp add: allocateBuffers_tempBuffer_def)
  moreover have "v = v\<lparr>tempBuffer := tempBuffer v\<rparr>" by simp
  ultimately show ?thesis using heap_le_refl by metis
qed

lemma externalData_step:
  assumes "externalData v = None" and "allocateBuffers_externalData v w = (DPI_SUCCESS, v1, w1)"
  shows "heap_le w w1
         \<and> v1 = v\<lparr>externalData :=
                    Some (replicate (unat (maxArraySize v)) (zero_data\<lparr>isNull := True\<rparr>))\<rparr>"
  using assms
  by (cases "next_outcome w")
    (auto simp add: allocateBuffers_externalData_def split: bool.splits
      dest: next_outcome_heap_le)

lemma bytes_step:
  assumes "externalData v = Some ed" and "length ed = unat (maxArraySize v)"
    and "allocateBuffers_bytes K v w = (DPI_SUCCESS, v1, w1)"
  shows "w1 = w \<and> (\<exists>ed'. v1 = v\<lparr>externalData := Some ed'\<rparr> \<and> map isNull ed' = map isNull ed)"
proof (cases "nativeTypeNum v = DPI_NATIVE_TYPE_BYTES")
  case True
  then have "v1 = v\<lparr>externalData := Some (repoint K v ed)\<rparr>" "w1 = w"
    using assms by (auto simp add: allocateBuffers_bytes_def repoint_def)
  then show ?thesis using repoint_keeps(2) [of v ed K] assms(2) by auto
next
  case False
  then have "v1 = v" "w1 = w" using assms by (auto simp add: allocateBuffers_bytes_def)
  moreover have "v = v\<lparr>externalData := Some ed\<rparr>" using assms(1) by simp
  ultimately show ?thesis by metis
qed

lemma heap_le_length:
  "heap_le w w' \<Longrightarrow> a < next_addr w \<Longrightarrow> map_option length (heap w a) = Some n
     \<Longrightarrow> a < next_addr w' \<and> map_option length (heap w' a) = Some n"
  by (auto simp add: heap_le_def)

lemma allocateBuffers_fresh:
  assumes nb: "no_buffers v" and run: "dpiVar__allocateBuffers K v w = (DPI_SUCCESS, v', w')"
  shows "heap_le w w'
     \<and> isDynamic v' = isDynamic v \<and> maxArraySize v' = maxArraySize v
     \<and> sizeInBytes v' = sizeInBytes v \<and> type v' = type v
     \<and> nativeTypeNum v' = nativeTypeNum v
     \<and> indicator v' = Some (replicate (unat (maxArraySize v)) (OCI_IND_NULL K))
     \<and> actualLength v'
         = (if isDynamic v then None
            else Some (replicate (unat (maxArraySize v)) (sizeInBytes v)))
     \<and> returnCode v'
         = (if defaultNativeTypeNum (type v) = DPI_NATIVE_TYPE_BYTES \<and> \<not> isDynamic v
            then Some (replicate (unat (maxArraySize v)) Indeterminate) else None)
     \<and> (\<exists>ed. externalData v' = Some ed
            \<and> map isNull ed = replicate (unat (maxArraySize v)) True)
     \<and> (isDynamic v \<longrightarrow> data v' = None
            \<and> dynamicBytes v' = Some (replicate (unat (maxArraySize v)) zero_dynBytes))
     \<and> (\<not> isDynamic v \<longrightarrow> dynamicBytes v' = None
            \<and> (\<exists>a. data v' = Some a \<and> a < next_addr w'
                   \<and> map_option length (heap w' a)
                       = Some (unat (maxArraySize v) * unat (sizeInBytes v))))"
proof -
  let ?n = "unat (maxArraySize v)"
  from andThen_success [OF run [unfolded allocateBuffers_unfold]]
  obtain v6 w6 where r6: "andThen (andThen (andThen (andThen (andThen (allocateBuffers_data v w)
       (allocateBuffers_indicator K)) allocateBuffers_actualLength) allocateBuffers_returnCode)
       (allocateBuffers_tempBuffer K)) allocateBuffers_externalData = (DPI_SUCCESS, v6, w6)"
    and s7: "allocateBuffers_bytes K v6 w6 = (DPI_SUCCESS, v', w')"
    by auto
  from andThen_success [OF r6]
  obtain v5 w5 where r5: "andThen (andThen (andThen (andThen (allocateBuffers_data v w)
       (allocateBuffers_indicator K)) allocateBuffers_actualLength) allocateBuffers_returnCode)
       (allocateBuffers_tempBuffer K) = (DPI_SUCCESS, v5, w5)"
    and s6: "allocateBuffers_externalData v5 w5 = (DPI_SUCCESS, v6, w6)"
    by auto
  from andThen_success [OF r5]
  obtain v4 w4 where r4: "andThen (andThen (andThen (allocateBuffers_data v w)
       (allocateBuffers_indicator K)) allocateBuffers_actualLength) allocateBuffers_returnCode
       = (DPI_SUCCESS, v4, w4)"
    and s5: "allocateBuffers_tempBuffer K v4 w4 = (DPI_SUCCESS, v5, w5)"
    by auto
  from andThen_success [OF r4]
  obtain v3 w3 where r3: "andThen (andThen (allocateBuffers_data v w)
       (allocateBuffers_indicator K)) allocateBuffers_actualLength = (DPI_SUCCESS, v3, w3)"
    and s4: "allocateBuffers_returnCode v3 w3 = (DPI_SUCCESS, v4, w4)"
    by auto
  from andThen_success [OF r3]
  obtain v2 w2 where r2: "andThen (allocateBuffers_data v w) (allocateBuffers_indicator K)
       = (DPI_SUCCESS, v2, w2)"
    and s3: "allocateBuffers_actualLength v2 w2 = (DPI_SUCCESS, v3, w3)"
    by auto
  from andThen_success [OF r2]
  obtain v1 w1 where s1: "allocateBuffers_data v w = (DPI_SUCCESS, v1, w1)"
    and s2: "allocateBuffers_indicator K v1 w1 = (DPI_SUCCESS, v2, w2)"
    by auto
  note d = data_step [OF s1]
  have i1: "indicator v1 = None" "externalData v1 = None" "maxArraySize v1 = maxArraySize v"
    "actualLength v1 = None" "returnCode v1 = None" "isDynamic v1 = isDynamic v"
    "sizeInBytes v1 = sizeInBytes v" "type v1 = type v"
    using d nb by (auto simp add: no_buffers_def split: if_splits)
  note i = indicator_step [OF i1(1) s2]
  define x3 where "x3 = (if isDynamic v then None
                         else Some (replicate ?n (sizeInBytes v)))"
  define x4 :: "uint16 cell list option"
    where "x4 = (if defaultNativeTypeNum (type v) = DPI_NATIVE_TYPE_BYTES \<and> \<not> isDynamic v
                 then Some (replicate ?n Indeterminate) else None)"
  have a2: "actualLength v2 = None" using i i1 by simp
  have v3: "v3 = v2\<lparr>actualLength := x3\<rparr>" and h3: "heap_le w2 w3"
    using actualLength_step [OF a2 s3] i i1 by (simp_all add: x3_def)
  have r3: "returnCode v3 = None" using v3 i i1 by simp
  have v4: "v4 = v3\<lparr>returnCode := x4\<rparr>" and h4: "heap_le w3 w4"
    using returnCode_step [OF r3 s4] v3 i i1 by (simp_all add: x4_def)
  obtain x5 where v5: "v5 = v4\<lparr>tempBuffer := x5\<rparr>" and h5: "heap_le w4 w5"
    using tempBuffer_step [OF s5] by blast
  have e5: "externalData v5 = None" "maxArraySize v5 = maxArraySize v"
    using i i1 v3 v4 v5 by simp_all
  note e = externalData_step [OF e5(1) s6]
  let ?ed = "replicate ?n (zero_data\<lparr>isNull := True\<rparr>)"
  have e6: "externalData v6 = Some ?ed" "length ?ed = unat (maxArraySize v6)"
    using e e5 by simp_all
  obtain ed' where v': "v' = v6\<lparr>externalData := Some ed'\<rparr>"
    and n': "map isNull ed' = map isNull ?ed" and w': "w' = w6"
    using bytes_step [OF e6 s7] by blast
  have h16: "heap_le w1 w'"
    using i h3 h4 h5 e w' heap_le_trans by blast
  have chain: "v' = v1\<lparr>indicator := Some (replicate ?n (OCI_IND_NULL K)), actualLength := x3,
      returnCode := x4, tempBuffer := x5, externalData := Some ed'\<rparr>"
    using i i1 v3 v4 v5 e e5 v' by simp
  have hw: "heap_le w w'" using d h16 heap_le_trans by blast
  show ?thesis
  proof (cases "isDynamic v")
    case True
    then have "v1 = v\<lparr>dynamicBytes := Some (replicate ?n zero_dynBytes)\<rparr>" using d by simp
    then show ?thesis using True chain n' nb hw by (simp add: no_buffers_def x3_def x4_def)
  next
    case False
    then obtain a where a: "v1 = v\<lparr>data := Some a\<rparr>" "a < next_addr w1"
      "heap w1 a = Some (replicate (?n * unat (sizeInBytes v)) Undef)"
      using d by auto
    have "a < next_addr w' \<and> map_option length (heap w' a) = Some (?n * unat (sizeInBytes v))"
      using heap_le_length [OF h16 a(2)] a(3) by simp
    then show ?thesis
      using False chain n' nb a(1) hw by (simp add: no_buffers_def x3_def x4_def)
  qed
qed

lemma allocate_long:
  "dpiVar__allocate K0 conn0 DPI_ORACLE_TYPE_VARCHAR DPI_NATIVE_TYPE_BYTES 2 40000 True False
     None w0 = (DPI_SUCCESS, Some var_long, w_long)"
  by (simp add: ex_defs allocate_defs allocateBuffers_unfold andThen_simps
      allocateBuffers_data_def allocateBuffers_indicator_def allocateBuffers_actualLength_def
      allocateBuffers_returnCode_def allocateBuffers_tempBuffer_def
      allocateBuffers_externalData_def allocateBuffers_bytes_def set_bytes_view_def
      tempBufferSize_def malloc_def next_outcome_def INT_MAX_def zero_data_def
      var_long_def w_long_def w_raw_def long_cell_def fun_eq_iff replicate_2 upt_0_2)

lemma no_buffers_basic_var:
  "no_buffers (basic_var K a c ty nt n s ia\<lparr>conn := x, objectType := y\<rparr>)"
  by (simp add: no_buffers_def basic_var_def)

lemma allocate_fail_None: "allocate_fail st v w = (st', r, w') \<Longrightarrow> r = None"
  by (auto simp add: allocate_fail_def split: prod.splits dpiStatus.splits)

lemma allocate_success:
  assumes ty: "dpiOracleType__getFromNum K t = Some ty"
    and run: "dpiVar__allocate K c t nt n sz sib ia ot w = (DPI_SUCCESS, Some var, w')"
  shows "\<exists>a x w3. dpiVar__initBuffers K
            (basic_var K a c ty nt n (computed_sizeInBytes K c ty sz sib) ia
               \<lparr>conn := x, objectType := ot\<rparr>) w3 = (DPI_SUCCESS, var, w')"
proof -
  obtain r w1 where g: "dpiGen__allocate DPI_HTYPE_VAR None w = (r, w1)" by (metis surj_pair)
  have pre: "n \<noteq> 0" "\<not> (ia \<and> \<not> canBeInArray ty)"
    "\<not> (nt \<noteq> defaultNativeTypeNum ty \<and> dpiVar__validateTypes ty nt \<noteq> DPI_SUCCESS)"
    using run ty by (auto simp add: dpiVar__allocate_def split: if_splits)
  have "r \<noteq> None"
  proof
    assume "r = None"
    then have "dpiVar__allocate K c t nt n sz sib ia ot w = (DPI_FAILURE DPI_ERR_NO_MEMORY, None, w1)"
      using ty g pre by (auto simp add: dpiVar__allocate_def)
    then show False using run by simp
  qed
  then obtain a where a: "r = Some a" by auto
  let ?v1 = "basic_var K a c ty nt n (computed_sizeInBytes K c ty sz sib) ia\<lparr>conn := Some c\<rparr>"
  let ?w2 = "dpiGen__setRefCount (connHandle c) 1 w1"
  let ?w3 = "case ot of Some t \<Rightarrow> dpiGen__setRefCount t 1 ?w2 | None \<Rightarrow> ?w2"
  obtain st4 v4 w4 where i: "dpiVar__initBuffers K (?v1\<lparr>objectType := ot\<rparr>) ?w3 = (st4, v4, w4)"
    by (metis prod_cases3)
  have nf: "\<not> (ot \<noteq> None \<and> \<not> dpiGen__checkHandle ot DPI_HTYPE_OBJECT_TYPE ?w2)"
  proof
    assume "ot \<noteq> None \<and> \<not> dpiGen__checkHandle ot DPI_HTYPE_OBJECT_TYPE ?w2"
    then have "dpiVar__allocate K c t nt n sz sib ia ot w
        = allocate_fail (DPI_FAILURE DPI_ERR_INVALID_HANDLE) ?v1 ?w2"
      using ty g a pre by (auto simp add: dpiVar__allocate_def Let_def)
    then show False using run allocate_fail_None by (metis option.distinct(1))
  qed
  have e: "dpiVar__allocate K c t nt n sz sib ia ot w
      = (case (st4, v4, w4) of (DPI_SUCCESS, var, w4) \<Rightarrow> (DPI_SUCCESS, Some var, w4)
         | (st, var, w4) \<Rightarrow> allocate_fail st var w4)"
    using ty g a pre nf i by (auto simp add: dpiVar__allocate_def Let_def)
  have "(st4, v4, w4) = (DPI_SUCCESS, var, w')"
  proof (cases "st4 = DPI_SUCCESS")
    case True
    then show ?thesis using e run by simp
  next
    case False
    then have "dpiVar__allocate K c t nt n sz sib ia ot w = allocate_fail st4 v4 w4"
      using e by (cases st4) simp_all
    then show ?thesis using run allocate_fail_None by (metis option.distinct(1))
  qed
  then show ?thesis using i by auto
qed

lemma initBuffers_fresh:
  assumes nb: "no_buffers v" and run: "dpiVar__initBuffers K v w = (DPI_SUCCESS, v', w')"
  shows "heap_le w w' \<and> isDynamic v' = isDynamic v \<and> maxArraySize v' = maxArraySize v
     \<and> sizeInBytes v' = sizeInBytes v
     \<and> indicator v' = Some (replicate (unat (maxArraySize v)) (OCI_IND_NULL K))
     \<and> actualLength v'
         = (if isDynamic v then None
            else Some (replicate (unat (maxArraySize v)) (sizeInBytes v)))
     \<and> returnCode v'
         = (if defaultNativeTypeNum (type v) = DPI_NATIVE_TYPE_BYTES \<and> \<not> isDynamic v
            then Some (replicate (unat (maxArraySize v)) Indeterminate) else None)
     \<and> type v' = type v
     \<and> (\<exists>ed. externalData v' = Some ed
            \<and> map isNull ed = replicate (unat (maxArraySize v)) True)
     \<and> (isDynamic v \<longrightarrow> data v' = None
            \<and> dynamicBytes v' = Some (replicate (unat (maxArraySize v)) zero_dynBytes))
     \<and> (\<not> isDynamic v \<longrightarrow> dynamicBytes v' = None
            \<and> (\<exists>a. data v' = Some a
                   \<and> map_option length (heap w' a)
                       = Some (unat (maxArraySize v) * unat (sizeInBytes v))))"
proof -
  from andThen_success [OF run [unfolded dpiVar__initBuffers_def]]
  obtain v1 w1 where a: "dpiVar__allocateBuffers K v w = (DPI_SUCCESS, v1, w1)"
    and e: "dpiVar__extendedInitialize K v1 w1 = (DPI_SUCCESS, v', w')"
    by auto
  note f = allocateBuffers_fresh [OF nb a]
  have k: "keeps (v1, w1) (v', w')" using extendedInitialize_keeps [OF e] .
  then have k': "isDynamic v' = isDynamic v1" "maxArraySize v' = maxArraySize v1"
    "sizeInBytes v' = sizeInBytes v1" "data v' = data v1" "indicator v' = indicator v1"
    "map_option (map isNull) (externalData v') = map_option (map isNull) (externalData v1)"
    "dynamicBytes v1 = None \<longrightarrow> dynamicBytes v' = None"
    "\<forall>n. dynamicBytes v1 = Some (replicate n zero_dynBytes)
       \<longrightarrow> dynamicBytes v' = Some (replicate n zero_dynBytes)"
    "heap_le w1 w'"
    "actualLength v' = actualLength v1" "returnCode v' = returnCode v1" "type v' = type v1"
    by (simp_all add: keeps_def)
  obtain ed where ed: "externalData v1 = Some ed"
    "map isNull ed = replicate (unat (maxArraySize v)) True"
    using f by blast
  then obtain ed' where ed': "externalData v' = Some ed'" "map isNull ed' = map isNull ed"
    using k'(6) by (cases "externalData v'") auto
  have hw: "heap_le w w'" using f k'(9) heap_le_trans by blast
  show ?thesis
  proof (cases "isDynamic v")
    case True
    then show ?thesis using f k' ed ed' hw by simp
  next
    case False
    then obtain a where a: "data v1 = Some a" "a < next_addr w1"
      "map_option length (heap w1 a) = Some (unat (maxArraySize v) * unat (sizeInBytes v))"
      using f by auto
    have "map_option length (heap w' a) = Some (unat (maxArraySize v) * unat (sizeInBytes v))"
      using heap_le_length [OF k'(9) a(2) a(3)] by simp
    then show ?thesis using False f k' ed ed' a(1) hw by simp
  qed
qed

text \<open>
  C1: when \<^verbatim>\<open>dpiVar__allocate\<close> returns a variable, the variable is dynamic exactly when
  the computed size in bytes exceeds \<^verbatim>\<open>DPI_MAX_BASIC_BUFFER_SIZE\<close>, whatever the capacity.
  A dynamic variable has no value array and an array of zeroed \<^verbatim>\<open>dpiDynamicBytes\<close>, one
  for each slot; a variable that is not dynamic has no dynamic bytes and one value array
  of capacity times the computed size bytes.
\<close>

theorem allocate_dynamic_or_fixed:
  assumes ty: "dpiOracleType__getFromNum K oracleTypeNum' = Some type'"
    and run: "dpiVar__allocate K conn' oracleTypeNum' nativeTypeNum' maxArraySize' size0
                sizeIsBytes isArray' objType w = (DPI_SUCCESS, Some var, w')"
  shows "(isDynamic var \<longleftrightarrow>
            DPI_MAX_BASIC_BUFFER_SIZE K < computed_sizeInBytes K conn' type' size0 sizeIsBytes)
       \<and> maxArraySize var = maxArraySize'
       \<and> (isDynamic var \<longrightarrow>
            data var = None
          \<and> dynamicBytes var = Some (replicate (unat maxArraySize') zero_dynBytes))
       \<and> (\<not> isDynamic var \<longrightarrow>
            dynamicBytes var = None
          \<and> sizeInBytes var = computed_sizeInBytes K conn' type' size0 sizeIsBytes
          \<and> (\<exists>a. data var = Some a
                 \<and> map_option length (heap w' a)
                     = Some (unat maxArraySize'
                         * unat (computed_sizeInBytes K conn' type' size0 sizeIsBytes))))"
proof -
  obtain a x w3 where i: "dpiVar__initBuffers K
      (basic_var K a conn' type' nativeTypeNum' maxArraySize'
         (computed_sizeInBytes K conn' type' size0 sizeIsBytes) isArray'
         \<lparr>conn := x, objectType := objType\<rparr>) w3 = (DPI_SUCCESS, var, w')"
    using allocate_success [OF ty run] by blast
  show ?thesis
    using initBuffers_fresh [OF no_buffers_basic_var i]
    by (auto simp add: basic_var_def)
qed

theorem allocate_dynamic_or_fixed_witness:
  "dpiVar__allocate K0 conn0 DPI_ORACLE_TYPE_VARCHAR DPI_NATIVE_TYPE_BYTES 2 40000 True False
     None w0 = (DPI_SUCCESS, Some var_long, w_long)
   \<and> isDynamic var_long \<and> maxArraySize var_long = 2 \<and> data var_long = None
   \<and> dynamicBytes var_long = Some (replicate 2 zero_dynBytes)
   \<and> dpiVar__allocate K0 conn0 DPI_ORACLE_TYPE_RAW DPI_NATIVE_TYPE_BYTES 2 10 True False
        None w0 = (DPI_SUCCESS, Some var_raw, w_raw)
   \<and> \<not> isDynamic var_raw \<and> maxArraySize var_raw = 2 \<and> dynamicBytes var_raw = None
   \<and> sizeInBytes var_raw = 10
   \<and> (\<exists>a. data var_raw = Some a \<and> map_option length (heap w_raw a) = Some 20)"
proof -
  have t: "dpiOracleType__getFromNum K0 DPI_ORACLE_TYPE_VARCHAR = Some type_VARCHAR"
    "dpiOracleType__getFromNum K0 DPI_ORACLE_TYPE_RAW = Some type_RAW"
    by (simp_all add: K0_def)
  have c: "computed_sizeInBytes K0 conn0 type_VARCHAR 40000 True = 40000"
    "computed_sizeInBytes K0 conn0 type_RAW 10 True = 10"
    by (simp_all add: computed_sizeInBytes_def type_VARCHAR_def type_RAW_def)
  show ?thesis
    using allocate_dynamic_or_fixed [OF t(1) allocate_long]
      allocate_dynamic_or_fixed [OF t(2) allocate_raw] c allocate_long allocate_raw
    by (simp add: K0_def)
qed

lemma allocate_one:
  "dpiVar__allocate K0 conn0 DPI_ORACLE_TYPE_RAW DPI_NATIVE_TYPE_BYTES 2 1 True False None w0
     = (DPI_SUCCESS, Some var_one, w_one)"
  by (simp add: ex_defs allocate_defs allocateBuffers_unfold andThen_simps
      allocateBuffers_data_def allocateBuffers_indicator_def allocateBuffers_actualLength_def
      allocateBuffers_returnCode_def allocateBuffers_tempBuffer_def
      allocateBuffers_externalData_def allocateBuffers_bytes_def set_bytes_view_def
      tempBufferSize_def malloc_def next_outcome_def INT_MAX_def zero_data_def
      var_one_def w_one_def var_raw_def w_raw_def raw_cell_def fun_eq_iff replicate_2 upt_0_2)

text \<open>
  C9: a requested element size of 0 is treated as 1. \<^verbatim>\<open>dpiVar__allocate\<close> returns for
  the size 0 what it returns for the size 1, the status, the variable and the world, so
  that a size of 0 fails only where a size of 1 fails. A variable that the call with the
  size 0 returns is dynamic exactly when the size computed from 1 exceeds
  \<^verbatim>\<open>DPI_MAX_BASIC_BUFFER_SIZE\<close>; for a type without a size of its own, counted in bytes,
  its element size is 1 and its value array has one byte for each slot.
\<close>

theorem allocate_size_zero:
  "dpiVar__allocate K conn' oracleTypeNum' nativeTypeNum' maxArraySize' 0 sizeIsBytes isArray'
     objType w =
   dpiVar__allocate K conn' oracleTypeNum' nativeTypeNum' maxArraySize' 1 sizeIsBytes isArray'
     objType w
   \<and> (dpiOracleType__getFromNum K oracleTypeNum' = Some type'
        \<and> dpiVar__allocate K conn' oracleTypeNum' nativeTypeNum' maxArraySize' 0 sizeIsBytes
             isArray' objType w = (DPI_SUCCESS, Some var, w') \<longrightarrow>
          (isDynamic var \<longleftrightarrow>
             DPI_MAX_BASIC_BUFFER_SIZE K < computed_sizeInBytes K conn' type' 1 sizeIsBytes)
        \<and> maxArraySize var = maxArraySize'
        \<and> (typeSizeInBytes type' = 0 \<and> (sizeIsBytes \<or> \<not> isCharacterData type')
              \<and> 1 \<le> DPI_MAX_BASIC_BUFFER_SIZE K \<longrightarrow>
             \<not> isDynamic var \<and> sizeInBytes var = 1
           \<and> (\<exists>a. data var = Some a
                  \<and> map_option length (heap w' a) = Some (unat maxArraySize'))))"
proof -
  have e: "dpiVar__allocate K conn' oracleTypeNum' nativeTypeNum' maxArraySize' 0 sizeIsBytes
      isArray' objType w =
    dpiVar__allocate K conn' oracleTypeNum' nativeTypeNum' maxArraySize' 1 sizeIsBytes isArray'
      objType w"
    unfolding dpiVar__allocate_def computed_sizeInBytes_zero by (rule refl)
  have r: "(isDynamic var \<longleftrightarrow>
             DPI_MAX_BASIC_BUFFER_SIZE K < computed_sizeInBytes K conn' type' 1 sizeIsBytes)
        \<and> maxArraySize var = maxArraySize'
        \<and> (typeSizeInBytes type' = 0 \<and> (sizeIsBytes \<or> \<not> isCharacterData type')
              \<and> 1 \<le> DPI_MAX_BASIC_BUFFER_SIZE K \<longrightarrow>
             \<not> isDynamic var \<and> sizeInBytes var = 1
           \<and> (\<exists>a. data var = Some a
                  \<and> map_option length (heap w' a) = Some (unat maxArraySize')))"
    if ty: "dpiOracleType__getFromNum K oracleTypeNum' = Some type'"
      and run: "dpiVar__allocate K conn' oracleTypeNum' nativeTypeNum' maxArraySize' 0
             sizeIsBytes isArray' objType w = (DPI_SUCCESS, Some var, w')"
  proof -
    let ?s = "computed_sizeInBytes K conn' type' 1 sizeIsBytes"
    obtain a x w3 where i: "dpiVar__initBuffers K
        (basic_var K a conn' type' nativeTypeNum' maxArraySize' ?s isArray'
           \<lparr>conn := x, objectType := objType\<rparr>) w3 = (DPI_SUCCESS, var, w')"
      using allocate_success [OF ty run [unfolded e]] by blast
    note f = initBuffers_fresh [OF no_buffers_basic_var i]
    have d: "isDynamic var \<longleftrightarrow> DPI_MAX_BASIC_BUFFER_SIZE K < ?s"
      and m: "maxArraySize var = maxArraySize'"
      using f by (auto simp add: basic_var_def)
    have one: "\<not> isDynamic var \<and> sizeInBytes var = 1
           \<and> (\<exists>a. data var = Some a
                  \<and> map_option length (heap w' a) = Some (unat maxArraySize'))"
      if h: "typeSizeInBytes type' = 0 \<and> (sizeIsBytes \<or> \<not> isCharacterData type')
              \<and> 1 \<le> DPI_MAX_BASIC_BUFFER_SIZE K"
    proof -
      have s1: "?s = 1" using h by (auto simp add: computed_sizeInBytes_def)
      have "unat (DPI_MAX_BASIC_BUFFER_SIZE K) \<noteq> 0" using h by (simp add: word_le_nat_alt)
      then have "DPI_MAX_BASIC_BUFFER_SIZE K \<noteq> 0" by (metis unat_0)
      then have nd: "\<not> isDynamic var" using d s1 by simp
      show ?thesis using f nd s1 by (auto simp add: basic_var_def)
    qed
    show ?thesis using d m one by blast
  qed
  show ?thesis using e r by blast
qed

theorem allocate_size_zero_witness:
  "dpiVar__allocate K0 conn0 DPI_ORACLE_TYPE_RAW DPI_NATIVE_TYPE_BYTES 2 0 True False None w0
     = (DPI_SUCCESS, Some var_one, w_one)
   \<and> dpiVar__allocate K0 conn0 DPI_ORACLE_TYPE_RAW DPI_NATIVE_TYPE_BYTES 2 1 True False None w0
     = (DPI_SUCCESS, Some var_one, w_one)
   \<and> \<not> isDynamic var_one \<and> sizeInBytes var_one = 1 \<and> maxArraySize var_one = 2
   \<and> (\<exists>a. data var_one = Some a \<and> map_option length (heap w_one a) = Some 2)"
proof -
  note z = allocate_size_zero [where K = K0 and conn' = conn0
      and oracleTypeNum' = DPI_ORACLE_TYPE_RAW and nativeTypeNum' = DPI_NATIVE_TYPE_BYTES
      and maxArraySize' = 2 and sizeIsBytes = True and isArray' = False and objType = None
      and w = w0 and type' = type_RAW and var = var_one and w' = w_one]
  have r0: "dpiVar__allocate K0 conn0 DPI_ORACLE_TYPE_RAW DPI_NATIVE_TYPE_BYTES 2 0 True False
      None w0 = (DPI_SUCCESS, Some var_one, w_one)"
    using z [THEN conjunct1] allocate_one by simp
  have t: "dpiOracleType__getFromNum K0 DPI_ORACLE_TYPE_RAW = Some type_RAW"
    "typeSizeInBytes type_RAW = 0" "1 \<le> DPI_MAX_BASIC_BUFFER_SIZE K0"
    "computed_sizeInBytes K0 conn0 type_RAW 1 True = 1"
    "\<not> DPI_MAX_BASIC_BUFFER_SIZE K0 < 1"
    by (simp_all add: K0_def type_RAW_def computed_sizeInBytes_def)
  show ?thesis
    using z [THEN conjunct2] r0 allocate_one t by simp
qed

section \<open>Properties of the callback\<close>












































section \<open>Properties of the consolidation\<close>

lemma read_chunk:
  assumes "c_ptr c = Some p" "heap w p = Some b" "unat (c_length c) \<le> length b"
  shows "read_mem (at_start (c_ptr c)) (unat (c_length c)) w = Some (take (unat (c_length c)) b)"
  using assms by (simp add: read_mem_def at_start_def)

lemma valid_bytes_heap:
  assumes "c_ptr c = Some p" "heap w' p = heap w p"
  shows "valid_bytes w' c = valid_bytes w c"
  using assms by (simp add: valid_bytes_def read_mem_def at_start_def)

lemma memcpy_heap:
  assumes "heap w dst = Some blk" "off + length src \<le> length blk"
  shows "memcpy (Some (dst, off)) src w
     = Some (w\<lparr>heap := (heap w)(dst := Some (take off blk @ src @ drop (off + length src) blk))\<rparr>)"
proof (cases "src = []")
  case True
  have "(heap w)(dst := Some blk) = heap w" using assms(1) by (simp add: fun_upd_idem)
  then show ?thesis using True by (simp add: memcpy_def)
next
  case False
  then show ?thesis using assms by (simp add: memcpy_def)
qed

lemma copy_chunks_ok:
  assumes "heap w dst = Some blk"
    and "unat len + sum_list (map (\<lambda>c. unat (c_length c)) cs) \<le> length blk"
    and "length blk < 2 ^ 32"
    and "\<forall>c \<in> set cs. \<exists>p b. c_ptr c = Some p \<and> p \<noteq> dst \<and> heap w p = Some b
            \<and> unat (c_length c) \<le> length b"
    and "distinct (map c_ptr cs)"
  shows "\<exists>len' w' ps. copy_chunks dst len cs w = Some (len', w')
      \<and> unat len' = unat len + sum_list (map (\<lambda>c. unat (c_length c)) cs)
      \<and> heap w' dst = Some (take (unat len) blk @ concat (map (valid_bytes w) cs)
            @ drop (unat len + sum_list (map (\<lambda>c. unat (c_length c)) cs)) blk)
      \<and> frees w' = frees w @ ps \<and> map Some ps = map c_ptr cs
      \<and> next_addr w' = next_addr w \<and> outcomes w' = outcomes w"
  using assms
proof (induction cs arbitrary: len w blk)
  case Nil
  then show ?case by simp
next
  case (Cons c cs)
  let ?n = "unat (c_length c)"
  obtain p b where p: "c_ptr c = Some p" "p \<noteq> dst" "heap w p = Some b" "?n \<le> length b"
    using Cons.prems(4) by auto
  let ?src = "take ?n b"
  have ls: "length ?src = ?n" using p(4) by simp
  have rd: "read_mem (at_start (c_ptr c)) ?n w = Some ?src" using read_chunk [OF p(1,3,4)] .
  have vb: "valid_bytes w c = ?src" using rd by (simp add: valid_bytes_def)
  have fit: "unat len + ?n \<le> length blk" using Cons.prems(2) by simp
  let ?blk1 = "take (unat len) blk @ ?src @ drop (unat len + ?n) blk"
  let ?w1 = "w\<lparr>heap := (heap w)(dst := Some ?blk1)\<rparr>"
  have mc: "memcpy (Some (dst, unat len)) ?src w = Some ?w1"
    using memcpy_heap [OF Cons.prems(1), of "unat len" ?src] fit ls by simp
  let ?w2 = "free_chunk ?w1 c"
  have w2: "heap ?w2 = (heap w)(dst := Some ?blk1, p := None)" "frees ?w2 = frees w @ [p]"
    "next_addr ?w2 = next_addr w" "outcomes ?w2 = outcomes w"
    using p(1) by (simp_all add: free_chunk_def free_def)
  have step: "copy_chunks dst len (c # cs) w = copy_chunks dst (len + c_length c) cs ?w2"
    using rd mc by simp
  have lb: "length ?blk1 = length blk" using fit ls by simp
  have ul: "unat (len + c_length c) = unat len + ?n"
    using fit Cons.prems(3) by (simp add: unat_add_lem [THEN iffD1])
  have h1: "heap ?w2 dst = Some ?blk1" using w2(1) p(2) by simp
  have h2: "unat (len + c_length c) + sum_list (map (\<lambda>c. unat (c_length c)) cs) \<le> length ?blk1"
    using Cons.prems(2) ul lb by simp
  have h3: "length ?blk1 < 2 ^ 32" using lb Cons.prems(3) by simp
  have mem: "c' \<in> set (c # cs)" if "c' \<in> set cs" for c' using that by simp
  have pre: "\<exists>q b'. c_ptr c' = Some q \<and> q \<noteq> dst \<and> heap w q = Some b'
            \<and> unat (c_length c') \<le> length b'" if "c' \<in> set cs" for c'
    using bspec [OF Cons.prems(4) mem [OF that]] .
  have notin: "c_ptr c \<notin> set (map c_ptr cs)" using Cons.prems(5) by simp
  have other: "\<exists>q. c_ptr c' = Some q \<and> q \<noteq> dst \<and> q \<noteq> p \<and> heap ?w2 q = heap w q"
    if m: "c' \<in> set cs" for c'
  proof -
    obtain q b' where q: "c_ptr c' = Some q" "q \<noteq> dst" "heap w q = Some b'"
      using pre [OF m] by blast
    have "c_ptr c' \<in> set (map c_ptr cs)" using m by simp
    then have "c_ptr c' \<noteq> c_ptr c" using notin by metis
    then have qp: "q \<noteq> p" using q(1) p(1) by simp
    have "heap ?w2 q = heap w q" unfolding w2(1) using qp q(2) by simp
    then show ?thesis using q qp by blast
  qed
  have h4: "\<forall>c' \<in> set cs. \<exists>q b'. c_ptr c' = Some q \<and> q \<noteq> dst \<and> heap ?w2 q = Some b'
            \<and> unat (c_length c') \<le> length b'"
  proof
    fix c' assume m: "c' \<in> set cs"
    obtain q b' where q: "c_ptr c' = Some q" "q \<noteq> dst" "heap w q = Some b'"
      "unat (c_length c') \<le> length b'"
      using pre [OF m] by blast
    from other [OF m] q(1) have "heap ?w2 q = heap w q" by auto
    then have "heap ?w2 q = Some b'" using q(3) by simp
    then show "\<exists>q b'. c_ptr c' = Some q \<and> q \<noteq> dst \<and> heap ?w2 q = Some b'
            \<and> unat (c_length c') \<le> length b'"
      using q(1,2,4) by blast
  qed
  have h5: "distinct (map c_ptr cs)" using Cons.prems(5) by simp
  from Cons.IH [OF h1 h2 h3 h4 h5]
  obtain len' w' ps where r: "copy_chunks dst (len + c_length c) cs ?w2 = Some (len', w')"
    "unat len' = unat (len + c_length c) + sum_list (map (\<lambda>c. unat (c_length c)) cs)"
    "heap w' dst = Some (take (unat (len + c_length c)) ?blk1 @ concat (map (valid_bytes ?w2) cs)
            @ drop (unat (len + c_length c) + sum_list (map (\<lambda>c. unat (c_length c)) cs)) ?blk1)"
    "frees w' = frees ?w2 @ ps" "map Some ps = map c_ptr cs"
    "next_addr w' = next_addr ?w2" "outcomes w' = outcomes ?w2"
    by blast
  have vs: "map (valid_bytes ?w2) cs = map (valid_bytes w) cs"
  proof (rule map_cong [OF refl])
    fix c' assume m: "c' \<in> set cs"
    from other [OF m] obtain q where "c_ptr c' = Some q" "heap ?w2 q = heap w q" by auto
    then show "valid_bytes ?w2 c' = valid_bytes w c'" by (rule valid_bytes_heap)
  qed
  have lt: "length (take (unat len) blk) = unat len" using fit by simp
  have t1: "take (unat len + ?n) ?blk1 = take (unat len) blk @ ?src"
    using lt ls by simp
  have d1: "drop (unat len + ?n + k) ?blk1 = drop (unat len + ?n + k) blk" for k
    using lt ls by (simp add: ac_simps)
  have hd: "heap w' dst = Some (take (unat len) blk @ concat (map (valid_bytes w) (c # cs))
      @ drop (unat len + sum_list (map (\<lambda>c. unat (c_length c)) (c # cs))) blk)"
    using r(3) unfolding ul vs t1 d1 by (simp add: vb add.assoc)
  have fr: "frees w' = frees w @ (p # ps)" using r(4) w2(2) by simp
  have mp: "map Some (p # ps) = map c_ptr (c # cs)" using r(5) p(1) by simp
  have ln: "unat len' = unat len + sum_list (map (\<lambda>c. unat (c_length c)) (c # cs))"
    using r(2) ul by simp
  have c1: "copy_chunks dst len (c # cs) w = Some (len', w')" using step r(1) by simp
  have c2: "next_addr w' = next_addr w" "outcomes w' = outcomes w"
    using r(6) r(7) w2(3) w2(4) by simp_all
  show ?case
    using c1 ln hd fr mp c2 by blast
qed

lemma total_allocated:
  "unat t + sum_list (map (\<lambda>c. unat (allocatedLength c)) cs) < 2 ^ 32
     \<Longrightarrow> unat (foldl (\<lambda>t c. t + allocatedLength c) t cs)
           = unat t + sum_list (map (\<lambda>c. unat (allocatedLength c)) cs)"
proof (induction cs arbitrary: t)
  case Nil
  then show ?case by simp
next
  case (Cons c cs)
  have u: "unat (t + allocatedLength c) = unat t + unat (allocatedLength c)"
    using Cons.prems by (simp add: unat_add_lem [THEN iffD1])
  show ?case using Cons.IH [of "t + allocatedLength c"] Cons.prems u by simp
qed

lemma valid_le_allocated:
  "list_all (chunk_ok w) cs
     \<Longrightarrow> sum_list (map (\<lambda>c. unat (c_length c)) cs)
           \<le> sum_list (map (\<lambda>c. unat (allocatedLength c)) cs)"
proof (induction cs)
  case Nil
  then show ?case by simp
next
  case (Cons c cs)
  have "unat (c_length c) \<le> unat (allocatedLength c)"
    using Cons.prems by (auto simp add: chunk_ok_def word_le_nat_alt split: option.splits)
  then show ?case using Cons by simp
qed

lemma length_valid_bytes:
  "chunk_ok w c \<Longrightarrow> length (valid_bytes w c) = unat (c_length c)"
  by (auto simp add: chunk_ok_def valid_bytes_def read_mem_def at_start_def word_le_nat_alt
      split: option.splits)

lemma length_concat_valid:
  "list_all (chunk_ok w) cs
     \<Longrightarrow> length (concat (map (valid_bytes w) cs)) = sum_list (map (\<lambda>c. unat (c_length c)) cs)"
  by (induction cs) (simp_all add: length_valid_bytes)

lemma malloc_granted:
  assumes "fst (next_outcome w)"
  shows "\<exists>w1. malloc n w = (Some (next_addr w), w1)
      \<and> heap w1 = (heap w)(next_addr w := Some (replicate n Undef))
      \<and> frees w1 = frees w \<and> next_addr w1 = Suc (next_addr w)"
proof -
  obtain b w0 where o: "next_outcome w = (b, w0)" by (metis surj_pair)
  then have b by (metis assms fst_conv)
  then show ?thesis using o next_outcome_heap [OF o] by (simp add: malloc_def)
qed

lemma consolidate_many:
  assumes n: "1 < unat (numChunks d)" and ok: "chunks_ok w d" and g: "fst (next_outcome w)"
    and cs: "chunks d = Some cs"
  shows "\<exists>L A blk w' ps.
      dpiVar__setBytesFromDynamicBytes bytes d w
        = (DPI_SUCCESS,
           (bytes\<lparr>b_ptr := Some (next_addr w, 0), b_length := L\<rparr>,
            d\<lparr>numChunks := 1,
              chunks := Some (\<lparr>c_ptr = Some (next_addr w), c_length = L, allocatedLength = A\<rparr>
                # replicate (unat (numChunks d) - 1) zero_chunk @ drop (unat (numChunks d)) cs)\<rparr>),
           w')
      \<and> unat L = sum_list (map (\<lambda>c. unat (c_length c)) (used_chunks d))
      \<and> unat A = sum_list (map (\<lambda>c. unat (allocatedLength c)) (used_chunks d))
      \<and> heap w' (next_addr w) = Some blk \<and> length blk = unat A
      \<and> take (unat L) blk = concat (map (valid_bytes w) (used_chunks d))
      \<and> frees w' = frees w @ ps \<and> map Some ps = map c_ptr (used_chunks d)"
proof -
  let ?n = "unat (numChunks d)"
  let ?used = "take ?n cs"
  let ?dst = "next_addr w"
  have u: "used_chunks d = ?used" using cs by (simp add: used_chunks_def)
  have k: "?n \<le> length cs" "list_all (chunk_ok w) ?used" "distinct (map c_ptr ?used)"
    "sum_list (map (\<lambda>c. unat (allocatedLength c)) ?used) < 2 ^ 32"
    using ok cs u by (simp_all add: chunks_ok_def)
  obtain c0 cs0 where c0: "cs = c0 # cs0" using k(1) n by (cases cs) auto
  let ?A = "foldl (\<lambda>t c. t + allocatedLength c) 0 ?used"
  have A: "unat ?A = sum_list (map (\<lambda>c. unat (allocatedLength c)) ?used)"
    using total_allocated [of 0 ?used] k(4) by simp
  obtain w1 where m: "malloc (unat ?A) w = (Some ?dst, w1)"
    "heap w1 = (heap w)(?dst := Some (replicate (unat ?A) Undef))"
    "frees w1 = frees w" "next_addr w1 = Suc ?dst"
    using malloc_granted [OF g] by blast
  let ?blk = "replicate (unat ?A) Undef :: memval list"
  have h1: "heap w1 ?dst = Some ?blk" using m(2) by simp
  have h2: "unat (0 :: uint32) + sum_list (map (\<lambda>c. unat (c_length c)) ?used) \<le> length ?blk"
    using valid_le_allocated [OF k(2)] A by simp
  have h3: "length ?blk < 2 ^ 32" using A k(4) by simp
  have each: "\<exists>p b. c_ptr c = Some p \<and> p \<noteq> ?dst \<and> heap w p = Some b \<and> heap w1 p = Some b
            \<and> unat (c_length c) \<le> length b" if c: "c \<in> set ?used" for c
  proof -
    have "chunk_ok w c" using k(2) c by (simp add: list_all_iff)
    then obtain p b where p: "c_ptr c = Some p" "p < ?dst" "c_length c \<le> allocatedLength c"
      "heap w p = Some b" "length b = unat (allocatedLength c)"
      by (auto simp add: chunk_ok_def split: option.splits)
    have "unat (c_length c) \<le> length b" using p(3,5) by (simp add: word_le_nat_alt)
    moreover have "heap w1 p = Some b" using m(2) p(2,4) by simp
    ultimately show ?thesis using p by auto
  qed
  have h4: "\<forall>c \<in> set ?used. \<exists>p b. c_ptr c = Some p \<and> p \<noteq> ?dst \<and> heap w1 p = Some b
            \<and> unat (c_length c) \<le> length b"
    using each by blast
  from copy_chunks_ok [OF h1 h2 h3 h4 k(3)]
  obtain L w' ps where r: "copy_chunks ?dst 0 ?used w1 = Some (L, w')"
    "unat L = unat (0 :: uint32) + sum_list (map (\<lambda>c. unat (c_length c)) ?used)"
    "heap w' ?dst = Some (take (unat (0 :: uint32)) ?blk @ concat (map (valid_bytes w1) ?used)
            @ drop (unat (0 :: uint32) + sum_list (map (\<lambda>c. unat (c_length c)) ?used)) ?blk)"
    "frees w' = frees w1 @ ps" "map Some ps = map c_ptr ?used"
    by blast
  have vs: "map (valid_bytes w1) ?used = map (valid_bytes w) ?used"
  proof (rule map_cong [OF refl])
    fix c assume "c \<in> set ?used"
    from each [OF this] obtain p where "c_ptr c = Some p" "heap w1 p = heap w p" by auto
    then show "valid_bytes w1 c = valid_bytes w c" by (rule valid_bytes_heap)
  qed
  let ?cat = "concat (map (valid_bytes w) ?used)"
  let ?out = "?cat @ drop (unat L) ?blk"
  have lc: "length ?cat = unat L" using length_concat_valid [OF k(2)] r(2) by simp
  have hb: "heap w' ?dst = Some ?out" using r(3) r(2) vs by simp
  have lo: "length ?out = unat ?A" using lc h2 r(2) by simp
  have tk: "take (unat L) ?out = ?cat" using lc by simp
  have ne: "numChunks d \<noteq> 1" using n by auto
  have lst: "(replicate ?n zero_chunk @ drop ?n (c0 # cs0))
                [0 := \<lparr>c_ptr = Some ?dst, c_length = L, allocatedLength = ?A\<rparr>]
      = \<lparr>c_ptr = Some ?dst, c_length = L, allocatedLength = ?A\<rparr>
          # replicate (?n - 1) zero_chunk @ drop ?n (c0 # cs0)"
    using n by (cases ?n) simp_all
  have nl: "\<not> length (c0 # cs0) < ?n" using k(1) c0 by simp
  have run: "dpiVar__setBytesFromDynamicBytes bytes d w
        = (DPI_SUCCESS,
           (bytes\<lparr>b_ptr := Some (?dst, 0), b_length := L\<rparr>,
            d\<lparr>numChunks := 1,
              chunks := Some (\<lparr>c_ptr = Some ?dst, c_length = L, allocatedLength = ?A\<rparr>
                # replicate (?n - 1) zero_chunk @ drop ?n cs)\<rparr>),
           w')"
    unfolding dpiVar__setBytesFromDynamicBytes_def
    using ne cs nl m(1) r(1) lst unfolding c0 by (simp add: Let_def)
  have fr: "frees w' = frees w @ ps" using r(4) m(3) by simp
  have r2: "unat L = sum_list (map (\<lambda>c. unat (c_length c)) ?used)" using r(2) by simp
  show ?thesis
    unfolding u using run r2 A hb lo tk fr r(5) by blast
qed

lemma valid_bytes_first:
  assumes "heap w p = Some blk" "unat L \<le> length blk"
  shows "valid_bytes w \<lparr>c_ptr = Some p, c_length = L, allocatedLength = A\<rparr> = take (unat L) blk"
  using assms by (simp add: valid_bytes_def read_mem_def at_start_def)

text \<open>
  C4: \<^verbatim>\<open>dpiVar__setBytesFromDynamicBytes\<close>. With one chunk, the bytes are pointed at
  the chunk and nothing else changes. With more than one chunk, each of them a block of
  its reserved length, no two the same block, the reserved lengths summing to less than
  \<open>2 ^ 32\<close>, and \<^verbatim>\<open>malloc\<close> granting the request: the call succeeds and leaves one chunk,
  a new block of the sum of the reserved lengths, whose valid bytes are the valid bytes
  of the chunks one after the other and whose length is the sum of their lengths; the
  block of each chunk is freed once; and a second call returns the same bytes and changes
  nothing.
\<close>

theorem consolidate_chunks:
  assumes run: "dpiVar__setBytesFromDynamicBytes bytes d w = (st, (bytes', d'), w')"
  shows "(numChunks d = 1 \<and> chunks d = Some (c # cs) \<longrightarrow>
            st = DPI_SUCCESS \<and> d' = d \<and> w' = w
          \<and> bytes' = bytes\<lparr>b_ptr := at_start (c_ptr c), b_length := c_length c\<rparr>)
       \<and> (1 < unat (numChunks d) \<and> chunks_ok w d \<and> fst (next_outcome w) \<longrightarrow>
            st = DPI_SUCCESS \<and> numChunks d' = 1
          \<and> (\<exists>first. used_chunks d' = [first]
                 \<and> c_ptr first = Some (next_addr w)
                 \<and> b_ptr bytes' = Some (next_addr w, 0)
                 \<and> b_length bytes' = c_length first
                 \<and> unat (c_length first)
                     = sum_list (map (\<lambda>c. unat (c_length c)) (used_chunks d))
                 \<and> unat (allocatedLength first)
                     = sum_list (map (\<lambda>c. unat (allocatedLength c)) (used_chunks d))
                 \<and> map_option length (heap w' (next_addr w))
                     = Some (unat (allocatedLength first))
                 \<and> valid_bytes w' first = concat (map (valid_bytes w) (used_chunks d)))
          \<and> (\<exists>ps. frees w' = frees w @ ps \<and> map Some ps = map c_ptr (used_chunks d)
                 \<and> distinct ps)
          \<and> dpiVar__setBytesFromDynamicBytes bytes' d' w' = (DPI_SUCCESS, (bytes', d'), w'))"
proof -
  have p1: "numChunks d = 1 \<and> chunks d = Some (c # cs) \<longrightarrow>
            st = DPI_SUCCESS \<and> d' = d \<and> w' = w
          \<and> bytes' = bytes\<lparr>b_ptr := at_start (c_ptr c), b_length := c_length c\<rparr>"
    using run by (auto simp add: dpiVar__setBytesFromDynamicBytes_def)
  have p2: "1 < unat (numChunks d) \<and> chunks_ok w d \<and> fst (next_outcome w) \<longrightarrow>
            st = DPI_SUCCESS \<and> numChunks d' = 1
          \<and> (\<exists>first. used_chunks d' = [first]
                 \<and> c_ptr first = Some (next_addr w)
                 \<and> b_ptr bytes' = Some (next_addr w, 0)
                 \<and> b_length bytes' = c_length first
                 \<and> unat (c_length first)
                     = sum_list (map (\<lambda>c. unat (c_length c)) (used_chunks d))
                 \<and> unat (allocatedLength first)
                     = sum_list (map (\<lambda>c. unat (allocatedLength c)) (used_chunks d))
                 \<and> map_option length (heap w' (next_addr w))
                     = Some (unat (allocatedLength first))
                 \<and> valid_bytes w' first = concat (map (valid_bytes w) (used_chunks d)))
          \<and> (\<exists>ps. frees w' = frees w @ ps \<and> map Some ps = map c_ptr (used_chunks d)
                 \<and> distinct ps)
          \<and> dpiVar__setBytesFromDynamicBytes bytes' d' w' = (DPI_SUCCESS, (bytes', d'), w')"
  proof
    assume h: "1 < unat (numChunks d) \<and> chunks_ok w d \<and> fst (next_outcome w)"
    then have n: "1 < unat (numChunks d)" and ok: "chunks_ok w d" and g: "fst (next_outcome w)"
      by simp_all
    obtain cs0 where cs0: "chunks d = Some cs0"
      using ok by (auto simp add: chunks_ok_def split: option.splits)
    let ?dst = "next_addr w"
    let ?rest = "replicate (unat (numChunks d) - 1) zero_chunk @ drop (unat (numChunks d)) cs0"
    from consolidate_many [OF n ok g cs0, of bytes]
    obtain L A blk w2 ps where r:
      "dpiVar__setBytesFromDynamicBytes bytes d w
        = (DPI_SUCCESS,
           (bytes\<lparr>b_ptr := Some (?dst, 0), b_length := L\<rparr>,
            d\<lparr>numChunks := 1,
              chunks := Some (\<lparr>c_ptr = Some ?dst, c_length = L, allocatedLength = A\<rparr> # ?rest)\<rparr>),
           w2)"
      "unat L = sum_list (map (\<lambda>c. unat (c_length c)) (used_chunks d))"
      "unat A = sum_list (map (\<lambda>c. unat (allocatedLength c)) (used_chunks d))"
      "heap w2 ?dst = Some blk" "length blk = unat A"
      "take (unat L) blk = concat (map (valid_bytes w) (used_chunks d))"
      "frees w2 = frees w @ ps" "map Some ps = map c_ptr (used_chunks d)"
      by blast
    let ?first = "\<lparr>c_ptr = Some ?dst, c_length = L, allocatedLength = A\<rparr>"
    have e: "st = DPI_SUCCESS" "w' = w2"
      "bytes' = bytes\<lparr>b_ptr := Some (?dst, 0), b_length := L\<rparr>"
      "d' = d\<lparr>numChunks := 1, chunks := Some (?first # ?rest)\<rparr>"
      using run r(1) by simp_all
    have u: "used_chunks d' = [?first]" unfolding e(4) by (simp add: used_chunks_def)
    have ua: "list_all (chunk_ok w) (used_chunks d)" "distinct (map c_ptr (used_chunks d))"
      using ok cs0 by (simp_all add: chunks_ok_def)
    have le: "unat L \<le> length blk"
      using valid_le_allocated [OF ua(1)] r(2) r(3) r(5) by simp
    have vb: "valid_bytes w' ?first = concat (map (valid_bytes w) (used_chunks d))"
      unfolding e(2) using valid_bytes_first [OF r(4) le] r(6) by simp
    have dp: "distinct ps"
      using ua(2) r(8) by (metis distinct_map)
    have again: "dpiVar__setBytesFromDynamicBytes bytes' d' w' = (DPI_SUCCESS, (bytes', d'), w')"
      unfolding e(3) e(4) by (simp add: dpiVar__setBytesFromDynamicBytes_def at_start_def)
    have one: "\<exists>first. used_chunks d' = [first]
                 \<and> c_ptr first = Some (next_addr w)
                 \<and> b_ptr bytes' = Some (next_addr w, 0)
                 \<and> b_length bytes' = c_length first
                 \<and> unat (c_length first)
                     = sum_list (map (\<lambda>c. unat (c_length c)) (used_chunks d))
                 \<and> unat (allocatedLength first)
                     = sum_list (map (\<lambda>c. unat (allocatedLength c)) (used_chunks d))
                 \<and> map_option length (heap w' (next_addr w))
                     = Some (unat (allocatedLength first))
                 \<and> valid_bytes w' first = concat (map (valid_bytes w) (used_chunks d))"
      apply (rule exI [of _ ?first])
      using u vb r(2) r(3) r(4) r(5) e(2) e(3) by simp
    have frs: "\<exists>ps. frees w' = frees w @ ps \<and> map Some ps = map c_ptr (used_chunks d)
                 \<and> distinct ps"
      using r(7) r(8) dp e(2) by blast
    have n1: "numChunks d' = 1" using e(4) by simp
    show "st = DPI_SUCCESS \<and> numChunks d' = 1
          \<and> (\<exists>first. used_chunks d' = [first]
                 \<and> c_ptr first = Some (next_addr w)
                 \<and> b_ptr bytes' = Some (next_addr w, 0)
                 \<and> b_length bytes' = c_length first
                 \<and> unat (c_length first)
                     = sum_list (map (\<lambda>c. unat (c_length c)) (used_chunks d))
                 \<and> unat (allocatedLength first)
                     = sum_list (map (\<lambda>c. unat (allocatedLength c)) (used_chunks d))
                 \<and> map_option length (heap w' (next_addr w))
                     = Some (unat (allocatedLength first))
                 \<and> valid_bytes w' first = concat (map (valid_bytes w) (used_chunks d)))
          \<and> (\<exists>ps. frees w' = frees w @ ps \<and> map Some ps = map c_ptr (used_chunks d)
                 \<and> distinct ps)
          \<and> dpiVar__setBytesFromDynamicBytes bytes' d' w' = (DPI_SUCCESS, (bytes', d'), w')"
      using e(1) n1 one frs again by (intro conjI)
  qed
  show ?thesis using p1 p2 by (rule conjI)
qed

theorem consolidate_chunks_witness:
  "dpiVar__setBytesFromDynamicBytes (asBytes zero_data) dyn_1 w_3
     = (DPI_SUCCESS, ((asBytes zero_data)\<lparr>b_ptr := Some (5, 0), b_length := 100\<rparr>, dyn_1), w_3)
   \<and> fst (dpiVar__setBytesFromDynamicBytes (asBytes zero_data) dyn_3 w_3) = DPI_SUCCESS
   \<and> numChunks (snd (fst (snd (dpiVar__setBytesFromDynamicBytes (asBytes zero_data) dyn_3 w_3))))
       = 1
   \<and> unat (b_length (fst (fst (snd (dpiVar__setBytesFromDynamicBytes (asBytes zero_data) dyn_3
          w_3))))) = 4233
   \<and> (\<exists>first.
         used_chunks (snd (fst (snd (dpiVar__setBytesFromDynamicBytes (asBytes zero_data) dyn_3
           w_3)))) = [first]
       \<and> unat (c_length first) = 4233 \<and> unat (allocatedLength first) = 12288
       \<and> valid_bytes (snd (snd (dpiVar__setBytesFromDynamicBytes (asBytes zero_data) dyn_3 w_3)))
            first
           = replicate 100 (Byte 1) @ replicate 4096 (Byte 2) @ replicate 37 (Byte 3))
   \<and> map Some (frees (snd (snd (dpiVar__setBytesFromDynamicBytes (asBytes zero_data) dyn_3
         w_3)))) = [Some 5, Some 6, Some 7]"
proof -
  let ?b = "asBytes zero_data"
  let ?r1 = "dpiVar__setBytesFromDynamicBytes ?b dyn_1 w_3"
  let ?r3 = "dpiVar__setBytesFromDynamicBytes ?b dyn_3 w_3"
  have r1: "?r1 = (fst ?r1, (fst (fst (snd ?r1)), snd (fst (snd ?r1))), snd (snd ?r1))"
    by simp
  have r3: "?r3 = (fst ?r3, (fst (fst (snd ?r3)), snd (fst (snd ?r3))), snd (snd ?r3))"
    by simp
  have d1: "numChunks dyn_1 = 1
      \<and> chunks dyn_1 = Some (\<lparr>c_ptr = Some 5, c_length = 100, allocatedLength = 4096\<rparr>
                           # replicate 7 zero_chunk)"
    by (simp add: dyn_1_def)
  have u: "used_chunks dyn_3 = chunks_3"
    by (simp add: used_chunks_def dyn_3_def chunks_3_def)
  have ok: "1 < unat (numChunks dyn_3) \<and> chunks_ok w_3 dyn_3 \<and> fst (next_outcome w_3)"
    unfolding chunks_ok_def u
    by (simp add: dyn_3_def chunks_3_def chunk_ok_def w_3_def next_outcome_def)
  have v: "map (valid_bytes w_3) chunks_3
      = [replicate 100 (Byte 1), replicate 4096 (Byte 2), replicate 37 (Byte 3)]"
    by (simp add: chunks_3_def valid_bytes_def read_mem_def at_start_def w_3_def)
  have s: "sum_list (map (\<lambda>c. unat (c_length c)) chunks_3) = 4233"
    "sum_list (map (\<lambda>c. unat (allocatedLength c)) chunks_3) = 12288"
    "map c_ptr chunks_3 = [Some 5, Some 6, Some 7]"
    by (simp_all add: chunks_3_def)
  have f: "frees w_3 = []" by (simp add: w_3_def)
  have a: "at_start (Some 5) = Some (5, 0)" by (simp add: at_start_def)
  note one = consolidate_chunks [OF r1, THEN conjunct1, rule_format, OF d1]
  note many = consolidate_chunks [OF r3, THEN conjunct2, rule_format, OF ok, unfolded u v s f]
  have p1: "?r1 = (DPI_SUCCESS, (?b\<lparr>b_ptr := Some (5, 0), b_length := 100\<rparr>, dyn_1), w_3)"
    using one a by (metis r1 dpiDynamicBytesChunk.select_convs(1,2))
  show ?thesis
    using p1 many by auto
qed

end
